theory Spec2Isabelle
  imports Complex_Main "HOL-Library.Stream"
begin

section \<open>Data model\<close>

text \<open>
  The records follow the interfaces \<^verbatim>\<open>Expense\<close>, \<^verbatim>\<open>BudgetLimit\<close>, \<^verbatim>\<open>BudgetAlert\<close> and
  \<^verbatim>\<open>BudgetProgress\<close> of the type declarations. Several interfaces share field names
  (\<^verbatim>\<open>id\<close>, \<^verbatim>\<open>userId\<close>, \<^verbatim>\<open>amount\<close>, ...) and \<^verbatim>\<open>id\<close> is a HOL constant, so every field
  carries a prefix naming its interface.

  Numbers: a JavaScript \<^verbatim>\<open>number\<close> holding money is a \<^typ>\<open>real\<close> (rounding of binary
  floating point is not modelled). An ISO instant string (\<^verbatim>\<open>createdAt\<close>, \<^verbatim>\<open>updatedAt\<close>,
  \<^verbatim>\<open>date\<close>) is the instant it denotes, in milliseconds since the epoch, i.e. the value
  of \<^verbatim>\<open>new Date(s).getTime()\<close>; \<^verbatim>\<open>new Date().toISOString()\<close> is the clock reading.
  An optional field is an \<^typ>\<open>'a option\<close>.
\<close>

datatype period = Daily | Weekly | Monthly | Yearly

datatype alert_type = Warning | Exceeded | Approaching

datatype status = StSafe | StWarning | StExceeded

record expense =
  e_id :: string
  e_userId :: string
  e_amount :: real
  e_category :: string
  e_description :: string
  e_date :: int
  e_createdAt :: int
  e_updatedAt :: int
  e_synced :: bool

record budgetLimit =
  b_id :: string
  b_userId :: string
  b_name :: string
  b_amount :: real
  b_period :: period
  b_category :: "string option"
  b_enabled :: bool
  b_warningThreshold :: real
  b_createdAt :: int
  b_updatedAt :: int
  b_synced :: bool

text \<open>
  \<^verbatim>\<open>spent / budget.amount\<close> is a JavaScript division: by zero it gives \<^verbatim>\<open>Infinity\<close>,
  \<^verbatim>\<open>-Infinity\<close> or \<^verbatim>\<open>NaN\<close>, where HOL's \<open>x / 0\<close> is \<open>0\<close>. The percentage is therefore a
  \<open>jsnum\<close>, with the operations the source applies to it.
\<close>

datatype jsnum = Fin real | PosInf | NegInf | NaN

definition js_div :: "real \<Rightarrow> real \<Rightarrow> jsnum" where
  "js_div x y =
     (if y \<noteq> 0 then Fin (x / y)
      else if 0 < x then PosInf else if x < 0 then NegInf else NaN)"

fun js_times100 :: "jsnum \<Rightarrow> jsnum" where
  "js_times100 (Fin x) = Fin (x * 100)"
| "js_times100 n = n"

text \<open>\<^verbatim>\<open>Math.round\<close>: the nearest integer, a half rounded up.\<close>

fun Math_round :: "jsnum \<Rightarrow> jsnum" where
  "Math_round (Fin x) = Fin (of_int \<lfloor>x + 1 / 2\<rfloor>)"
| "Math_round n = n"

text \<open>\<^verbatim>\<open>p >= t\<close> for a finite \<open>t\<close>: false on \<^verbatim>\<open>NaN\<close>.\<close>

fun js_ge :: "jsnum \<Rightarrow> real \<Rightarrow> bool" where
  "js_ge (Fin x) t = (t \<le> x)"
| "js_ge PosInf t = True"
| "js_ge NegInf t = False"
| "js_ge NaN t = False"

text \<open>
  The text of an alert is a template filled with values (\<^verbatim>\<open>generateAlertMessage\<close>); the
  model keeps which template was chosen and its arguments, not the rendered characters.
\<close>

datatype message =
    MsgExceeded period string "string option" real real jsnum
  | MsgApproaching period string "string option" real real jsnum
  | MsgAt string "string option" jsnum period

record budgetAlert =
  a_id :: string
  a_budgetId :: string
  a_userId :: string
  a_type :: alert_type
  a_message :: message
  a_currentAmount :: real
  a_budgetAmount :: real
  a_percentage :: jsnum
  a_period :: period
  a_category :: "string option"
  a_createdAt :: int
  a_dismissed :: bool

record budgetProgress =
  p_budgetId :: string
  p_budgetName :: string
  p_period :: period
  p_category :: "string option"
  p_spent :: real
  p_limit :: real
  p_remaining :: real
  p_percentage :: jsnum
  p_daysLeft :: int
  p_status :: status
  p_warningThreshold :: real

section \<open>The world: local store, remote store, runtime\<close>

text \<open>
  The Dexie tables \<^verbatim>\<open>expenses\<close>, \<^verbatim>\<open>budgets\<close> and \<^verbatim>\<open>alerts\<close> have the primary key
  \<^verbatim>\<open>id\<close>; each is the list of its rows. A query enumerates the rows in list order (Dexie
  enumerates in index order; no theorem below depends on the order). The Firestore
  collections \<^verbatim>\<open>expenses\<close> and \<^verbatim>\<open>budgets\<close> are lists of (document id, data).

  What the code reads from its runtime is part of the world: the connectivity flag
  \<^verbatim>\<open>navigator.onLine\<close>, the clock read by \<^verbatim>\<open>new Date()\<close> (constant during one
  operation), the identifiers \<^verbatim>\<open>uuidv4()\<close> will return, and \<open>faults\<close>, the plan of I/O
  failures: each operation on the local or remote store consumes the head of the plan and
  rejects when it is \<open>True\<close>; an exhausted plan means no further failure.

  The errors are the rejection of Dexie's \<^verbatim>\<open>add\<close> on an existing key, any other
  rejection by the local store, a rejection by the remote store, and the
  \<^verbatim>\<open>Error('Cannot sync while offline')\<close> of \<^verbatim>\<open>manualSync\<close>.
\<close>

datatype error = ConstraintError | StorageFailure | NetworkFailure | OfflineError

record world =
  expenses :: "expense list"
  budgets :: "budgetLimit list"
  alerts :: "budgetAlert list"
  fsExpenses :: "(string \<times> expense) list"
  fsBudgets :: "(string \<times> budgetLimit) list"
  syncInProgress :: bool
  onLine :: bool
  clock :: int
  uuids :: "string stream"
  faults :: "bool list"

type_synonym 'a io = "world \<Rightarrow> (error + 'a) \<times> world"

text \<open>
  An \<^verbatim>\<open>async\<close> function is a function from the world to its outcome, \<open>Inl\<close> a thrown
  error, and the world it leaves. \<open>andThen\<close> is \<^verbatim>\<open>await\<close> followed by the rest of the
  body, \<open>tryCatch\<close> and \<open>tryFinally\<close> are the \<^verbatim>\<open>try\<close> blocks. A wrapper of the form
  \<^verbatim>\<open>try { ... } catch (error) { console.error(...); throw error; }\<close> rethrows what it
  caught and is modelled by its body; console output is not modelled.
\<close>

definition ret :: "'a \<Rightarrow> 'a io" where
  "ret x w = (Inr x, w)"

definition andThen :: "'a io \<Rightarrow> ('a \<Rightarrow> 'b io) \<Rightarrow> 'b io" where
  "andThen m f w = (case m w of (Inl e, w') \<Rightarrow> (Inl e, w') | (Inr x, w') \<Rightarrow> f x w')"

definition tryCatch :: "'a io \<Rightarrow> (error \<Rightarrow> 'a io) \<Rightarrow> 'a io" where
  "tryCatch m h w = (case m w of (Inl e, w') \<Rightarrow> h e w' | (Inr x, w') \<Rightarrow> (Inr x, w'))"

definition tryFinally :: "'a io \<Rightarrow> (world \<Rightarrow> world) \<Rightarrow> 'a io" where
  "tryFinally m g w = (case m w of (r, w') \<Rightarrow> (r, g w'))"

definition nextFails :: "world \<Rightarrow> bool" where
  "nextFails w = (faults w \<noteq> [] \<and> hd (faults w))"

definition storeOp :: "error \<Rightarrow> 'a io \<Rightarrow> 'a io" where
  "storeOp err op w =
     (let w' = w\<lparr>faults := tl (faults w)\<rparr>
      in if nextFails w then (Inl err, w') else op w')"


section \<open>Local Store: \<^verbatim>\<open>ExpenseDB\<close>\<close>

text \<open>
  \<^verbatim>\<open>Partial<Expense>\<close>: each field present or absent. The primary key is left out: no
  caller passes it, and \<^verbatim>\<open>update\<close> addresses the row by the key given separately.
\<close>

record expense_updates =
  ue_userId :: "string option"
  ue_amount :: "real option"
  ue_category :: "string option"
  ue_description :: "string option"
  ue_date :: "int option"
  ue_createdAt :: "int option"
  ue_updatedAt :: "int option"
  ue_synced :: "bool option"

fun patch :: "'a option \<Rightarrow> 'a \<Rightarrow> 'a" where
  "patch None old = old"
| "patch (Some v) old = v"

definition apply_expense_updates :: "expense_updates \<Rightarrow> expense \<Rightarrow> expense" where
  "apply_expense_updates u e =
     e\<lparr>e_userId := patch (ue_userId u) (e_userId e),
       e_amount := patch (ue_amount u) (e_amount e),
       e_category := patch (ue_category u) (e_category e),
       e_description := patch (ue_description u) (e_description e),
       e_date := patch (ue_date u) (e_date e),
       e_createdAt := patch (ue_createdAt u) (e_createdAt e),
       e_updatedAt := patch (ue_updatedAt u) (e_updatedAt e),
       e_synced := patch (ue_synced u) (e_synced e)\<rparr>"

definition no_expense_updates :: expense_updates where
  "no_expense_updates =
     \<lparr>ue_userId = None, ue_amount = None, ue_category = None, ue_description = None,
      ue_date = None, ue_createdAt = None, ue_updatedAt = None, ue_synced = None\<rparr>"

text \<open>
  \<^verbatim>\<open>db.expenses.add(expense)\<close>: Dexie's \<^verbatim>\<open>add\<close> rejects with a ConstraintError when the
  key is already in the table, and stores nothing.
\<close>

definition ExpenseDB_addExpense :: "expense \<Rightarrow> string io" where
  "ExpenseDB_addExpense e =
     storeOp StorageFailure (\<lambda>w.
       if e_id e \<in> set (map e_id (expenses w)) then (Inl ConstraintError, w)
       else (Inr (e_id e), w\<lparr>expenses := expenses w @ [e]\<rparr>))"

definition ExpenseDB_getExpenses :: "string \<Rightarrow> expense list io" where
  "ExpenseDB_getExpenses userId =
     storeOp StorageFailure (\<lambda>w.
       (Inr (rev (rev (filter (\<lambda>e. e_userId e = userId) (expenses w)))), w))"

definition ExpenseDB_getUnsyncedExpenses :: "string \<Rightarrow> expense list io" where
  "ExpenseDB_getUnsyncedExpenses userId =
     storeOp StorageFailure (\<lambda>w.
       (Inr (filter (\<lambda>e. \<not> e_synced e) (filter (\<lambda>e. e_userId e = userId) (expenses w))), w))"

text \<open>\<^verbatim>\<open>db.expenses.update(id, updates)\<close> changes the row with that key, if there is one.\<close>

definition ExpenseDB_updateExpense :: "string \<Rightarrow> expense_updates \<Rightarrow> unit io" where
  "ExpenseDB_updateExpense k updates =
     storeOp StorageFailure (\<lambda>w.
       (Inr (), w\<lparr>expenses :=
          map (\<lambda>e. if e_id e = k then apply_expense_updates updates e else e) (expenses w)\<rparr>))"

definition ExpenseDB_markAsSynced :: "string \<Rightarrow> unit io" where
  "ExpenseDB_markAsSynced k =
     storeOp StorageFailure (\<lambda>w.
       (Inr (), w\<lparr>expenses :=
          map (\<lambda>e. if e_id e = k
                    then apply_expense_updates (no_expense_updates\<lparr>ue_synced := Some True\<rparr>) e
                    else e) (expenses w)\<rparr>))"

definition ExpenseDB_deleteExpense :: "string \<Rightarrow> unit io" where
  "ExpenseDB_deleteExpense k =
     storeOp StorageFailure (\<lambda>w.
       (Inr (), w\<lparr>expenses := filter (\<lambda>e. e_id e \<noteq> k) (expenses w)\<rparr>))"

section \<open>Local Store: \<^verbatim>\<open>BudgetDB\<close>\<close>

text \<open>
  \<^verbatim>\<open>Partial<BudgetLimit>\<close>, again without the primary key. \<^verbatim>\<open>category\<close> is optional in
  the interface, so an update may also set it to absent.
\<close>

record budget_updates =
  ub_userId :: "string option"
  ub_name :: "string option"
  ub_amount :: "real option"
  ub_period :: "period option"
  ub_category :: "string option option"
  ub_enabled :: "bool option"
  ub_warningThreshold :: "real option"
  ub_createdAt :: "int option"
  ub_updatedAt :: "int option"
  ub_synced :: "bool option"

definition apply_budget_updates :: "budget_updates \<Rightarrow> budgetLimit \<Rightarrow> budgetLimit" where
  "apply_budget_updates u b =
     b\<lparr>b_userId := patch (ub_userId u) (b_userId b),
       b_name := patch (ub_name u) (b_name b),
       b_amount := patch (ub_amount u) (b_amount b),
       b_period := patch (ub_period u) (b_period b),
       b_category := patch (ub_category u) (b_category b),
       b_enabled := patch (ub_enabled u) (b_enabled b),
       b_warningThreshold := patch (ub_warningThreshold u) (b_warningThreshold b),
       b_createdAt := patch (ub_createdAt u) (b_createdAt b),
       b_updatedAt := patch (ub_updatedAt u) (b_updatedAt b),
       b_synced := patch (ub_synced u) (b_synced b)\<rparr>"

definition no_budget_updates :: budget_updates where
  "no_budget_updates =
     \<lparr>ub_userId = None, ub_name = None, ub_amount = None, ub_period = None,
      ub_category = None, ub_enabled = None, ub_warningThreshold = None,
      ub_createdAt = None, ub_updatedAt = None, ub_synced = None\<rparr>"

definition BudgetDB_addBudget :: "budgetLimit \<Rightarrow> unit io" where
  "BudgetDB_addBudget b =
     storeOp StorageFailure (\<lambda>w.
       if b_id b \<in> set (map b_id (budgets w)) then (Inl ConstraintError, w)
       else (Inr (), w\<lparr>budgets := budgets w @ [b]\<rparr>))"

definition BudgetDB_getBudgets :: "string \<Rightarrow> budgetLimit list io" where
  "BudgetDB_getBudgets userId =
     storeOp StorageFailure (\<lambda>w.
       (Inr (rev (filter (\<lambda>b. b_userId b = userId) (budgets w))), w))"

definition BudgetDB_getBudgetById :: "string \<Rightarrow> budgetLimit option io" where
  "BudgetDB_getBudgetById k =
     storeOp StorageFailure (\<lambda>w. (Inr (find (\<lambda>b. b_id b = k) (budgets w)), w))"

text \<open>
  \<^verbatim>\<open>{...updates, updatedAt: new Date().toISOString(), synced: false}\<close>: the two stamps
  come after the spread and override what the caller supplied.
\<close>

definition BudgetDB_updateBudget :: "string \<Rightarrow> budget_updates \<Rightarrow> unit io" where
  "BudgetDB_updateBudget k updates w =
     storeOp StorageFailure (\<lambda>w'.
       (Inr (), w'\<lparr>budgets :=
          map (\<lambda>b. if b_id b = k
                    then apply_budget_updates
                           (updates\<lparr>ub_updatedAt := Some (clock w), ub_synced := Some False\<rparr>) b
                    else b) (budgets w')\<rparr>)) w"

text \<open>Two store operations, one after the other, outside any transaction.\<close>

definition BudgetDB_deleteBudget :: "string \<Rightarrow> unit io" where
  "BudgetDB_deleteBudget k =
     andThen
       (storeOp StorageFailure (\<lambda>w.
          (Inr (), w\<lparr>budgets := filter (\<lambda>b. b_id b \<noteq> k) (budgets w)\<rparr>)))
       (\<lambda>_. storeOp StorageFailure (\<lambda>w.
          (Inr (), w\<lparr>alerts := filter (\<lambda>a. a_budgetId a \<noteq> k) (alerts w)\<rparr>)))"

definition BudgetDB_getActiveBudgets :: "string \<Rightarrow> budgetLimit list io" where
  "BudgetDB_getActiveBudgets userId =
     storeOp StorageFailure (\<lambda>w.
       (Inr (filter b_enabled (filter (\<lambda>b. b_userId b = userId) (budgets w))), w))"

definition BudgetDB_getUnsyncedBudgets :: "string \<Rightarrow> budgetLimit list io" where
  "BudgetDB_getUnsyncedBudgets userId =
     storeOp StorageFailure (\<lambda>w.
       (Inr (filter (\<lambda>b. \<not> b_synced b) (filter (\<lambda>b. b_userId b = userId) (budgets w))), w))"

definition BudgetDB_markBudgetAsSynced :: "string \<Rightarrow> unit io" where
  "BudgetDB_markBudgetAsSynced k =
     storeOp StorageFailure (\<lambda>w.
       (Inr (), w\<lparr>budgets :=
          map (\<lambda>b. if b_id b = k
                    then apply_budget_updates (no_budget_updates\<lparr>ub_synced := Some True\<rparr>) b
                    else b) (budgets w)\<rparr>))"

definition BudgetDB_addAlert :: "budgetAlert \<Rightarrow> unit io" where
  "BudgetDB_addAlert a =
     storeOp StorageFailure (\<lambda>w.
       if a_id a \<in> set (map a_id (alerts w)) then (Inl ConstraintError, w)
       else (Inr (), w\<lparr>alerts := alerts w @ [a]\<rparr>))"

text \<open>
  \<^verbatim>\<open>cutoffDate.setHours(cutoffDate.getHours() - hoursRecent)\<close> moves the clock reading
  back by that many hours (of 3600000 ms: no daylight-saving shift is modelled). The query
  returns the first row of the budget that has the type, is not dismissed and was created
  strictly after the cutoff.
\<close>

definition BudgetDB_getRecentAlert :: "string \<Rightarrow> alert_type \<Rightarrow> int \<Rightarrow> budgetAlert option io" where
  "BudgetDB_getRecentAlert budgetId ty hoursRecent w =
     (let cutoffDate = clock w - hoursRecent * 3600000
      in storeOp StorageFailure (\<lambda>w'.
           (Inr (find (\<lambda>a. a_type a = ty \<and> \<not> a_dismissed a \<and> cutoffDate < a_createdAt a)
                   (filter (\<lambda>a. a_budgetId a = budgetId) (alerts w'))), w')) w)"

section \<open>Sync Engine: \<^verbatim>\<open>SyncService\<close>\<close>

text \<open>
  \<^verbatim>\<open>setDoc(doc(db, c, id), data)\<close> writes the document with that id, replacing the one
  that is there. \<^verbatim>\<open>getDocs(query(c, where('userId', '==', userId), orderBy('createdAt',
  'desc')))\<close> returns the data of the owner's documents, newest first.
\<close>

definition setDoc :: "string \<Rightarrow> 'v \<Rightarrow> (string \<times> 'v) list \<Rightarrow> (string \<times> 'v) list" where
  "setDoc k v docs =
     (if k \<in> set (map fst docs) then map (\<lambda>(k', v'). if k' = k then (k, v) else (k', v')) docs
      else docs @ [(k, v)])"

definition setDoc_expenses :: "string \<Rightarrow> expense \<Rightarrow> unit io" where
  "setDoc_expenses k data =
     storeOp NetworkFailure (\<lambda>w. (Inr (), w\<lparr>fsExpenses := setDoc k data (fsExpenses w)\<rparr>))"

definition setDoc_budgets :: "string \<Rightarrow> budgetLimit \<Rightarrow> unit io" where
  "setDoc_budgets k data =
     storeOp NetworkFailure (\<lambda>w. (Inr (), w\<lparr>fsBudgets := setDoc k data (fsBudgets w)\<rparr>))"

definition getDocs_expenses :: "string \<Rightarrow> expense list io" where
  "getDocs_expenses userId =
     storeOp NetworkFailure (\<lambda>w.
       (Inr (sort_key (\<lambda>e. - e_createdAt e)
               (filter (\<lambda>e. e_userId e = userId) (map snd (fsExpenses w)))), w))"

definition getDocs_budgets :: "string \<Rightarrow> budgetLimit list io" where
  "getDocs_budgets userId =
     storeOp NetworkFailure (\<lambda>w.
       (Inr (sort_key (\<lambda>b. - b_createdAt b)
               (filter (\<lambda>b. b_userId b = userId) (map snd (fsBudgets w)))), w))"

text \<open>
  The body of the inner \<^verbatim>\<open>try\<close> of the upload loop, and the loop with its two counters:
  a rejected upload or a rejected \<^verbatim>\<open>markAsSynced\<close> is caught, counted and the loop goes
  on.
\<close>

definition uploadExpense :: "expense \<Rightarrow> unit io" where
  "uploadExpense e =
     andThen (setDoc_expenses (e_id e) (e\<lparr>e_synced := True\<rparr>))
       (\<lambda>_. ExpenseDB_markAsSynced (e_id e))"

fun uploadExpenses :: "expense list \<Rightarrow> nat \<times> nat \<Rightarrow> world \<Rightarrow> (nat \<times> nat) \<times> world" where
  "uploadExpenses [] counts w = (counts, w)"
| "uploadExpenses (e # es) (successCount, failureCount) w =
     (case uploadExpense e w of
        (Inr _, w') \<Rightarrow> uploadExpenses es (Suc successCount, failureCount) w'
      | (Inl _, w') \<Rightarrow> uploadExpenses es (successCount, Suc failureCount) w')"

definition SyncService_syncToFirebase :: "string \<Rightarrow> unit io" where
  "SyncService_syncToFirebase userId w =
     (if syncInProgress w then (Inr (), w)
      else tryFinally
             (andThen (\<lambda>w. (Inr (), w\<lparr>syncInProgress := True\<rparr>))
                (\<lambda>_. andThen (ExpenseDB_getUnsyncedExpenses userId)
                   (\<lambda>unsyncedExpenses.
                      if length unsyncedExpenses = 0 then ret ()
                      else (\<lambda>w. (Inr (), snd (uploadExpenses unsyncedExpenses (0, 0) w))))))
             (\<lambda>w. w\<lparr>syncInProgress := False\<rparr>) w)"

text \<open>
  The insertion loop of the pull: the set of local ids is computed once, before the loop;
  a rejected \<^verbatim>\<open>addExpense\<close> leaves the loop and the function.
\<close>

fun addNewExpenses :: "string list \<Rightarrow> expense list \<Rightarrow> nat \<Rightarrow> nat io" where
  "addNewExpenses localExpenseIds [] addedCount w = (Inr addedCount, w)"
| "addNewExpenses localExpenseIds (firebaseExpense # rest) addedCount w =
     (if e_id firebaseExpense \<notin> set localExpenseIds
      then (case ExpenseDB_addExpense (firebaseExpense\<lparr>e_synced := True\<rparr>) w of
              (Inl err, w') \<Rightarrow> (Inl err, w')
            | (Inr _, w') \<Rightarrow> addNewExpenses localExpenseIds rest (Suc addedCount) w')
      else addNewExpenses localExpenseIds rest addedCount w)"

definition SyncService_syncFromFirebase :: "string \<Rightarrow> unit io" where
  "SyncService_syncFromFirebase userId =
     andThen (getDocs_expenses userId)
       (\<lambda>firebaseExpenses. andThen (ExpenseDB_getExpenses userId)
          (\<lambda>localExpenses. andThen (addNewExpenses (map e_id localExpenses) firebaseExpenses 0)
             (\<lambda>addedCount. ret ())))"

definition uploadBudget :: "budgetLimit \<Rightarrow> unit io" where
  "uploadBudget b =
     andThen (setDoc_budgets (b_id b) (b\<lparr>b_synced := True\<rparr>))
       (\<lambda>_. BudgetDB_markBudgetAsSynced (b_id b))"

fun uploadBudgets :: "budgetLimit list \<Rightarrow> nat \<times> nat \<Rightarrow> world \<Rightarrow> (nat \<times> nat) \<times> world" where
  "uploadBudgets [] counts w = (counts, w)"
| "uploadBudgets (b # bs) (successCount, failureCount) w =
     (case uploadBudget b w of
        (Inr _, w') \<Rightarrow> uploadBudgets bs (Suc successCount, failureCount) w'
      | (Inl _, w') \<Rightarrow> uploadBudgets bs (successCount, Suc failureCount) w')"

definition SyncService_syncBudgetsToFirebase :: "string \<Rightarrow> unit io" where
  "SyncService_syncBudgetsToFirebase userId =
     andThen (BudgetDB_getUnsyncedBudgets userId)
       (\<lambda>unsyncedBudgets.
          if length unsyncedBudgets = 0 then ret ()
          else (\<lambda>w. (Inr (), snd (uploadBudgets unsyncedBudgets (0, 0) w))))"

fun addNewBudgets :: "string list \<Rightarrow> budgetLimit list \<Rightarrow> nat \<Rightarrow> nat io" where
  "addNewBudgets localBudgetIds [] addedCount w = (Inr addedCount, w)"
| "addNewBudgets localBudgetIds (firebaseBudget # rest) addedCount w =
     (if b_id firebaseBudget \<notin> set localBudgetIds
      then (case BudgetDB_addBudget (firebaseBudget\<lparr>b_synced := True\<rparr>) w of
              (Inl err, w') \<Rightarrow> (Inl err, w')
            | (Inr _, w') \<Rightarrow> addNewBudgets localBudgetIds rest (Suc addedCount) w')
      else addNewBudgets localBudgetIds rest addedCount w)"

definition SyncService_syncBudgetsFromFirebase :: "string \<Rightarrow> unit io" where
  "SyncService_syncBudgetsFromFirebase userId =
     andThen (getDocs_budgets userId)
       (\<lambda>firebaseBudgets. andThen (BudgetDB_getBudgets userId)
          (\<lambda>localBudgets. andThen (addNewBudgets (map b_id localBudgets) firebaseBudgets 0)
             (\<lambda>addedCount. ret ())))"

text \<open>One \<^verbatim>\<open>try\<close> block around the four steps; its \<^verbatim>\<open>catch\<close> rethrows.\<close>

definition SyncService_fullSync :: "string \<Rightarrow> unit io" where
  "SyncService_fullSync userId =
     andThen (SyncService_syncFromFirebase userId)
       (\<lambda>_. andThen (SyncService_syncBudgetsFromFirebase userId)
          (\<lambda>_. andThen (SyncService_syncToFirebase userId)
             (\<lambda>_. SyncService_syncBudgetsToFirebase userId)))"

definition SyncService_isOnline :: "world \<Rightarrow> bool" where
  "SyncService_isOnline w = onLine w"

section \<open>Expense Service\<close>

text \<open>\<^verbatim>\<open>Partial<ExpenseFormData>\<close>, the fields a caller of the service may change.\<close>

record expense_form_updates =
  uf_amount :: "real option"
  uf_category :: "string option"
  uf_description :: "string option"
  uf_date :: "int option"

text \<open>\<^verbatim>\<open>{...updates, updatedAt: new Date().toISOString(), synced: false}\<close>\<close>

definition updateData :: "expense_form_updates \<Rightarrow> int \<Rightarrow> expense_updates" where
  "updateData updates now =
     \<lparr>ue_userId = None, ue_amount = uf_amount updates, ue_category = uf_category updates,
      ue_description = uf_description updates, ue_date = uf_date updates,
      ue_createdAt = None, ue_updatedAt = Some now, ue_synced = Some False\<rparr>"

text \<open>
  \<^verbatim>\<open>getExpenseById\<close> searches the rows of the owner \<^verbatim>\<open>''\<close> and turns a failed read into
  \<^verbatim>\<open>null\<close>.
\<close>

definition ExpenseService_getExpenseById :: "string \<Rightarrow> expense option io" where
  "ExpenseService_getExpenseById expenseId =
     tryCatch
       (andThen (ExpenseDB_getExpenses [])
          (\<lambda>expenseList. ret (find (\<lambda>e. e_id e = expenseId) expenseList)))
       (\<lambda>err. ret None)"

definition ExpenseService_updateExpense :: "string \<Rightarrow> expense_form_updates \<Rightarrow> unit io" where
  "ExpenseService_updateExpense expenseId updates w =
     andThen (ExpenseDB_updateExpense expenseId (updateData updates (clock w)))
       (\<lambda>_ w'. if SyncService_isOnline w'
                then tryCatch
                       (andThen (ExpenseService_getExpenseById expenseId)
                          (\<lambda>expense. case expense of
                               None \<Rightarrow> ret ()
                             | Some e \<Rightarrow> SyncService_syncToFirebase (e_userId e)))
                       (\<lambda>err. ret ()) w'
                else (Inr (), w')) w"

record syncStatus =
  unsyncedCount :: nat
  isOnline :: bool

definition ExpenseService_getSyncStatus :: "string \<Rightarrow> syncStatus io" where
  "ExpenseService_getSyncStatus userId =
     tryCatch
       (andThen (ExpenseDB_getUnsyncedExpenses userId)
          (\<lambda>unsyncedExpenses w.
             (Inr \<lparr>unsyncedCount = length unsyncedExpenses, isOnline = SyncService_isOnline w\<rparr>, w)))
       (\<lambda>err. ret \<lparr>unsyncedCount = 0, isOnline = False\<rparr>)"

section \<open>Budget Engine: \<^verbatim>\<open>BudgetService\<close>\<close>

text \<open>
  The JavaScript \<^verbatim>\<open>Date\<close> object belongs to the runtime, not to the repository; the
  budget functions take it as a parameter: the getters of an instant, the constructor
  \<^verbatim>\<open>new Date(year, month, day)\<close> and the instant left by \<^verbatim>\<open>d.setDate(n)\<close>.
\<close>

record calendar =
  getFullYear :: "int \<Rightarrow> int"
  getMonth :: "int \<Rightarrow> int"
  getDate :: "int \<Rightarrow> int"
  getDay :: "int \<Rightarrow> int"
  newDate :: "int \<Rightarrow> int \<Rightarrow> int \<Rightarrow> int"
  setDate :: "int \<Rightarrow> int \<Rightarrow> int"

text \<open>
  \<^verbatim>\<open>calculateCurrentSpending(expenses, budget)\<close> has two parameters and reads the clock
  with \<^verbatim>\<open>new Date()\<close>: the model reads \<open>clock w\<close>. \<^verbatim>\<open>!budget.category\<close> holds for an absent
  category and for the empty string.
\<close>

definition periodStart :: "calendar \<Rightarrow> period \<Rightarrow> int \<Rightarrow> int" where
  "periodStart cal p now =
     (case p of
        Daily \<Rightarrow> newDate cal (getFullYear cal now) (getMonth cal now) (getDate cal now)
      | Weekly \<Rightarrow> setDate cal now (getDate cal now - getDay cal now)
      | Monthly \<Rightarrow> newDate cal (getFullYear cal now) (getMonth cal now) 1
      | Yearly \<Rightarrow> newDate cal (getFullYear cal now) 0 1)"

definition relevantExpense :: "int \<Rightarrow> int \<Rightarrow> budgetLimit \<Rightarrow> expense \<Rightarrow> bool" where
  "relevantExpense startDate now budget expense =
     (let matchesDate = (startDate \<le> e_date expense \<and> e_date expense \<le> now);
          matchesCategory = (case b_category budget of
                               None \<Rightarrow> True
                             | Some c \<Rightarrow> c = [] \<or> e_category expense = c)
      in matchesDate \<and> matchesCategory)"

definition BudgetService_calculateCurrentSpending ::
  "calendar \<Rightarrow> expense list \<Rightarrow> budgetLimit \<Rightarrow> world \<Rightarrow> real" where
  "BudgetService_calculateCurrentSpending cal expenseList budget w =
     (let now = clock w;
          startDate = periodStart cal (b_period budget) now;
          relevantExpenses = filter (relevantExpense startDate now budget) expenseList
      in foldl (\<lambda>sum expense. sum + e_amount expense) 0 relevantExpenses)"

definition BudgetService_calculateDaysLeft :: "calendar \<Rightarrow> period \<Rightarrow> world \<Rightarrow> int" where
  "BudgetService_calculateDaysLeft cal p w =
     (let now = clock w;
          endDate = (case p of
             Daily \<Rightarrow> newDate cal (getFullYear cal now) (getMonth cal now) (getDate cal now + 1)
           | Weekly \<Rightarrow> setDate cal now (getDate cal now + (6 - getDay cal now))
           | Monthly \<Rightarrow> newDate cal (getFullYear cal now) (getMonth cal now + 1) 0
           | Yearly \<Rightarrow> newDate cal (getFullYear cal now + 1) 0 0);
          diffTime = endDate - now
      in \<lceil>real_of_int diffTime / (1000 * 60 * 60 * 24)\<rceil>)"

text \<open>
  \<^verbatim>\<open>Promise.all\<close> of two reads: both are issued, the first rejection is the outcome.
\<close>

definition promiseAll2 :: "'a io \<Rightarrow> 'b io \<Rightarrow> ('a \<times> 'b) io" where
  "promiseAll2 m1 m2 w =
     (case m1 w of (r1, w1) \<Rightarrow>
        (case m2 w1 of (r2, w2) \<Rightarrow>
           ((case r1 of
               Inl e \<Rightarrow> Inl e
             | Inr x \<Rightarrow> (case r2 of Inl e \<Rightarrow> Inl e | Inr y \<Rightarrow> Inr (x, y))), w2)))"

definition budgetProgressOf ::
  "calendar \<Rightarrow> expense list \<Rightarrow> world \<Rightarrow> budgetLimit \<Rightarrow> budgetProgress" where
  "budgetProgressOf cal expenseList w budget =
     (let spent = BudgetService_calculateCurrentSpending cal expenseList budget w;
          remaining = max 0 (b_amount budget - spent);
          percentage = js_times100 (js_div spent (b_amount budget));
          daysLeft = BudgetService_calculateDaysLeft cal (b_period budget) w;
          status = (if js_ge percentage 100 then StExceeded
                    else if js_ge percentage (b_warningThreshold budget) then StWarning
                    else StSafe)
      in \<lparr>p_budgetId = b_id budget, p_budgetName = b_name budget, p_period = b_period budget,
          p_category = b_category budget, p_spent = spent, p_limit = b_amount budget,
          p_remaining = remaining, p_percentage = Math_round percentage, p_daysLeft = daysLeft,
          p_status = status, p_warningThreshold = b_warningThreshold budget\<rparr>)"

definition BudgetService_getBudgetProgress :: "calendar \<Rightarrow> string \<Rightarrow> budgetProgress list io" where
  "BudgetService_getBudgetProgress cal userId =
     andThen (promiseAll2 (BudgetDB_getActiveBudgets userId) (ExpenseDB_getExpenses userId))
       (\<lambda>(activeBudgets, expenseList) w.
          (Inr (map (budgetProgressOf cal expenseList w) activeBudgets), w))"

definition alertTypeOf :: "budgetProgress \<Rightarrow> alert_type option" where
  "alertTypeOf progress =
     (if js_ge (p_percentage progress) 100 then Some Exceeded
      else if js_ge (p_percentage progress) (p_warningThreshold progress) then Some Warning
      else if js_ge (p_percentage progress) (p_warningThreshold progress - 10)
           then Some Approaching
      else None)"

definition generateAlertMessage :: "budgetLimit \<Rightarrow> budgetProgress \<Rightarrow> message" where
  "generateAlertMessage budget progress =
     (let categoryText = (case b_category budget of
                            None \<Rightarrow> None
                          | Some c \<Rightarrow> if c = [] then None else Some c);
          periodText = b_period budget
      in if js_ge (p_percentage progress) 100
         then MsgExceeded periodText (b_name budget) categoryText (p_spent progress)
                (b_amount budget) (p_percentage progress)
         else if js_ge (p_percentage progress) (p_warningThreshold progress)
         then MsgApproaching periodText (b_name budget) categoryText (p_spent progress)
                (b_amount budget) (p_percentage progress)
         else MsgAt (b_name budget) categoryText (p_percentage progress) periodText)"

definition uuidv4 :: "world \<Rightarrow> string \<times> world" where
  "uuidv4 w = (shd (uuids w), w\<lparr>uuids := stl (uuids w)\<rparr>)"

definition newAlert ::
  "string \<Rightarrow> string \<Rightarrow> budgetLimit \<Rightarrow> budgetProgress \<Rightarrow> alert_type \<Rightarrow> int \<Rightarrow> budgetAlert" where
  "newAlert uuid userId budget progress alertType now =
     \<lparr>a_id = uuid, a_budgetId = b_id budget, a_userId = userId, a_type = alertType,
      a_message = generateAlertMessage budget progress, a_currentAmount = p_spent progress,
      a_budgetAmount = p_limit progress, a_percentage = p_percentage progress,
      a_period = b_period budget, a_category = b_category budget, a_createdAt = now,
      a_dismissed = False\<rparr>"

text \<open>The \<^verbatim>\<open>for\<close> loop of \<^verbatim>\<open>checkBudgetsAndCreateAlerts\<close> over the progress entries.\<close>

fun checkLoop :: "string \<Rightarrow> budgetProgress list \<Rightarrow> budgetAlert list \<Rightarrow> budgetAlert list io" where
  "checkLoop userId [] newAlerts w = (Inr newAlerts, w)"
| "checkLoop userId (progress # rest) newAlerts w =
     (case BudgetDB_getBudgetById (p_budgetId progress) w of
        (Inl err, w1) \<Rightarrow> (Inl err, w1)
      | (Inr None, w1) \<Rightarrow> checkLoop userId rest newAlerts w1
      | (Inr (Some budget), w1) \<Rightarrow>
          (case alertTypeOf progress of
             None \<Rightarrow> checkLoop userId rest newAlerts w1
           | Some alertType \<Rightarrow>
               (case BudgetDB_getRecentAlert (b_id budget) alertType 24 w1 of
                  (Inl err, w2) \<Rightarrow> (Inl err, w2)
                | (Inr (Some recentAlert), w2) \<Rightarrow> checkLoop userId rest newAlerts w2
                | (Inr None, w2) \<Rightarrow>
                    (case uuidv4 w2 of (uuid, w3) \<Rightarrow>
                       (let alert = newAlert uuid userId budget progress alertType (clock w3)
                        in case BudgetDB_addAlert alert w3 of
                             (Inl err, w4) \<Rightarrow> (Inl err, w4)
                           | (Inr _, w4) \<Rightarrow> checkLoop userId rest (newAlerts @ [alert]) w4)))))"

definition BudgetService_checkBudgetsAndCreateAlerts ::
  "calendar \<Rightarrow> string \<Rightarrow> budgetAlert list io" where
  "BudgetService_checkBudgetsAndCreateAlerts cal userId =
     andThen (BudgetService_getBudgetProgress cal userId)
       (\<lambda>budgetProgress. checkLoop userId budgetProgress [])"

section \<open>A concrete runtime: the calendar of a device in UTC\<close>

text \<open>
  Days since the epoch to civil date and back (proleptic Gregorian calendar), months
  counted from 1 here and from 0 by \<^verbatim>\<open>Date\<close>.
\<close>

definition days_from_civil :: "int \<Rightarrow> int \<Rightarrow> int \<Rightarrow> int" where
  "days_from_civil y m d =
     (let y' = (if m \<le> 2 then y - 1 else y);
          era = y' div 400;
          yoe = y' - era * 400;
          doy = (153 * ((m + 9) mod 12) + 2) div 5 + d - 1;
          doe = yoe * 365 + yoe div 4 - yoe div 100 + doy
      in era * 146097 + doe - 719468)"

definition civil_from_days :: "int \<Rightarrow> int \<times> int \<times> int" where
  "civil_from_days z =
     (let z' = z + 719468;
          era = z' div 146097;
          doe = z' - era * 146097;
          yoe = (doe - doe div 1460 + doe div 36524 - doe div 146096) div 365;
          doy = doe - (365 * yoe + yoe div 4 - yoe div 100);
          mp = (5 * doy + 2) div 153;
          d = doy - (153 * mp + 2) div 5 + 1;
          m = (if mp < 10 then mp + 3 else mp - 9)
      in (if m \<le> 2 then yoe + era * 400 + 1 else yoe + era * 400, m, d))"

definition msPerDay :: int where
  "msPerDay = 86400000"

definition utc_newDate :: "int \<Rightarrow> int \<Rightarrow> int \<Rightarrow> int" where
  "utc_newDate y m d = msPerDay * (days_from_civil (y + m div 12) (m mod 12 + 1) 1 + (d - 1))"

definition utc :: calendar where
  "utc =
     \<lparr>getFullYear = (\<lambda>t. fst (civil_from_days (t div msPerDay))),
      getMonth = (\<lambda>t. fst (snd (civil_from_days (t div msPerDay))) - 1),
      getDate = (\<lambda>t. snd (snd (civil_from_days (t div msPerDay)))),
      getDay = (\<lambda>t. (t div msPerDay + 4) mod 7),
      newDate = utc_newDate,
      setDate = (\<lambda>t d. utc_newDate (fst (civil_from_days (t div msPerDay)))
                          (fst (snd (civil_from_days (t div msPerDay))) - 1) d
                        + t mod msPerDay)\<rparr>"

section \<open>The remaining operations of the store and of the services\<close>

text \<open>
  The other operations on the local tables. A date range is given by two calendar days,
  whose ISO strings the source compares as strings; for such strings that is the order of
  the days. \<^verbatim>\<open>cutoffDate.setDate(cutoffDate.getDate() - daysOld)\<close> is a computation of the
  runtime's \<^verbatim>\<open>Date\<close>.
\<close>

definition ExpenseDB_getExpensesByDateRange :: "string \<Rightarrow> int \<Rightarrow> int \<Rightarrow> expense list io" where
  "ExpenseDB_getExpensesByDateRange userId startDate endDate =
     storeOp StorageFailure (\<lambda>w.
       (Inr (rev (rev (filter (\<lambda>e. startDate \<le> e_date e \<and> e_date e \<le> endDate)
                         (filter (\<lambda>e. e_userId e = userId) (expenses w))))), w))"

definition ExpenseDB_clearUserExpenses :: "string \<Rightarrow> unit io" where
  "ExpenseDB_clearUserExpenses userId =
     storeOp StorageFailure (\<lambda>w.
       (Inr (), w\<lparr>expenses := filter (\<lambda>e. e_userId e \<noteq> userId) (expenses w)\<rparr>))"

definition BudgetDB_getAlerts :: "string \<Rightarrow> budgetAlert list io" where
  "BudgetDB_getAlerts userId =
     storeOp StorageFailure (\<lambda>w.
       (Inr (rev (filter (\<lambda>a. \<not> a_dismissed a)
                    (filter (\<lambda>a. a_userId a = userId) (alerts w)))), w))"

definition BudgetDB_dismissAlert :: "string \<Rightarrow> unit io" where
  "BudgetDB_dismissAlert k =
     storeOp StorageFailure (\<lambda>w.
       (Inr (), w\<lparr>alerts :=
          map (\<lambda>a. if a_id a = k then a\<lparr>a_dismissed := True\<rparr> else a) (alerts w)\<rparr>))"

definition BudgetDB_clearOldAlerts :: "calendar \<Rightarrow> string \<Rightarrow> int \<Rightarrow> unit io" where
  "BudgetDB_clearOldAlerts cal userId daysOld w =
     (let cutoffDate = setDate cal (clock w) (getDate cal (clock w) - daysOld)
      in storeOp StorageFailure (\<lambda>w'.
           (Inr (), w'\<lparr>alerts :=
              filter (\<lambda>a. \<not> (a_userId a = userId \<and> a_createdAt a < cutoffDate))
                (alerts w')\<rparr>)) w)"

text \<open>\<^verbatim>\<open>SyncService.deleteExpense\<close>: the local delete, then the remote one when online.\<close>

definition deleteDoc_expenses :: "string \<Rightarrow> unit io" where
  "deleteDoc_expenses k =
     storeOp NetworkFailure (\<lambda>w.
       (Inr (), w\<lparr>fsExpenses := filter (\<lambda>d. fst d \<noteq> k) (fsExpenses w)\<rparr>))"

definition SyncService_deleteExpense :: "string \<Rightarrow> unit io" where
  "SyncService_deleteExpense expenseId =
     andThen (ExpenseDB_deleteExpense expenseId)
       (\<lambda>_ w. if SyncService_isOnline w then deleteDoc_expenses expenseId w else (Inr (), w))"

text \<open>\<^verbatim>\<open>ExpenseFormData\<close> and the rest of \<^verbatim>\<open>ExpenseService\<close>.\<close>

record expenseFormData =
  f_amount :: real
  f_category :: string
  f_description :: string
  f_date :: int

definition ExpenseService_addExpense :: "string \<Rightarrow> expenseFormData \<Rightarrow> expense io" where
  "ExpenseService_addExpense userId expenseData w =
     (let now = clock w
      in case uuidv4 w of (uuid, w1) \<Rightarrow>
           (let expense =
                  \<lparr>e_id = uuid, e_userId = userId, e_amount = f_amount expenseData,
                   e_category = f_category expenseData,
                   e_description = f_description expenseData, e_date = f_date expenseData,
                   e_createdAt = now, e_updatedAt = now, e_synced = False\<rparr>
            in andThen (ExpenseDB_addExpense expense)
                 (\<lambda>_ w2. if SyncService_isOnline w2
                          then andThen (tryCatch (SyncService_syncToFirebase userId)
                                          (\<lambda>err. ret ()))
                                 (\<lambda>_. ret expense) w2
                          else (Inr expense, w2)) w1))"

definition ExpenseService_getExpenses :: "string \<Rightarrow> expense list io" where
  "ExpenseService_getExpenses userId = ExpenseDB_getExpenses userId"

definition ExpenseService_getExpensesByDateRange ::
  "string \<Rightarrow> int \<Rightarrow> int \<Rightarrow> expense list io" where
  "ExpenseService_getExpensesByDateRange userId startDate endDate =
     ExpenseDB_getExpensesByDateRange userId startDate endDate"

definition ExpenseService_deleteExpense :: "string \<Rightarrow> unit io" where
  "ExpenseService_deleteExpense expenseId = SyncService_deleteExpense expenseId"

text \<open>\<^verbatim>\<open>BudgetFormData\<close>, \<^verbatim>\<open>Partial<BudgetFormData>\<close> and the rest of \<^verbatim>\<open>BudgetService\<close>.\<close>

record budgetFormData =
  bf_name :: string
  bf_amount :: real
  bf_period :: period
  bf_category :: "string option"
  bf_warningThreshold :: real
  bf_enabled :: bool

record budget_form_updates =
  ubf_name :: "string option"
  ubf_amount :: "real option"
  ubf_period :: "period option"
  ubf_category :: "string option option"
  ubf_warningThreshold :: "real option"
  ubf_enabled :: "bool option"

definition formUpdates :: "budget_form_updates \<Rightarrow> budget_updates" where
  "formUpdates updates =
     \<lparr>ub_userId = None, ub_name = ubf_name updates, ub_amount = ubf_amount updates,
      ub_period = ubf_period updates, ub_category = ubf_category updates,
      ub_enabled = ubf_enabled updates, ub_warningThreshold = ubf_warningThreshold updates,
      ub_createdAt = None, ub_updatedAt = None, ub_synced = None\<rparr>"

definition BudgetService_createBudget :: "string \<Rightarrow> budgetFormData \<Rightarrow> budgetLimit io" where
  "BudgetService_createBudget userId budgetData w =
     (let now = clock w
      in case uuidv4 w of (uuid, w1) \<Rightarrow>
           (let budget =
                  \<lparr>b_id = uuid, b_userId = userId, b_name = bf_name budgetData,
                   b_amount = bf_amount budgetData, b_period = bf_period budgetData,
                   b_category = bf_category budgetData, b_enabled = bf_enabled budgetData,
                   b_warningThreshold = bf_warningThreshold budgetData, b_createdAt = now,
                   b_updatedAt = now, b_synced = False\<rparr>
            in andThen (BudgetDB_addBudget budget) (\<lambda>_. ret budget) w1))"

definition BudgetService_getBudgets :: "string \<Rightarrow> budgetLimit list io" where
  "BudgetService_getBudgets userId = BudgetDB_getBudgets userId"

definition BudgetService_updateBudget :: "string \<Rightarrow> budget_form_updates \<Rightarrow> unit io" where
  "BudgetService_updateBudget budgetId updates = BudgetDB_updateBudget budgetId (formUpdates updates)"

definition BudgetService_deleteBudget :: "string \<Rightarrow> unit io" where
  "BudgetService_deleteBudget budgetId = BudgetDB_deleteBudget budgetId"

definition BudgetService_getAlerts :: "string \<Rightarrow> budgetAlert list io" where
  "BudgetService_getAlerts userId = BudgetDB_getAlerts userId"

definition BudgetService_dismissAlert :: "string \<Rightarrow> unit io" where
  "BudgetService_dismissAlert alertId = BudgetDB_dismissAlert alertId"

definition BudgetService_cleanupOldAlerts :: "calendar \<Rightarrow> string \<Rightarrow> unit io" where
  "BudgetService_cleanupOldAlerts cal userId = BudgetDB_clearOldAlerts cal userId 7"

text \<open>
  \<^verbatim>\<open>ExpenseDB.getExpenseStats\<close>. \<^verbatim>\<open>d.toISOString().split('T')[0]\<close> is the calendar day of
  an instant in UTC; a day is represented, like the \<^verbatim>\<open>date\<close> of an expense, by the instant
  of its midnight in UTC, so that \<^verbatim>\<open>e.date.startsWith(today)\<close> is equality of days and the
  comparison of two day strings is the comparison of the days.
  \<^verbatim>\<open>(categoryTotals[c] || 0) + expense.amount\<close> starts a category at 0.
\<close>

definition isoDate :: "int \<Rightarrow> int" where
  "isoDate t = t - t mod msPerDay"

record expenseStats =
  st_totalExpenses :: nat
  st_dailyTotal :: real
  st_weeklyTotal :: real
  st_monthlyTotal :: real
  st_categoryTotals :: "string \<Rightarrow> real option"

definition addToCategory :: "(string \<Rightarrow> real option) \<Rightarrow> expense \<Rightarrow> (string \<Rightarrow> real option)" where
  "addToCategory categoryTotals expense =
     categoryTotals(e_category expense \<mapsto>
       (case categoryTotals (e_category expense) of None \<Rightarrow> 0 | Some v \<Rightarrow> v)
         + e_amount expense)"

definition ExpenseDB_getExpenseStats :: "calendar \<Rightarrow> string \<Rightarrow> expenseStats io" where
  "ExpenseDB_getExpenseStats cal userId w =
     (let now = clock w;
          today = isoDate now;
          weekStartStr = isoDate (setDate cal now (getDate cal now - getDay cal now + 1));
          monthStartStr = isoDate (newDate cal (getFullYear cal now) (getMonth cal now) 1)
      in andThen (ExpenseDB_getExpenses userId)
           (\<lambda>allExpenses.
              (let dailyExpenses = filter (\<lambda>e. e_date e = today) allExpenses;
                   weeklyExpenses = filter (\<lambda>e. weekStartStr \<le> e_date e) allExpenses;
                   monthlyExpenses = filter (\<lambda>e. monthStartStr \<le> e_date e) allExpenses
               in ret \<lparr>st_totalExpenses = length allExpenses,
                        st_dailyTotal = foldl (\<lambda>sum e. sum + e_amount e) 0 dailyExpenses,
                        st_weeklyTotal = foldl (\<lambda>sum e. sum + e_amount e) 0 weeklyExpenses,
                        st_monthlyTotal = foldl (\<lambda>sum e. sum + e_amount e) 0 monthlyExpenses,
                        st_categoryTotals = foldl addToCategory Map.empty allExpenses\<rparr>)) w)"

definition ExpenseService_getExpenseStats :: "calendar \<Rightarrow> string \<Rightarrow> expenseStats io" where
  "ExpenseService_getExpenseStats cal userId = ExpenseDB_getExpenseStats cal userId"

text \<open>
  \<^verbatim>\<open>SyncService.debugUnsyncedExpenses\<close> only logs what it reads, and logs a failure of the
  read. \<^verbatim>\<open>ExpenseService.manualSync\<close> refuses to run offline;
  \<^verbatim>\<open>ExpenseService.initializeSync\<close> runs the full sync when online and then registers the
  listeners, which is not an operation on a store.
\<close>

definition SyncService_debugUnsyncedExpenses :: "string \<Rightarrow> unit io" where
  "SyncService_debugUnsyncedExpenses userId =
     tryCatch (andThen (ExpenseDB_getUnsyncedExpenses userId) (\<lambda>unsyncedExpenses. ret ()))
       (\<lambda>err. ret ())"

definition ExpenseService_manualSync :: "string \<Rightarrow> unit io" where
  "ExpenseService_manualSync userId w =
     (if \<not> SyncService_isOnline w then (Inl OfflineError, w)
      else SyncService_fullSync userId w)"

definition ExpenseService_initializeSync :: "string \<Rightarrow> unit io" where
  "ExpenseService_initializeSync userId w =
     (if SyncService_isOnline w then SyncService_fullSync userId w else (Inr (), w))"

section \<open>Auxiliary notions and example data\<close>

text \<open>The rows of the expenses table with their sync flags disregarded.\<close>

definition forgetSynced :: "expense list \<Rightarrow> expense list" where
  "forgetSynced es = map (\<lambda>e. e\<lparr>e_synced := True\<rparr>) es"

definition expense1 :: expense where
  "expense1 =
     \<lparr>e_id = ''e1'', e_userId = ''u1'', e_amount = 85 / 2, e_category = ''Food & Dining'',
      e_description = ''lunch'', e_date = 0, e_createdAt = 1000, e_updatedAt = 1000,
      e_synced = True\<rparr>"

definition budget1 :: budgetLimit where
  "budget1 =
     \<lparr>b_id = ''b1'', b_userId = ''u1'', b_name = ''Food'', b_amount = 1000,
      b_period = Daily, b_category = None, b_enabled = True, b_warningThreshold = 80,
      b_createdAt = 1000, b_updatedAt = 1000, b_synced = True\<rparr>"

definition alert1 :: budgetAlert where
  "alert1 =
     \<lparr>a_id = ''a0'', a_budgetId = ''b1'', a_userId = ''u1'', a_type = Warning,
      a_message = MsgApproaching Daily ''Food'' None 850 1000 (Fin 85), a_currentAmount = 850,
      a_budgetAmount = 1000, a_percentage = Fin 85, a_period = Daily, a_category = None,
      a_createdAt = 2000, a_dismissed = False\<rparr>"

definition world0 :: world where
  "world0 =
     \<lparr>expenses = [], budgets = [], alerts = [], fsExpenses = [], fsBudgets = [],
      syncInProgress = False, onLine = True, clock = 5000, uuids = sconst ''a1'',
      faults = []\<rparr>"

definition world1 :: world where
  "world1 = world0\<lparr>expenses := [expense1], budgets := [budget1]\<rparr>"

text \<open>A store with two budgets and one alert for each.\<close>

definition world_two_budgets :: world where
  "world_two_budgets =
     world1\<lparr>budgets := [budget1, budget1\<lparr>b_id := ''b2''\<rparr>],
            alerts := [alert1, alert1\<lparr>a_id := ''a9'', a_budgetId := ''b2''\<rparr>]\<rparr>"

text \<open>
  The owner's rows of the local expenses table, and the data of the owner's documents in
  the remote collection (what the pull's query returns, as a set).
\<close>

definition ownerRows :: "string \<Rightarrow> world \<Rightarrow> expense list" where
  "ownerRows u w = filter (\<lambda>e. e_userId e = u) (expenses w)"

definition remoteRows :: "string \<Rightarrow> world \<Rightarrow> expense list" where
  "remoteRows u w = filter (\<lambda>e. e_userId e = u) (map snd (fsExpenses w))"

abbreviation asSynced :: "expense \<Rightarrow> expense" where
  "asSynced x \<equiv> x\<lparr>e_synced := True\<rparr>"

definition expense2 :: expense where
  "expense2 =
     \<lparr>e_id = ''e2'', e_userId = ''u1'', e_amount = 12, e_category = ''Transportation'',
      e_description = ''bus'', e_date = 0, e_createdAt = 2000, e_updatedAt = 2000,
      e_synced = False\<rparr>"

text \<open>
  A device whose only local expense is \<open>expense1\<close>, while the remote collection holds a
  changed copy of \<open>expense1\<close> and a second expense of the same owner.
\<close>

definition world_pull :: world where
  "world_pull =
     world1\<lparr>fsExpenses := [(''e1'', expense1\<lparr>e_amount := 99, e_updatedAt := 3000\<rparr>),
                            (''e2'', expense2)]\<rparr>"

text \<open>Marking as synced the rows whose id is in a set.\<close>

definition markIds :: "string set \<Rightarrow> expense \<Rightarrow> expense" where
  "markIds S e = (if e_id e \<in> S then asSynced e else e)"

text \<open>
  A device with one unsynced and one synced expense and an empty remote collection, and
  the same device after a push in which every upload succeeded.
\<close>

definition world_push :: world where
  "world_push = world0\<lparr>expenses := [expense2, expense1]\<rparr>"

definition world_pushed :: world where
  "world_pushed =
     world0\<lparr>expenses := [asSynced expense2, expense1],
            fsExpenses := [(''e2'', asSynced expense2)]\<rparr>"

text \<open>An operation leaves an observation \<open>g\<close> of the world as it found it.\<close>

definition preserves :: "(world \<Rightarrow> 'x) \<Rightarrow> 'a io \<Rightarrow> bool" where
  "preserves g m = (\<forall>w. g (snd (m w)) = g w)"

definition budget2 :: budgetLimit where
  "budget2 =
     \<lparr>b_id = ''b2'', b_userId = ''u1'', b_name = ''Travel'', b_amount = 300,
      b_period = Monthly, b_category = Some ''Travel'', b_enabled = True,
      b_warningThreshold = 80, b_createdAt = 2000, b_updatedAt = 2000, b_synced = False\<rparr>"

text \<open>
  A device with an unsynced budget, a remote budget it does not have yet, and a network
  that rejects the next request.
\<close>

definition world_net_down :: world where
  "world_net_down =
     world0\<lparr>budgets := [budget2], fsBudgets := [(''b1'', budget1)], faults := [True]\<rparr>"

text \<open>The observations used below: the remote collections with one of the local tables.\<close>

abbreviation remoteAndBudgets :: "world \<Rightarrow> (string \<times> expense) list \<times> (string \<times> budgetLimit) list \<times> budgetLimit list" where
  "remoteAndBudgets w \<equiv> (fsExpenses w, fsBudgets w, budgets w)"

abbreviation remoteAndExpenses :: "world \<Rightarrow> (string \<times> expense) list \<times> (string \<times> budgetLimit) list \<times> expense list" where
  "remoteAndExpenses w \<equiv> (fsExpenses w, fsBudgets w, expenses w)"

abbreviation budgetSide :: "world \<Rightarrow> (string \<times> budgetLimit) list \<times> budgetLimit list" where
  "budgetSide w \<equiv> (fsBudgets w, budgets w)"

abbreviation expenseSide :: "world \<Rightarrow> (string \<times> expense) list \<times> expense list \<times> bool" where
  "expenseSide w \<equiv> (fsExpenses w, expenses w, syncInProgress w)"


text \<open>The same device with a working network, after the budget pull and after the full sync.\<close>

definition world_net_up :: world where
  "world_net_up = world0\<lparr>budgets := [budget2], fsBudgets := [(''b1'', budget1)]\<rparr>"

definition world_budgets_pulled :: world where
  "world_budgets_pulled =
     world0\<lparr>budgets := [budget2, budget1], fsBudgets := [(''b1'', budget1)]\<rparr>"

definition world_fully_synced :: world where
  "world_fully_synced =
     world0\<lparr>budgets := [budget2\<lparr>b_synced := True\<rparr>, budget1],
            fsBudgets := [(''b1'', budget1), (''b2'', budget2\<lparr>b_synced := True\<rparr>)]\<rparr>"

text \<open>
  Some store operation between two worlds of one run was rejected: the part of the fault
  plan consumed on the way holds a \<open>True\<close>.
\<close>

definition rejectedBetween :: "world \<Rightarrow> world \<Rightarrow> bool" where
  "rejectedBetween w w' = (True \<in> set (take (length (faults w) - length (faults w')) (faults w)))"

definition accounted :: "world \<Rightarrow> bool \<Rightarrow> world \<Rightarrow> bool" where
  "accounted w failed w' = (\<exists>pre. faults w = pre @ faults w' \<and> (True \<in> set pre \<longrightarrow> failed))"

text \<open>
  An operation propagates failures: whenever a store operation was rejected while it ran,
  it ends in an error. (\<open>tracks\<close> is the form of this that composes.)
\<close>

definition propagates :: "'a io \<Rightarrow> bool" where
  "propagates m = (\<forall>w. rejectedBetween w (snd (m w)) \<longrightarrow> isl (fst (m w)))"

definition tracks :: "'a io \<Rightarrow> bool" where
  "tracks m = (\<forall>w. accounted w (isl (fst (m w))) (snd (m w)))"

text \<open>The state of the device after the two pulls of a full sync.\<close>

abbreviation afterPulls :: "string \<Rightarrow> world \<Rightarrow> world" where
  "afterPulls u w \<equiv>
     snd (SyncService_syncBudgetsFromFirebase u (snd (SyncService_syncFromFirebase u w)))"

text \<open>
  A device whose owner has the daily budget \<open>budget1\<close> (limit 1000, warning threshold 80)
  and has spent a given amount today; the clock stands at 5000 ms into the day (UTC).
\<close>

definition spend :: "real \<Rightarrow> expense" where
  "spend amt =
     \<lparr>e_id = ''e9'', e_userId = ''u1'', e_amount = amt, e_category = ''Food & Dining'',
      e_description = ''dinner'', e_date = 0, e_createdAt = 1000, e_updatedAt = 1000,
      e_synced = False\<rparr>"

definition world_spent :: "real \<Rightarrow> world" where
  "world_spent amt = world0\<lparr>expenses := [spend amt], budgets := [budget1]\<rparr>"


definition progress996 :: budgetProgress where
  "progress996 =
     \<lparr>p_budgetId = ''b1'', p_budgetName = ''Food'', p_period = Daily, p_category = None,
      p_spent = 996, p_limit = 1000, p_remaining = 4, p_percentage = Fin 100, p_daysLeft = 1,
      p_status = StWarning, p_warningThreshold = 80\<rparr>"

definition alert996 :: budgetAlert where
  "alert996 =
     \<lparr>a_id = ''a1'', a_budgetId = ''b1'', a_userId = ''u1'', a_type = Exceeded,
      a_message = MsgExceeded Daily ''Food'' None 996 1000 (Fin 100), a_currentAmount = 996,
      a_budgetAmount = 1000, a_percentage = Fin 100, a_period = Daily, a_category = None,
      a_createdAt = 5000, a_dismissed = False\<rparr>"




section \<open>Basic facts about the store operations\<close>

lemma storeOp_Inr:
  assumes "storeOp err op w = (Inr x, w')"
  shows "\<not> nextFails w" and "op (w\<lparr>faults := tl (faults w)\<rparr>) = (Inr x, w')"
  using assms by (cases "nextFails w"; simp add: storeOp_def Let_def)+

lemma apply_expense_updates_synced:
  "apply_expense_updates (no_expense_updates\<lparr>ue_synced := Some True\<rparr>) e = e\<lparr>e_synced := True\<rparr>"
  by (simp add: apply_expense_updates_def no_expense_updates_def)

lemma apply_budget_updates_synced:
  "apply_budget_updates (no_budget_updates\<lparr>ub_synced := Some True\<rparr>) b = b\<lparr>b_synced := True\<rparr>"
  by (simp add: apply_budget_updates_def no_budget_updates_def)

lemma forgetSynced_mark:
  "forgetSynced (map (\<lambda>e. if P e then e\<lparr>e_synced := True\<rparr> else e) xs) = forgetSynced xs"
  by (induction xs) (simp_all add: forgetSynced_def)

lemma markAsSynced_alt:
  "ExpenseDB_markAsSynced k =
     storeOp StorageFailure (\<lambda>w.
       (Inr (), w\<lparr>expenses := map (\<lambda>e. if e_id e = k then e\<lparr>e_synced := True\<rparr> else e) (expenses w)\<rparr>))"
  by (simp add: ExpenseDB_markAsSynced_def apply_expense_updates_synced cong: if_cong)

lemma markBudgetAsSynced_alt:
  "BudgetDB_markBudgetAsSynced k =
     storeOp StorageFailure (\<lambda>w.
       (Inr (), w\<lparr>budgets := map (\<lambda>b. if b_id b = k then b\<lparr>b_synced := True\<rparr> else b) (budgets w)\<rparr>))"
  by (simp add: BudgetDB_markBudgetAsSynced_def apply_budget_updates_synced cong: if_cong)

lemma markAsSynced_forget:
  "forgetSynced (expenses (snd (ExpenseDB_markAsSynced k w))) = forgetSynced (expenses w)"
  by (cases "nextFails w")
     (simp_all add: markAsSynced_alt storeOp_def Let_def forgetSynced_mark)

lemma setDoc_expenses_frame:
  "expenses (snd (setDoc_expenses k d w)) = expenses w"
  by (simp add: setDoc_expenses_def storeOp_def Let_def)

lemma andThen_snd:
  "snd (andThen m f w) = (case m w of (Inl e, w') \<Rightarrow> w' | (Inr x, w') \<Rightarrow> snd (f x w'))"
  by (simp add: andThen_def split: prod.splits sum.splits)

lemma uploadExpense_forget:
  "forgetSynced (expenses (snd (uploadExpense e w))) = forgetSynced (expenses w)"
proof -
  obtain r w1 where s1: "setDoc_expenses (e_id e) (e\<lparr>e_synced := True\<rparr>) w = (r, w1)"
    by (cases "setDoc_expenses (e_id e) (e\<lparr>e_synced := True\<rparr>) w")
  have e1: "expenses w1 = expenses w"
    using setDoc_expenses_frame [of "e_id e" "e\<lparr>e_synced := True\<rparr>" w] s1 by simp
  show ?thesis
    by (cases r) (simp_all add: uploadExpense_def andThen_snd s1 e1 markAsSynced_forget)
qed

lemma uploadExpenses_forget:
  "forgetSynced (expenses (snd (uploadExpenses es c w))) = forgetSynced (expenses w)"
proof (induction es arbitrary: c w)
  case Nil
  show ?case by simp
next
  case (Cons e es)
  obtain s f where c: "c = (s, f)" by (cases c)
  obtain r w' where step: "uploadExpense e w = (r, w')" by (cases "uploadExpense e w")
  have keep: "forgetSynced (expenses w') = forgetSynced (expenses w)"
    using uploadExpense_forget [of e w] step by simp
  show ?case
    by (cases r) (simp_all add: c step Cons.IH keep)
qed

lemma syncToFirebase_unfold:
  "SyncService_syncToFirebase u w =
     (if syncInProgress w then (Inr (), w)
      else case ExpenseDB_getUnsyncedExpenses u (w\<lparr>syncInProgress := True\<rparr>) of
             (Inl e, w1) \<Rightarrow> (Inl e, w1\<lparr>syncInProgress := False\<rparr>)
           | (Inr es, w1) \<Rightarrow>
               (Inr (), (if es = [] then w1 else snd (uploadExpenses es (0, 0) w1))
                          \<lparr>syncInProgress := False\<rparr>))"
  by (simp add: SyncService_syncToFirebase_def tryFinally_def andThen_def ret_def
      split: prod.splits sum.splits)

lemma getUnsyncedExpenses_frame:
  "expenses (snd (ExpenseDB_getUnsyncedExpenses u w)) = expenses w"
  by (simp add: ExpenseDB_getUnsyncedExpenses_def storeOp_def Let_def)

lemma syncToFirebase_forget:
  "forgetSynced (expenses (snd (SyncService_syncToFirebase u w))) = forgetSynced (expenses w)"
proof (cases "syncInProgress w")
  case True
  then show ?thesis by (simp add: syncToFirebase_unfold)
next
  case False
  obtain r w1 where rd: "ExpenseDB_getUnsyncedExpenses u (w\<lparr>syncInProgress := True\<rparr>) = (r, w1)"
    by (cases "ExpenseDB_getUnsyncedExpenses u (w\<lparr>syncInProgress := True\<rparr>)")
  have e1: "expenses w1 = expenses w"
    using getUnsyncedExpenses_frame [of u "w\<lparr>syncInProgress := True\<rparr>"] rd by simp
  show ?thesis
  proof (cases r)
    case (Inl err)
    with False rd e1 show ?thesis by (simp add: syncToFirebase_unfold)
  next
    case (Inr es)
    with False rd e1 uploadExpenses_forget [of es "(0, 0)" w1] show ?thesis
      by (simp add: syncToFirebase_unfold)
  qed
qed


lemma forgetSynced_member:
  assumes "forgetSynced xs = forgetSynced ys" and "x \<in> set xs"
  shows "\<exists>y \<in> set ys. e_id y = e_id x \<and> e_updatedAt y = e_updatedAt x"
proof -
  from assms(2) have "x\<lparr>e_synced := True\<rparr> \<in> set (forgetSynced xs)"
    by (simp add: forgetSynced_def)
  with assms(1) obtain y where y: "y \<in> set ys" "y\<lparr>e_synced := True\<rparr> = x\<lparr>e_synced := True\<rparr>"
    by (auto simp: forgetSynced_def)
  from y(2) have "e_id (y\<lparr>e_synced := True\<rparr>) = e_id (x\<lparr>e_synced := True\<rparr>)"
    and "e_updatedAt (y\<lparr>e_synced := True\<rparr>) = e_updatedAt (x\<lparr>e_synced := True\<rparr>)"
    by simp_all
  with y(1) show ?thesis by auto
qed

lemma forgetSynced_ids: "map e_id (forgetSynced xs) = map e_id xs"
  by (induction xs) (simp_all add: forgetSynced_def)

lemma expense_stamp:
  "e_updatedAt (apply_expense_updates (updateData uf t) e) = t"
  "e_synced (apply_expense_updates (updateData uf t) e) = False"
  "e_id (apply_expense_updates u e) = e_id e"
  by (simp_all add: apply_expense_updates_def updateData_def)

lemma budget_stamp:
  "b_updatedAt (apply_budget_updates (ub\<lparr>ub_updatedAt := Some t, ub_synced := Some False\<rparr>) b) = t"
  "b_synced (apply_budget_updates (ub\<lparr>ub_updatedAt := Some t, ub_synced := Some False\<rparr>) b) = False"
  "b_id (apply_budget_updates u b) = b_id b"
  by (simp_all add: apply_budget_updates_def)

lemma map_e_id_update:
  "map e_id (map (\<lambda>e. if e_id e = k then apply_expense_updates u e else e) xs) = map e_id xs"
  by (induction xs) (simp_all add: expense_stamp)

lemma map_b_id_update:
  "map b_id (map (\<lambda>b. if b_id b = k then apply_budget_updates u b else b) xs) = map b_id xs"
  by (induction xs) (simp_all add: budget_stamp)

lemma updateExpense_Inr:
  assumes "ExpenseDB_updateExpense k u w = (Inr x, w1)"
  shows "expenses w1 = map (\<lambda>e. if e_id e = k then apply_expense_updates u e else e) (expenses w)"
    and "onLine w1 = onLine w"
proof -
  from assms have "(Inr x, w1) = (Inr (), w\<lparr>faults := tl (faults w), expenses :=
      map (\<lambda>e. if e_id e = k then apply_expense_updates u e else e) (expenses w)\<rparr>)"
    unfolding ExpenseDB_updateExpense_def by (cases "nextFails w") (simp_all add: storeOp_def Let_def)
  then have w1: "w1 = w\<lparr>faults := tl (faults w), expenses :=
      map (\<lambda>e. if e_id e = k then apply_expense_updates u e else e) (expenses w)\<rparr>" by simp
  show "expenses w1 = map (\<lambda>e. if e_id e = k then apply_expense_updates u e else e) (expenses w)"
    by (simp add: w1)
  show "onLine w1 = onLine w" by (simp add: w1)
qed

lemma updateBudget_Inr:
  assumes "BudgetDB_updateBudget k u w = (Inr x, w1)"
  shows "budgets w1 = map (\<lambda>b. if b_id b = k
      then apply_budget_updates (u\<lparr>ub_updatedAt := Some (clock w), ub_synced := Some False\<rparr>) b
      else b) (budgets w)"
proof -
  from assms have "(Inr x, w1) = (Inr (), w\<lparr>faults := tl (faults w), budgets :=
      map (\<lambda>b. if b_id b = k
      then apply_budget_updates (u\<lparr>ub_updatedAt := Some (clock w), ub_synced := Some False\<rparr>) b
      else b) (budgets w)\<rparr>)"
    unfolding BudgetDB_updateBudget_def by (cases "nextFails w") (simp_all add: storeOp_def Let_def)
  then show ?thesis by simp
qed

lemma getExpenseById_frame:
  "expenses (snd (ExpenseService_getExpenseById k w)) = expenses w"
  by (cases "nextFails w")
     (simp_all add: ExpenseService_getExpenseById_def tryCatch_def andThen_def ret_def
      ExpenseDB_getExpenses_def storeOp_def Let_def)

lemma service_update_forget:
  assumes "ExpenseService_updateExpense k uf w = (Inr (), w3)"
  obtains w1 where "ExpenseDB_updateExpense k (updateData uf (clock w)) w = (Inr (), w1)"
    and "forgetSynced (expenses w3) = forgetSynced (expenses w1)"
    and "\<not> onLine w \<Longrightarrow> w3 = w1"
proof -
  obtain r1 w1 where s1: "ExpenseDB_updateExpense k (updateData uf (clock w)) w = (r1, w1)"
    by (cases "ExpenseDB_updateExpense k (updateData uf (clock w)) w")
  from assms s1 have r1: "r1 = Inr ()"
    by (cases r1) (simp_all add: ExpenseService_updateExpense_def andThen_def)
  have a1: "ExpenseDB_updateExpense k (updateData uf (clock w)) w = (Inr (), w1)"
    using s1 r1 by simp
  have on: "onLine w1 = onLine w" by (rule updateExpense_Inr(2) [OF a1])
  have off: "w3 = w1" if "\<not> onLine w"
    using assms a1 on that
    by (simp add: ExpenseService_updateExpense_def andThen_def SyncService_isOnline_def)
  have fg: "forgetSynced (expenses w3) = forgetSynced (expenses w1)"
  proof (cases "onLine w")
    case False
    with off show ?thesis by simp
  next
    case True
    obtain r2 w2 where s2: "ExpenseService_getExpenseById k w1 = (r2, w2)"
      by (cases "ExpenseService_getExpenseById k w1")
    have e2: "expenses w2 = expenses w1" using getExpenseById_frame [of k w1] s2 by simp
    have run: "(Inr (), w3) =
       tryCatch (andThen (ExpenseService_getExpenseById k)
          (\<lambda>expense. case expense of None \<Rightarrow> ret () | Some e \<Rightarrow> SyncService_syncToFirebase (e_userId e)))
          (\<lambda>err. ret ()) w1"
      using assms a1 on True
      by (simp add: ExpenseService_updateExpense_def andThen_def SyncService_isOnline_def)
    show ?thesis
    proof (cases r2)
      case (Inl err)
      with run s2 have "w3 = w2" by (simp add: andThen_def tryCatch_def ret_def)
      with e2 show ?thesis by simp
    next
      case (Inr found)
      show ?thesis
      proof (cases found)
        case None
        with Inr run s2 have "w3 = w2" by (simp add: andThen_def tryCatch_def ret_def)
        with e2 show ?thesis by simp
      next
        case (Some e0)
        obtain r3 w3' where s3: "SyncService_syncToFirebase (e_userId e0) w2 = (r3, w3')"
          by (cases "SyncService_syncToFirebase (e_userId e0) w2")
        with Some Inr run s2 have "w3 = w3'"
          by (cases r3) (simp_all add: andThen_def tryCatch_def ret_def)
        with syncToFirebase_forget [of "e_userId e0" w2] s3 e2 show ?thesis by simp
      qed
    qed
  qed
  show thesis by (rule that [OF a1 fg off])
qed

lemma in_set_map_if:
  assumes "x \<in> set (map (\<lambda>a. if P a then f a else a) xs)"
  obtains a where "a \<in> set xs" "P a" "x = f a" | "x \<in> set xs" "\<not> P x"
  using assms by (induction xs) (auto split: if_splits)


section \<open>Insertion never overwrites\<close>

text \<open>
  Claim C10. Inserting a record whose id is already in the table, through
  \<^verbatim>\<open>ExpenseDB.addExpense\<close> or \<^verbatim>\<open>BudgetDB.addBudget\<close>, fails with an error and leaves the
  three tables as they were.
\<close>

theorem add_rejects_existing_id:
  "(e_id e \<in> set (map e_id (expenses w)) \<longrightarrow>
     (\<exists>err. fst (ExpenseDB_addExpense e w) = Inl err) \<and>
     expenses (snd (ExpenseDB_addExpense e w)) = expenses w \<and>
     budgets (snd (ExpenseDB_addExpense e w)) = budgets w \<and>
     alerts (snd (ExpenseDB_addExpense e w)) = alerts w) \<and>
   (b_id b \<in> set (map b_id (budgets w)) \<longrightarrow>
     (\<exists>err. fst (BudgetDB_addBudget b w) = Inl err) \<and>
     expenses (snd (BudgetDB_addBudget b w)) = expenses w \<and>
     budgets (snd (BudgetDB_addBudget b w)) = budgets w \<and>
     alerts (snd (BudgetDB_addBudget b w)) = alerts w)"
  by (simp add: ExpenseDB_addExpense_def BudgetDB_addBudget_def storeOp_def Let_def)


theorem add_rejects_existing_id_witness:
  "e_id (expense1\<lparr>e_amount := 7\<rparr>) \<in> set (map e_id (expenses world1)) \<and>
   b_id (budget1\<lparr>b_amount := 7\<rparr>) \<in> set (map b_id (budgets world1)) \<and>
   ExpenseDB_addExpense (expense1\<lparr>e_amount := 7\<rparr>) world1 = (Inl ConstraintError, world1) \<and>
   BudgetDB_addBudget (budget1\<lparr>b_amount := 7\<rparr>) world1 = (Inl ConstraintError, world1)"
  using add_rejects_existing_id [of "expense1\<lparr>e_amount := 7\<rparr>" world1 "budget1\<lparr>b_amount := 7\<rparr>"]
  by (simp add: expense1_def budget1_def world0_def world1_def ExpenseDB_addExpense_def
      BudgetDB_addBudget_def storeOp_def nextFails_def)


section \<open>Deleting a budget\<close>

text \<open>
  Claim C8, as the claim states it, fails: \<^verbatim>\<open>BudgetDB.deleteBudget\<close> is two store operations
  one after the other, \<^verbatim>\<open>db.budgets.delete(id)\<close> and then the delete of the alerts, with no
  transaction around them. Here the first succeeds and the second is rejected: the call
  fails, budget \<^verbatim>\<open>b1\<close> is gone and its alert \<^verbatim>\<open>a0\<close> is still in the store.
\<close>

theorem deleteBudget_can_leave_alerts:
  "BudgetDB_deleteBudget ''b1'' (world1\<lparr>alerts := [alert1], faults := [False, True]\<rparr>)
   = (Inl StorageFailure, world1\<lparr>budgets := [], alerts := [alert1]\<rparr>)
   \<and> a_budgetId alert1 = ''b1''
   \<and> budgets (world1\<lparr>alerts := [alert1], faults := [False, True]\<rparr>) = [budget1]
   \<and> b_id budget1 = ''b1''"
  by (simp add: BudgetDB_deleteBudget_def andThen_def storeOp_def nextFails_def Let_def
      world1_def world0_def budget1_def alert1_def)

text \<open>
  Claim C8, amended. Deleting budget \<open>k\<close> is the delete of the budget followed by the delete
  of the alerts that refer to it, as two separate store operations. Every call ends in one
  of three ways, decided by which operation the store rejects. If the first is rejected the
  call fails and budgets and alerts are as before. If the first succeeds and the second is
  rejected the call fails, the budgets are those other than \<open>k\<close>, and the alerts are as
  before, those of \<open>k\<close> included. If neither is rejected the call returns, and there remain
  exactly the budgets other than \<open>k\<close> and exactly the alerts of budgets other than \<open>k\<close>, each
  unchanged and in its place. In every case the expenses are untouched.
\<close>

theorem deleteBudget_outcomes:
  assumes "BudgetDB_deleteBudget k w = (r, w')"
  shows "(nextFails w \<longrightarrow>
            r = Inl StorageFailure \<and> budgets w' = budgets w \<and> alerts w' = alerts w) \<and>
         (\<not> nextFails w \<and> nextFails (w\<lparr>faults := tl (faults w)\<rparr>) \<longrightarrow>
            r = Inl StorageFailure \<and>
            budgets w' = filter (\<lambda>b. b_id b \<noteq> k) (budgets w) \<and> alerts w' = alerts w) \<and>
         (\<not> nextFails w \<and> \<not> nextFails (w\<lparr>faults := tl (faults w)\<rparr>) \<longrightarrow>
            r = Inr () \<and>
            budgets w' = filter (\<lambda>b. b_id b \<noteq> k) (budgets w) \<and>
            alerts w' = filter (\<lambda>a. a_budgetId a \<noteq> k) (alerts w)) \<and>
         expenses w' = expenses w"
proof -
  let ?w1 = "w\<lparr>faults := tl (faults w), budgets := filter (\<lambda>b. b_id b \<noteq> k) (budgets w)\<rparr>"
  have same: "nextFails ?w1 = nextFails (w\<lparr>faults := tl (faults w)\<rparr>)"
    by (simp add: nextFails_def)
  show ?thesis
  proof (cases "nextFails w")
    case True
    with assms have "r = Inl StorageFailure" "w' = w\<lparr>faults := tl (faults w)\<rparr>"
      by (simp_all add: BudgetDB_deleteBudget_def andThen_def storeOp_def Let_def)
    with True show ?thesis by simp
  next
    case False
    show ?thesis
    proof (cases "nextFails ?w1")
      case True
      with False assms have "r = Inl StorageFailure" "w' = ?w1\<lparr>faults := tl (faults ?w1)\<rparr>"
        by (simp_all add: BudgetDB_deleteBudget_def andThen_def storeOp_def Let_def)
      with False True same show ?thesis by simp
    next
      case second: False
      with False assms have "r = Inr ()"
        "w' = ?w1\<lparr>faults := tl (faults ?w1),
                  alerts := filter (\<lambda>a. a_budgetId a \<noteq> k) (alerts ?w1)\<rparr>"
        by (simp_all add: BudgetDB_deleteBudget_def andThen_def storeOp_def Let_def)
      with False second same show ?thesis by simp
    qed
  qed
qed


theorem deleteBudget_outcomes_witness:
  "(nextFails (world_two_budgets\<lparr>faults := [True]\<rparr>) \<and>
    fst (BudgetDB_deleteBudget ''b1'' (world_two_budgets\<lparr>faults := [True]\<rparr>))
      = Inl StorageFailure \<and>
    budgets (snd (BudgetDB_deleteBudget ''b1'' (world_two_budgets\<lparr>faults := [True]\<rparr>)))
      = [budget1, budget1\<lparr>b_id := ''b2''\<rparr>] \<and>
    alerts (snd (BudgetDB_deleteBudget ''b1'' (world_two_budgets\<lparr>faults := [True]\<rparr>)))
      = [alert1, alert1\<lparr>a_id := ''a9'', a_budgetId := ''b2''\<rparr>]) \<and>
   (\<not> nextFails (world_two_budgets\<lparr>faults := [False, True]\<rparr>) \<and>
    nextFails (world_two_budgets\<lparr>faults := [True]\<rparr>) \<and>
    fst (BudgetDB_deleteBudget ''b1'' (world_two_budgets\<lparr>faults := [False, True]\<rparr>))
      = Inl StorageFailure \<and>
    budgets (snd (BudgetDB_deleteBudget ''b1'' (world_two_budgets\<lparr>faults := [False, True]\<rparr>)))
      = [budget1\<lparr>b_id := ''b2''\<rparr>] \<and>
    alerts (snd (BudgetDB_deleteBudget ''b1'' (world_two_budgets\<lparr>faults := [False, True]\<rparr>)))
      = [alert1, alert1\<lparr>a_id := ''a9'', a_budgetId := ''b2''\<rparr>]) \<and>
   (\<not> nextFails world_two_budgets \<and>
    \<not> nextFails (world_two_budgets\<lparr>faults := tl (faults world_two_budgets)\<rparr>) \<and>
    fst (BudgetDB_deleteBudget ''b1'' world_two_budgets) = Inr () \<and>
    budgets (snd (BudgetDB_deleteBudget ''b1'' world_two_budgets))
      = [budget1\<lparr>b_id := ''b2''\<rparr>] \<and>
    alerts (snd (BudgetDB_deleteBudget ''b1'' world_two_budgets))
      = [alert1\<lparr>a_id := ''a9'', a_budgetId := ''b2''\<rparr>] \<and>
    expenses (snd (BudgetDB_deleteBudget ''b1'' world_two_budgets)) = [expense1])"
proof -
  let ?wa = "world_two_budgets\<lparr>faults := [True]\<rparr>"
  let ?wb = "world_two_budgets\<lparr>faults := [False, True]\<rparr>"
  let ?wc = "world_two_budgets"
  have fa: "nextFails ?wa" by (simp add: nextFails_def)
  have fb: "\<not> nextFails ?wb \<and> nextFails (?wb\<lparr>faults := tl (faults ?wb)\<rparr>)"
    by (simp add: nextFails_def)
  have fb': "\<not> nextFails ?wb" "nextFails ?wa"
    by (simp_all add: nextFails_def)
  have fc: "\<not> nextFails ?wc \<and> \<not> nextFails (?wc\<lparr>faults := tl (faults ?wc)\<rparr>)"
    by (simp add: nextFails_def world_two_budgets_def world1_def world0_def)
  have bs: "budgets world_two_budgets = [budget1, budget1\<lparr>b_id := ''b2''\<rparr>]"
    "alerts world_two_budgets = [alert1, alert1\<lparr>a_id := ''a9'', a_budgetId := ''b2''\<rparr>]"
    "expenses world_two_budgets = [expense1]"
    by (simp_all add: world_two_budgets_def world1_def world0_def)
  have ids: "b_id budget1 = ''b1''" "a_budgetId alert1 = ''b1''"
    by (simp_all add: budget1_def alert1_def)
  note ta = deleteBudget_outcomes [OF surjective_pairing [of "BudgetDB_deleteBudget ''b1'' ?wa"],
      THEN conjunct1, THEN mp, OF fa]
  note tb = deleteBudget_outcomes [OF surjective_pairing [of "BudgetDB_deleteBudget ''b1'' ?wb"],
      THEN conjunct2, THEN conjunct1, THEN mp, OF fb]
  note tc = deleteBudget_outcomes [OF surjective_pairing [of "BudgetDB_deleteBudget ''b1'' ?wc"],
      THEN conjunct2, THEN conjunct2]
  note tc1 = tc [THEN conjunct1, THEN mp, OF fc]
  note tc2 = tc [THEN conjunct2]
  from ta have a: "fst (BudgetDB_deleteBudget ''b1'' ?wa) = Inl StorageFailure"
    "budgets (snd (BudgetDB_deleteBudget ''b1'' ?wa)) = [budget1, budget1\<lparr>b_id := ''b2''\<rparr>]"
    "alerts (snd (BudgetDB_deleteBudget ''b1'' ?wa))
       = [alert1, alert1\<lparr>a_id := ''a9'', a_budgetId := ''b2''\<rparr>]"
    by (simp_all add: bs)
  from tb have b: "fst (BudgetDB_deleteBudget ''b1'' ?wb) = Inl StorageFailure"
    "budgets (snd (BudgetDB_deleteBudget ''b1'' ?wb)) = [budget1\<lparr>b_id := ''b2''\<rparr>]"
    "alerts (snd (BudgetDB_deleteBudget ''b1'' ?wb))
       = [alert1, alert1\<lparr>a_id := ''a9'', a_budgetId := ''b2''\<rparr>]"
    by (simp_all add: bs ids)
  from tc1 tc2 have c: "fst (BudgetDB_deleteBudget ''b1'' ?wc) = Inr ()"
    "budgets (snd (BudgetDB_deleteBudget ''b1'' ?wc)) = [budget1\<lparr>b_id := ''b2''\<rparr>]"
    "alerts (snd (BudgetDB_deleteBudget ''b1'' ?wc))
       = [alert1\<lparr>a_id := ''a9'', a_budgetId := ''b2''\<rparr>]"
    "expenses (snd (BudgetDB_deleteBudget ''b1'' ?wc)) = [expense1]"
    by (simp_all add: bs ids)
  from fc have c0: "\<not> nextFails ?wc"
    "\<not> nextFails (?wc\<lparr>faults := tl (faults ?wc)\<rparr>)" by simp_all
  show ?thesis
    by (intro conjI fa fb' a b c c0)
qed


section \<open>Updates and the sync flag\<close>

text \<open>
  Claim C4, as the claim states it, fails for expenses: the store's own
  \<^verbatim>\<open>ExpenseDB.updateExpense\<close> writes the fields it is given and nothing else. Here a synced
  expense gets a new amount at clock 5000 and stays synced, with its old \<^verbatim>\<open>updatedAt\<close>.
\<close>

theorem ExpenseDB_updateExpense_does_not_stamp:
  "ExpenseDB_updateExpense ''e1'' (no_expense_updates\<lparr>ue_amount := Some 50\<rparr>)
     (world0\<lparr>expenses := [expense1]\<rparr>)
   = (Inr (), world0\<lparr>expenses := [expense1\<lparr>e_amount := 50\<rparr>]\<rparr>)
   \<and> e_synced (expense1\<lparr>e_amount := 50\<rparr>)
   \<and> e_updatedAt (expense1\<lparr>e_amount := 50\<rparr>) \<noteq> clock (world0\<lparr>expenses := [expense1]\<rparr>)"
  by (simp add: ExpenseDB_updateExpense_def storeOp_def nextFails_def world0_def expense1_def
      apply_expense_updates_def no_expense_updates_def)

text \<open>
  Claim C4, amended. \<^verbatim>\<open>BudgetDB.updateBudget\<close> stamps the budget it changes with
  \<^verbatim>\<open>updatedAt\<close> = the clock reading and \<^verbatim>\<open>synced\<close> = false, whatever fields the caller
  supplied. For expenses the stamp is put on by \<^verbatim>\<open>ExpenseService.updateExpense\<close>: after it
  returns, the expense carries \<^verbatim>\<open>updatedAt\<close> = the clock reading, and it is unsynced unless
  the device is online (where the service's own follow-up push may have uploaded it).
  No row is added or removed by either update.
\<close>

theorem update_stamps_updatedAt_and_unsynced:
  "(BudgetDB_updateBudget k ub w = (Inr (), w1) \<longrightarrow>
      map b_id (budgets w1) = map b_id (budgets w) \<and>
      (\<forall>b \<in> set (budgets w1). b_id b = k \<longrightarrow> b_updatedAt b = clock w \<and> \<not> b_synced b)) \<and>
   (ExpenseService_updateExpense k' uf w' = (Inr (), w3) \<longrightarrow>
      map e_id (expenses w3) = map e_id (expenses w') \<and>
      (\<forall>e \<in> set (expenses w3). e_id e = k' \<longrightarrow>
          e_updatedAt e = clock w' \<and> (e_synced e \<longrightarrow> onLine w')))"
proof (intro conjI impI)
  assume a: "BudgetDB_updateBudget k ub w = (Inr (), w1)"
  let ?u = "ub\<lparr>ub_updatedAt := Some (clock w), ub_synced := Some False\<rparr>"
  note w1 = updateBudget_Inr [OF a]
  show "map b_id (budgets w1) = map b_id (budgets w)"
    by (simp only: w1 map_b_id_update)
  show "\<forall>b \<in> set (budgets w1). b_id b = k \<longrightarrow> b_updatedAt b = clock w \<and> \<not> b_synced b"
  proof (intro ballI impI)
    fix b assume "b \<in> set (budgets w1)" and k: "b_id b = k"
    then have "b \<in> set (map (\<lambda>b. if b_id b = k then apply_budget_updates ?u b else b) (budgets w))"
      by (simp only: w1)
    then show "b_updatedAt b = clock w \<and> \<not> b_synced b"
      using k by (cases rule: in_set_map_if) (simp_all add: budget_stamp)
  qed
next
  assume a: "ExpenseService_updateExpense k' uf w' = (Inr (), w3)"
  from service_update_forget [OF a] obtain w1 where
    s1: "ExpenseDB_updateExpense k' (updateData uf (clock w')) w' = (Inr (), w1)" and
    fg: "forgetSynced (expenses w3) = forgetSynced (expenses w1)" and
    off: "\<not> onLine w' \<Longrightarrow> w3 = w1" by blast
  note w1 = updateExpense_Inr(1) [OF s1]
  have stamped: "e_updatedAt e = clock w' \<and> \<not> e_synced e"
    if "e \<in> set (expenses w1)" and k: "e_id e = k'" for e
  proof -
    from that have "e \<in> set (map (\<lambda>e. if e_id e = k'
        then apply_expense_updates (updateData uf (clock w')) e else e) (expenses w'))"
      by (simp only: w1)
    then show ?thesis
      using k by (cases rule: in_set_map_if) (simp_all add: expense_stamp)
  qed
  have "map e_id (expenses w3) = map e_id (expenses w1)"
    using forgetSynced_ids [of "expenses w3"] forgetSynced_ids [of "expenses w1"] fg by simp
  then show "map e_id (expenses w3) = map e_id (expenses w')"
    by (simp only: w1 map_e_id_update)
  show "\<forall>e \<in> set (expenses w3). e_id e = k' \<longrightarrow> e_updatedAt e = clock w' \<and> (e_synced e \<longrightarrow> onLine w')"
  proof (intro ballI impI)
    fix e assume e: "e \<in> set (expenses w3)" "e_id e = k'"
    from forgetSynced_member [OF fg e(1)] obtain y where
      y: "y \<in> set (expenses w1)" "e_id y = e_id e" "e_updatedAt y = e_updatedAt e" by blast
    with stamped [of y] e(2) have "e_updatedAt e = clock w'" by simp
    moreover have "e_synced e \<longrightarrow> onLine w'"
    proof (rule ccontr)
      assume "\<not> (e_synced e \<longrightarrow> onLine w')"
      then have "e_synced e" "\<not> onLine w'" by auto
      with off e stamped [of e] show False by auto
    qed
    ultimately show "e_updatedAt e = clock w' \<and> (e_synced e \<longrightarrow> onLine w')" by simp
  qed
qed


theorem update_stamps_witness:
  "BudgetDB_updateBudget ''b1'' (no_budget_updates\<lparr>ub_amount := Some 7, ub_synced := Some True\<rparr>) world1
     = (Inr (), world1\<lparr>budgets := [budget1\<lparr>b_amount := 7, b_updatedAt := 5000, b_synced := False\<rparr>]\<rparr>)
   \<and> ExpenseService_updateExpense ''e1''
        \<lparr>uf_amount = Some 50, uf_category = None, uf_description = None, uf_date = None\<rparr>
        (world1\<lparr>onLine := False\<rparr>)
     = (Inr (), world1\<lparr>onLine := False,
          expenses := [expense1\<lparr>e_amount := 50, e_updatedAt := 5000, e_synced := False\<rparr>]\<rparr>)
   \<and> clock world1 = 5000"
proof -
  have b: "BudgetDB_updateBudget ''b1'' (no_budget_updates\<lparr>ub_amount := Some 7, ub_synced := Some True\<rparr>) world1
     = (Inr (), world1\<lparr>budgets := [budget1\<lparr>b_amount := 7, b_updatedAt := 5000, b_synced := False\<rparr>]\<rparr>)"
    by (simp add: BudgetDB_updateBudget_def storeOp_def nextFails_def Let_def world1_def world0_def
        budget1_def apply_budget_updates_def no_budget_updates_def)
  have e: "ExpenseService_updateExpense ''e1''
        \<lparr>uf_amount = Some 50, uf_category = None, uf_description = None, uf_date = None\<rparr>
        (world1\<lparr>onLine := False\<rparr>)
     = (Inr (), world1\<lparr>onLine := False,
          expenses := [expense1\<lparr>e_amount := 50, e_updatedAt := 5000, e_synced := False\<rparr>]\<rparr>)"
    by (simp add: ExpenseService_updateExpense_def ExpenseDB_updateExpense_def andThen_def
        SyncService_isOnline_def storeOp_def nextFails_def Let_def world1_def world0_def
        expense1_def apply_expense_updates_def updateData_def)
  note t = update_stamps_updatedAt_and_unsynced
      [of "''b1''" "no_budget_updates\<lparr>ub_amount := Some 7, ub_synced := Some True\<rparr>" world1
        "world1\<lparr>budgets := [budget1\<lparr>b_amount := 7, b_updatedAt := 5000, b_synced := False\<rparr>]\<rparr>"
        "''e1''" "\<lparr>uf_amount = Some 50, uf_category = None, uf_description = None, uf_date = None\<rparr>"
        "world1\<lparr>onLine := False\<rparr>"
        "world1\<lparr>onLine := False,
          expenses := [expense1\<lparr>e_amount := 50, e_updatedAt := 5000, e_synced := False\<rparr>]\<rparr>"]
  note tb = t [THEN conjunct1, THEN mp, OF b, THEN conjunct1]
  note te = t [THEN conjunct2, THEN mp, OF e, THEN conjunct1]
  have c: "clock world1 = 5000" by (simp add: world1_def world0_def)
  from tb te show ?thesis by (intro conjI b e c)
qed

section \<open>The pull is additive\<close>

lemma addExpense_Inr:
  assumes "ExpenseDB_addExpense e w = (Inr x, w')"
  shows "w' = w\<lparr>faults := tl (faults w), expenses := expenses w @ [e]\<rparr>"
    and "e_id e \<notin> e_id ` set (expenses w)"
proof -
  have run: "\<not> nextFails w" "e_id e \<notin> set (map e_id (expenses w))"
    using assms
    by (cases "nextFails w"; cases "e_id e \<in> set (map e_id (expenses w))";
        simp add: ExpenseDB_addExpense_def storeOp_def Let_def)+
  with assms show "w' = w\<lparr>faults := tl (faults w), expenses := expenses w @ [e]\<rparr>"
    by (simp add: ExpenseDB_addExpense_def storeOp_def Let_def)
  from run show "e_id e \<notin> e_id ` set (expenses w)" by simp
qed

lemma addExpense_Inl:
  assumes "ExpenseDB_addExpense e w = (Inl err, w')"
  shows "w' = w\<lparr>faults := tl (faults w)\<rparr>"
  using assms
  by (cases "nextFails w"; cases "e_id e \<in> set (map e_id (expenses w))")
     (simp_all add: ExpenseDB_addExpense_def storeOp_def Let_def)

lemma addNewExpenses_appends:
  assumes "addNewExpenses ids rs n w = (r, w')"
  shows "\<exists>added. expenses w' = expenses w @ added"
    and "budgets w' = budgets w \<and> alerts w' = alerts w \<and> fsExpenses w' = fsExpenses w
         \<and> fsBudgets w' = fsBudgets w"
  using assms
proof (induction rs arbitrary: n w)
  case Nil
  { case 1 then show ?case by simp }
  { case 2 then show ?case by simp }
next
  case (Cons x rs)
  {
    case 1
    show ?case
    proof (cases "e_id x \<notin> set ids")
      case False
      with 1 have "addNewExpenses ids rs n w = (r, w')" by simp
      from Cons.IH(1) [OF this] show ?thesis .
    next
      case True
      obtain r1 w1 where a: "ExpenseDB_addExpense (asSynced x) w = (r1, w1)"
        by (cases "ExpenseDB_addExpense (asSynced x) w")
      show ?thesis
      proof (cases r1)
        case (Inl err)
        with a True 1 have "w' = w1" by simp
        with addExpense_Inl [of "asSynced x" w err w1] a Inl show ?thesis by simp
      next
        case (Inr y)
        with a True 1 have "addNewExpenses ids rs (Suc n) w1 = (r, w')" by simp
        from Cons.IH(1) [OF this] obtain added where "expenses w' = expenses w1 @ added" ..
        with addExpense_Inr(1) [of "asSynced x" w y w1] a Inr
        have "expenses w' = expenses w @ (asSynced x # added)" by simp
        then show ?thesis ..
      qed
    qed
  }
  {
    case 2
    show ?case
    proof (cases "e_id x \<notin> set ids")
      case False
      with 2 have "addNewExpenses ids rs n w = (r, w')" by simp
      from Cons.IH(2) [OF this] show ?thesis .
    next
      case True
      obtain r1 w1 where a: "ExpenseDB_addExpense (asSynced x) w = (r1, w1)"
        by (cases "ExpenseDB_addExpense (asSynced x) w")
      show ?thesis
      proof (cases r1)
        case (Inl err)
        with a True 2 have "w' = w1" by simp
        with addExpense_Inl [of "asSynced x" w err w1] a Inl show ?thesis by simp
      next
        case (Inr y)
        with a True 2 have "addNewExpenses ids rs (Suc n) w1 = (r, w')" by simp
        from Cons.IH(2) [OF this] addExpense_Inr(1) [of "asSynced x" w y w1] a Inr
        show ?thesis by simp
      qed
    qed
  }
qed

lemma addNewExpenses_completes:
  assumes "addNewExpenses ids rs n w = (Inr m, w')"
  shows "expenses w' = expenses w @ map asSynced (filter (\<lambda>x. e_id x \<notin> set ids) rs)"
    and "\<forall>x \<in> set rs. e_id x \<notin> set ids \<longrightarrow> e_id x \<notin> e_id ` set (expenses w)"
  using assms
proof (induction rs arbitrary: n w)
  case Nil
  { case 1 then show ?case by simp }
  { case 2 then show ?case by simp }
next
  case (Cons x rs)
  {
    case 1
    show ?case
    proof (cases "e_id x \<notin> set ids")
      case False
      with 1 have "addNewExpenses ids rs n w = (Inr m, w')" by simp
      from Cons.IH(1) [OF this] False show ?thesis by simp
    next
      case True
      obtain r1 w1 where a: "ExpenseDB_addExpense (asSynced x) w = (r1, w1)"
        by (cases "ExpenseDB_addExpense (asSynced x) w")
      show ?thesis
      proof (cases r1)
        case (Inl err)
        with a True 1 show ?thesis by simp
      next
        case (Inr y)
        with a True 1 have "addNewExpenses ids rs (Suc n) w1 = (Inr m, w')" by simp
        from Cons.IH(1) [OF this] addExpense_Inr(1) [of "asSynced x" w y w1] a Inr True
        show ?thesis by simp
      qed
    qed
  }
  {
    case 2
    show ?case
    proof (cases "e_id x \<notin> set ids")
      case False
      with 2 have "addNewExpenses ids rs n w = (Inr m, w')" by simp
      from Cons.IH(2) [OF this] False show ?thesis by simp
    next
      case True
      obtain r1 w1 where a: "ExpenseDB_addExpense (asSynced x) w = (r1, w1)"
        by (cases "ExpenseDB_addExpense (asSynced x) w")
      show ?thesis
      proof (cases r1)
        case (Inl err)
        with a True 2 show ?thesis by simp
      next
        case (Inr y)
        with a True 2 have "addNewExpenses ids rs (Suc n) w1 = (Inr m, w')" by simp
        from Cons.IH(2) [OF this]
        have rest: "\<forall>y \<in> set rs. e_id y \<notin> set ids \<longrightarrow> e_id y \<notin> e_id ` set (expenses w1)" .
        have w1: "expenses w1 = expenses w @ [asSynced x]"
          using addExpense_Inr(1) [of "asSynced x" w y w1] a Inr by simp
        have fresh: "e_id x \<notin> e_id ` set (expenses w)"
          using addExpense_Inr(2) [of "asSynced x" w y w1] a Inr by simp
        from rest w1 fresh show ?thesis by auto
      qed
    qed
  }
qed

lemma syncFromFirebase_unfold:
  "SyncService_syncFromFirebase u w =
     (if nextFails w then (Inl NetworkFailure, w\<lparr>faults := tl (faults w)\<rparr>)
      else if nextFails (w\<lparr>faults := tl (faults w)\<rparr>)
      then (Inl StorageFailure, w\<lparr>faults := tl (tl (faults w))\<rparr>)
      else (case addNewExpenses (map e_id (ownerRows u w))
                  (sort_key (\<lambda>e. - e_createdAt e) (remoteRows u w)) 0
                  (w\<lparr>faults := tl (tl (faults w))\<rparr>) of
              (Inl e, w') \<Rightarrow> (Inl e, w')
            | (Inr n, w') \<Rightarrow> (Inr (), w')))"
  by (simp add: SyncService_syncFromFirebase_def andThen_def ret_def getDocs_expenses_def
      ExpenseDB_getExpenses_def storeOp_def Let_def ownerRows_def remoteRows_def
      split: prod.splits sum.splits)

text \<open>
  Claim C1. Whatever the outcome of the pull, the local expenses table afterwards is the
  table before followed by added rows: no local row is changed, removed or moved, and
  budgets, alerts and the remote collection are untouched. When the pull completes, the
  added rows are the fetched remote records whose id the owner's local rows do not have,
  each with \<^verbatim>\<open>synced\<close> = true; so the owner's local set is \<open>L \<union> {r \<in> R. id r \<notin> ids L}\<close>,
  and the same holds with \<open>L\<close> the whole table.
\<close>

theorem pull_is_additive:
  assumes "SyncService_syncFromFirebase u w = (r, w')"
  shows "(\<exists>added. expenses w' = expenses w @ added) \<and>
         budgets w' = budgets w \<and> alerts w' = alerts w \<and> fsExpenses w' = fsExpenses w \<and>
         (r = Inr () \<longrightarrow>
            expenses w' = expenses w @
              map asSynced (filter (\<lambda>x. e_id x \<notin> e_id ` set (ownerRows u w))
                (sort_key (\<lambda>e. - e_createdAt e) (remoteRows u w))) \<and>
            set (ownerRows u w') = set (ownerRows u w) \<union>
              {asSynced x | x. x \<in> set (remoteRows u w) \<and> e_id x \<notin> e_id ` set (ownerRows u w)} \<and>
            set (expenses w') = set (expenses w) \<union>
              {asSynced x | x. x \<in> set (remoteRows u w) \<and> e_id x \<notin> e_id ` set (expenses w)})"
proof (cases "nextFails w \<or> nextFails (w\<lparr>faults := tl (faults w)\<rparr>)")
  case True
  with assms have "r \<noteq> Inr ()" and "expenses w' = expenses w" and "budgets w' = budgets w"
    and "alerts w' = alerts w" and "fsExpenses w' = fsExpenses w"
    by (auto simp: syncFromFirebase_unfold split: if_splits)
  then show ?thesis by simp
next
  case False
  let ?w2 = "w\<lparr>faults := tl (tl (faults w))\<rparr>"
  let ?R = "sort_key (\<lambda>e. - e_createdAt e) (remoteRows u w)"
  let ?ids = "map e_id (ownerRows u w)"
  obtain r' where loop: "addNewExpenses ?ids ?R 0 ?w2 = (r', w')"
    and r: "r = (case r' of Inl e \<Rightarrow> Inl e | Inr n \<Rightarrow> Inr ())"
    using assms False
    by (cases "addNewExpenses ?ids ?R 0 ?w2")
       (auto simp: syncFromFirebase_unfold split: sum.splits)
  from addNewExpenses_appends [OF loop]
  have frame: "(\<exists>added. expenses w' = expenses w @ added) \<and>
         budgets w' = budgets w \<and> alerts w' = alerts w \<and> fsExpenses w' = fsExpenses w"
    by simp
  have completed: "expenses w' = expenses w @
              map asSynced (filter (\<lambda>x. e_id x \<notin> e_id ` set (ownerRows u w)) ?R) \<and>
            set (ownerRows u w') = set (ownerRows u w) \<union>
              {asSynced x | x. x \<in> set (remoteRows u w) \<and> e_id x \<notin> e_id ` set (ownerRows u w)} \<and>
            set (expenses w') = set (expenses w) \<union>
              {asSynced x | x. x \<in> set (remoteRows u w) \<and> e_id x \<notin> e_id ` set (expenses w)}"
    if ok: "r = Inr ()"
  proof -
    from ok r obtain n where "r' = Inr n" by (cases r') simp_all
    with loop have l: "addNewExpenses ?ids ?R 0 ?w2 = (Inr n, w')" by simp
    have tab: "expenses w' = expenses w @
              map asSynced (filter (\<lambda>x. e_id x \<notin> e_id ` set (ownerRows u w)) ?R)"
      using addNewExpenses_completes(1) [OF l] by simp
    have fresh: "\<forall>x \<in> set ?R. e_id x \<notin> e_id ` set (ownerRows u w) \<longrightarrow>
        e_id x \<notin> e_id ` set (expenses w)"
      using addNewExpenses_completes(2) [OF l] by simp
    have owner: "\<forall>x \<in> set ?R. e_userId x = u"
      by (simp add: remoteRows_def)
    have sub: "e_id ` set (ownerRows u w) \<subseteq> e_id ` set (expenses w)"
      by (auto simp: ownerRows_def)
    have setR: "set ?R = set (remoteRows u w)" by simp
    have s1: "set (ownerRows u w') = set (ownerRows u w) \<union>
              {asSynced x | x. x \<in> set (remoteRows u w) \<and> e_id x \<notin> e_id ` set (ownerRows u w)}"
      using owner unfolding ownerRows_def [of u w'] tab setR [symmetric]
      by (auto simp: ownerRows_def)
    have s2: "set (expenses w') = set (expenses w) \<union>
              {asSynced x | x. x \<in> set (remoteRows u w) \<and> e_id x \<notin> e_id ` set (expenses w)}"
    proof -
      have "filter (\<lambda>x. e_id x \<notin> e_id ` set (ownerRows u w)) ?R =
            filter (\<lambda>x. e_id x \<notin> e_id ` set (expenses w)) ?R"
        using fresh sub by (intro filter_cong refl) blast
      then have "expenses w' = expenses w @
          map asSynced (filter (\<lambda>x. e_id x \<notin> e_id ` set (expenses w)) ?R)"
        using tab by simp
      then show ?thesis by auto
    qed
    from tab s1 s2 show ?thesis by simp
  qed
  from frame completed show ?thesis by blast
qed

theorem pull_is_additive_witness:
  "SyncService_syncFromFirebase ''u1'' world_pull
     = (Inr (), world_pull\<lparr>expenses := [expense1, asSynced expense2]\<rparr>)
   \<and> expenses world_pull = [expense1]
   \<and> set (ownerRows ''u1'' (world_pull\<lparr>expenses := [expense1, asSynced expense2]\<rparr>))
       = {expense1, asSynced expense2}"
proof -
  have run: "SyncService_syncFromFirebase ''u1'' world_pull
     = (Inr (), world_pull\<lparr>expenses := [expense1, asSynced expense2]\<rparr>)"
    by (simp add: syncFromFirebase_unfold nextFails_def ownerRows_def remoteRows_def
        world_pull_def world1_def world0_def expense1_def expense2_def
        ExpenseDB_addExpense_def storeOp_def Let_def)
  have before: "expenses world_pull = [expense1]"
    by (simp add: world_pull_def world1_def world0_def)
  have after: "set (ownerRows ''u1'' (world_pull\<lparr>expenses := [expense1, asSynced expense2]\<rparr>))
       = {expense1, asSynced expense2}"
    by (simp add: ownerRows_def expense1_def expense2_def)
  from pull_is_additive [OF run] show ?thesis
    by (intro conjI run before after)
qed

section \<open>Pushing twice\<close>

lemma markIds_markIds: "markIds T (markIds S x) = markIds (S \<union> T) x"
  by (simp add: markIds_def)

lemma markIds_compose:
  "map (markIds T) (map (markIds S) xs) = map (markIds (S \<union> T)) xs"
  by (induction xs) (simp_all add: markIds_markIds)

lemma markIds_empty: "map (markIds {}) xs = xs"
  by (induction xs) (simp_all add: markIds_def)

lemma markAsSynced_result:
  assumes "ExpenseDB_markAsSynced k w = (r, w')"
  shows "r = Inr () \<Longrightarrow> expenses w' = map (markIds {k}) (expenses w)"
    and "r \<noteq> Inr () \<Longrightarrow> expenses w' = expenses w"
proof -
  have m: "map (\<lambda>e. if e_id e = k then asSynced e else e) xs = map (markIds {k}) xs" for xs
    by (induction xs) (simp_all add: markIds_def)
  show "r = Inr () \<Longrightarrow> expenses w' = map (markIds {k}) (expenses w)"
  proof (cases "nextFails w")
    case True
    assume "r = Inr ()"
    with True assms show ?thesis by (simp add: markAsSynced_alt storeOp_def Let_def)
  next
    case False
    with assms have "w' = w\<lparr>faults := tl (faults w),
        expenses := map (\<lambda>e. if e_id e = k then asSynced e else e) (expenses w)\<rparr>"
      by (simp add: markAsSynced_alt storeOp_def Let_def)
    then show ?thesis by (simp add: m)
  qed
  show "r \<noteq> Inr () \<Longrightarrow> expenses w' = expenses w"
  proof (cases "nextFails w")
    case True
    with assms have "w' = w\<lparr>faults := tl (faults w)\<rparr>"
      by (simp add: markAsSynced_alt storeOp_def Let_def)
    then show ?thesis by simp
  next
    case False
    assume "r \<noteq> Inr ()"
    with False assms show ?thesis by (simp add: markAsSynced_alt storeOp_def Let_def)
  qed
qed

lemma setDoc_expenses_result:
  assumes "setDoc_expenses k d w = (r, w')"
  shows "expenses w' = expenses w"
  using assms setDoc_expenses_frame [of k d w] by simp

lemma uploadExpense_result:
  assumes "uploadExpense e w = (r, w')"
  shows "r = Inr () \<Longrightarrow> expenses w' = map (markIds {e_id e}) (expenses w)"
    and "r \<noteq> Inr () \<Longrightarrow> expenses w' = expenses w"
proof -
  obtain r1 w1 where s1: "setDoc_expenses (e_id e) (asSynced e) w = (r1, w1)"
    by (cases "setDoc_expenses (e_id e) (asSynced e) w")
  note e1 = setDoc_expenses_result [OF s1]
  show "r = Inr () \<Longrightarrow> expenses w' = map (markIds {e_id e}) (expenses w)"
  proof (cases r1)
    case (Inl err)
    assume "r = Inr ()"
    with assms s1 Inl show ?thesis by (simp add: uploadExpense_def andThen_def)
  next
    case (Inr x)
    assume ok: "r = Inr ()"
    from assms s1 Inr have "ExpenseDB_markAsSynced (e_id e) w1 = (r, w')"
      by (simp add: uploadExpense_def andThen_def)
    from markAsSynced_result(1) [OF this ok] e1 show ?thesis by simp
  qed
  show "r \<noteq> Inr () \<Longrightarrow> expenses w' = expenses w"
  proof (cases r1)
    case (Inl err)
    with assms s1 have "w' = w1" by (simp add: uploadExpense_def andThen_def)
    with e1 show ?thesis by simp
  next
    case (Inr x)
    assume bad: "r \<noteq> Inr ()"
    from assms s1 Inr have "ExpenseDB_markAsSynced (e_id e) w1 = (r, w')"
      by (simp add: uploadExpense_def andThen_def)
    from markAsSynced_result(2) [OF this bad] e1 show ?thesis by simp
  qed
qed

lemma uploadExpenses_marks:
  assumes "uploadExpenses es (s, f) w = ((s', f'), w')"
  shows "\<exists>S. S \<subseteq> e_id ` set es \<and> (f' = f \<longrightarrow> S = e_id ` set es) \<and> f \<le> f' \<and>
             expenses w' = map (markIds S) (expenses w)"
  using assms
proof (induction es arbitrary: s f w)
  case Nil
  then have "f' = f" "w' = w" by simp_all
  then have "{} \<subseteq> e_id ` set [] \<and> (f' = f \<longrightarrow> {} = e_id ` set []) \<and> f \<le> f' \<and>
             expenses w' = map (markIds {}) (expenses w)"
    by (simp add: markIds_empty)
  then show ?case by blast
next
  case (Cons e es)
  obtain r w1 where step: "uploadExpense e w = (r, w1)" by (cases "uploadExpense e w")
  show ?case
  proof (cases r)
    case (Inr x)
    with step Cons.prems have "uploadExpenses es (Suc s, f) w1 = ((s', f'), w')" by simp
    from Cons.IH [OF this] obtain S where
      S: "S \<subseteq> e_id ` set es" "f' = f \<longrightarrow> S = e_id ` set es" "f \<le> f'"
         "expenses w' = map (markIds S) (expenses w1)" by blast
    from Inr have "r = Inr ()" by simp
    from uploadExpense_result(1) [OF step this]
    have "expenses w1 = map (markIds {e_id e}) (expenses w)" .
    then have "expenses w' = map (markIds ({e_id e} \<union> S)) (expenses w)"
      by (simp only: S(4) markIds_compose)
    moreover from S have "{e_id e} \<union> S \<subseteq> e_id ` set (e # es)"
      and "f' = f \<longrightarrow> {e_id e} \<union> S = e_id ` set (e # es)" by auto
    ultimately show ?thesis using S(3) by blast
  next
    case (Inl err)
    with step Cons.prems have "uploadExpenses es (s, Suc f) w1 = ((s', f'), w')" by simp
    from Cons.IH [OF this] obtain S where
      S: "S \<subseteq> e_id ` set es" "Suc f \<le> f'"
         "expenses w' = map (markIds S) (expenses w1)" by blast
    from Inl have "r \<noteq> Inr ()" by simp
    from uploadExpense_result(2) [OF step this] S(3)
    have "expenses w' = map (markIds S) (expenses w)" by simp
    moreover from S have "S \<subseteq> e_id ` set (e # es)" "f' \<noteq> f" "f \<le> f'" by auto
    ultimately show ?thesis by blast
  qed
qed

lemma getUnsyncedExpenses_Inr:
  assumes "ExpenseDB_getUnsyncedExpenses u w = (Inr es, w0)"
  shows "es = filter (\<lambda>e. \<not> e_synced e) (ownerRows u w)" and "w0 = w\<lparr>faults := tl (faults w)\<rparr>"
proof -
  have n: "\<not> nextFails w"
    using assms
    by (cases "nextFails w") (simp_all add: ExpenseDB_getUnsyncedExpenses_def storeOp_def Let_def)
  with assms show "es = filter (\<lambda>e. \<not> e_synced e) (ownerRows u w)"
    by (simp add: ExpenseDB_getUnsyncedExpenses_def storeOp_def Let_def ownerRows_def)
  from n assms show "w0 = w\<lparr>faults := tl (faults w)\<rparr>"
    by (simp add: ExpenseDB_getUnsyncedExpenses_def storeOp_def Let_def)
qed

lemma getUnsyncedExpenses_Inl:
  assumes "ExpenseDB_getUnsyncedExpenses u w = (Inl err, w0)"
  shows "w0 = w\<lparr>faults := tl (faults w)\<rparr>"
  using assms
  by (cases "nextFails w") (simp_all add: ExpenseDB_getUnsyncedExpenses_def storeOp_def Let_def)

lemma markAsSynced_frame:
  "budgets (snd (ExpenseDB_markAsSynced k w)) = budgets w \<and>
   alerts (snd (ExpenseDB_markAsSynced k w)) = alerts w \<and>
   fsExpenses (snd (ExpenseDB_markAsSynced k w)) = fsExpenses w \<and>
   fsBudgets (snd (ExpenseDB_markAsSynced k w)) = fsBudgets w \<and>
   syncInProgress (snd (ExpenseDB_markAsSynced k w)) = syncInProgress w"
  by (simp add: markAsSynced_alt storeOp_def Let_def)

lemma setDoc_expenses_frame2:
  "budgets (snd (setDoc_expenses k d w)) = budgets w \<and>
   alerts (snd (setDoc_expenses k d w)) = alerts w \<and>
   fsBudgets (snd (setDoc_expenses k d w)) = fsBudgets w \<and>
   syncInProgress (snd (setDoc_expenses k d w)) = syncInProgress w"
  by (simp add: setDoc_expenses_def storeOp_def Let_def)

lemma uploadExpense_frame:
  "budgets (snd (uploadExpense e w)) = budgets w \<and>
   alerts (snd (uploadExpense e w)) = alerts w \<and>
   fsBudgets (snd (uploadExpense e w)) = fsBudgets w \<and>
   syncInProgress (snd (uploadExpense e w)) = syncInProgress w"
proof -
  obtain r1 w1 where s1: "setDoc_expenses (e_id e) (asSynced e) w = (r1, w1)"
    by (cases "setDoc_expenses (e_id e) (asSynced e) w")
  have f1: "budgets w1 = budgets w \<and> alerts w1 = alerts w \<and> fsBudgets w1 = fsBudgets w
        \<and> syncInProgress w1 = syncInProgress w"
    using setDoc_expenses_frame2 [of "e_id e" "asSynced e" w] s1 by simp
  show ?thesis
    by (cases r1) (simp_all add: uploadExpense_def andThen_snd s1 f1 markAsSynced_frame)
qed

lemma uploadExpenses_frame:
  "budgets (snd (uploadExpenses es c w)) = budgets w \<and>
   alerts (snd (uploadExpenses es c w)) = alerts w \<and>
   fsBudgets (snd (uploadExpenses es c w)) = fsBudgets w \<and>
   syncInProgress (snd (uploadExpenses es c w)) = syncInProgress w"
proof (induction es arbitrary: c w)
  case Nil
  show ?case by simp
next
  case (Cons e es)
  obtain s f where c: "c = (s, f)" by (cases c)
  obtain r w' where step: "uploadExpense e w = (r, w')" by (cases "uploadExpense e w")
  have "budgets w' = budgets w \<and> alerts w' = alerts w \<and> fsBudgets w' = fsBudgets w
        \<and> syncInProgress w' = syncInProgress w"
    using uploadExpense_frame [of e w] step by simp
  then show ?case
    by (cases r) (simp_all add: c step Cons.IH)
qed

lemma marked_rows_are_synced:
  assumes "es = filter (\<lambda>e. \<not> e_synced e) (filter (\<lambda>e. e_userId e = u) xs)"
  shows "filter (\<lambda>e. \<not> e_synced e)
           (filter (\<lambda>e. e_userId e = u) (map (markIds (e_id ` set es)) xs)) = []"
proof -
  have "e_synced (markIds (e_id ` set es) x)" if "x \<in> set xs" "e_userId x = u" for x
  proof (cases "e_synced x")
    case True
    then show ?thesis by (simp add: markIds_def)
  next
    case False
    with that assms have "x \<in> set es" by simp
    then show ?thesis by (simp add: markIds_def)
  qed
  moreover have "e_userId (markIds S x) = e_userId x" for S x
    by (simp add: markIds_def)
  ultimately show ?thesis by (auto simp: filter_empty_conv)
qed

lemma getUnsyncedExpenses_fst:
  "fst (ExpenseDB_getUnsyncedExpenses u w) =
     (if nextFails w then Inl StorageFailure
      else Inr (filter (\<lambda>e. \<not> e_synced e) (ownerRows u w)))"
  by (simp add: ExpenseDB_getUnsyncedExpenses_def storeOp_def Let_def ownerRows_def)

lemma getUnsyncedExpenses_snd:
  "snd (ExpenseDB_getUnsyncedExpenses u w) = w\<lparr>faults := tl (faults w)\<rparr>"
  by (simp add: ExpenseDB_getUnsyncedExpenses_def storeOp_def Let_def)

lemma syncToFirebase_nothing_to_do:
  assumes "\<not> syncInProgress w" and "filter (\<lambda>e. \<not> e_synced e) (ownerRows u w) = []"
  shows "snd (SyncService_syncToFirebase u w) = w\<lparr>faults := tl (faults w)\<rparr>"
proof -
  let ?w = "w\<lparr>syncInProgress := True\<rparr>"
  obtain r w0 where rd: "ExpenseDB_getUnsyncedExpenses u ?w = (r, w0)"
    by (cases "ExpenseDB_getUnsyncedExpenses u ?w")
  have w0: "w0 = ?w\<lparr>faults := tl (faults ?w)\<rparr>"
    using getUnsyncedExpenses_snd [of u ?w] rd by simp
  have rows: "ownerRows u ?w = ownerRows u w" by (simp add: ownerRows_def)
  have r: "r = Inr [] \<or> r = Inl StorageFailure"
    using getUnsyncedExpenses_fst [of u ?w] rd assms(2) rows by (cases "nextFails ?w") simp_all
  then show ?thesis
  proof
    assume "r = Inr []"
    with assms(1) rd w0 show ?thesis by (simp add: syncToFirebase_unfold)
  next
    assume "r = Inl StorageFailure"
    with assms(1) rd w0 show ?thesis by (simp add: syncToFirebase_unfold)
  qed
qed

lemma push_then_push:
  assumes idle: "\<not> syncInProgress w"
    and rd: "ExpenseDB_getUnsyncedExpenses u (w\<lparr>syncInProgress := True\<rparr>) = (Inr es, w0)"
    and ok: "snd (fst (uploadExpenses es (0, 0) w0)) = 0"
    and first: "SyncService_syncToFirebase u w = (r1, w1)"
    and second: "SyncService_syncToFirebase u w1 = (r2, w2)"
  shows "r1 = Inr () \<and>
     filter (\<lambda>e. \<not> e_synced e) (ownerRows u w1) = [] \<and>
     (fst (ExpenseDB_getUnsyncedExpenses u w1) = Inr [] \<or>
      fst (ExpenseDB_getUnsyncedExpenses u w1) = Inl StorageFailure) \<and>
     expenses w2 = expenses w1 \<and> fsExpenses w2 = fsExpenses w1 \<and>
     budgets w2 = budgets w1 \<and> alerts w2 = alerts w1 \<and> fsBudgets w2 = fsBudgets w1 \<and>
     syncInProgress w2 = syncInProgress w1"
proof -
  let ?w = "w\<lparr>syncInProgress := True\<rparr>"
  have es: "es = filter (\<lambda>e. \<not> e_synced e) (filter (\<lambda>e. e_userId e = u) (expenses w))"
    using getUnsyncedExpenses_Inr(1) [OF rd] by (simp add: ownerRows_def)
  have w0: "expenses w0 = expenses w"
    using getUnsyncedExpenses_Inr(2) [OF rd] by simp
  obtain s' f' w' where loop: "uploadExpenses es (0, 0) w0 = ((s', f'), w')"
    by (cases "uploadExpenses es (0, 0) w0") auto
  with ok have f': "f' = 0" by simp
  from uploadExpenses_marks [OF loop] f' w0
  have w': "expenses w' = map (markIds (e_id ` set es)) (expenses w)" by auto
  have w'_snd: "snd (uploadExpenses es (0, 0) w0) = w'" by (simp add: loop)
  have run: "(r1, w1) = (Inr (), (if es = [] then w0 else w')\<lparr>syncInProgress := False\<rparr>)"
    using first idle rd by (cases "es = []") (simp_all add: syncToFirebase_unfold w'_snd)
  then have r1: "r1 = Inr ()"
    and w1: "w1 = (if es = [] then w0 else w')\<lparr>syncInProgress := False\<rparr>"
    by simp_all
  have e1: "expenses w1 = map (markIds (e_id ` set es)) (expenses w)"
  proof (cases "es = []")
    case True
    then show ?thesis by (simp add: w1 w0 markIds_empty)
  next
    case False
    then show ?thesis by (simp add: w1 w')
  qed
  have none: "filter (\<lambda>e. \<not> e_synced e) (ownerRows u w1) = []"
    unfolding ownerRows_def e1 by (rule marked_rows_are_synced [OF es])
  have idle1: "\<not> syncInProgress w1" by (simp add: w1)
  have w2: "w2 = w1\<lparr>faults := tl (faults w1)\<rparr>"
    using syncToFirebase_nothing_to_do [OF idle1 none] second by simp
  have "fst (ExpenseDB_getUnsyncedExpenses u w1) = Inr [] \<or>
      fst (ExpenseDB_getUnsyncedExpenses u w1) = Inl StorageFailure"
    by (simp add: getUnsyncedExpenses_fst none)
  with r1 none w2 show ?thesis by simp
qed


text \<open>
  Claim C3, as the claim states it, fails: the loop of a push catches the failure of one
  record and goes on, and the push still returns normally. Here the read and the
  \<^verbatim>\<open>setDoc\<close> of expense \<^verbatim>\<open>e2\<close> succeed and the following \<^verbatim>\<open>markAsSynced\<close> is rejected: the
  first push returns with \<^verbatim>\<open>e2\<close> uploaded and still unsynced in the local table, and a
  second push, with no local change in between, reads it as unsynced and uploads it again
  (one success counted), which marks the local row.
\<close>

theorem push_twice_uploads_again:
  "SyncService_syncToFirebase ''u1'' (world_push\<lparr>faults := [False, False, True]\<rparr>)
     = (Inr (), world_push\<lparr>fsExpenses := [(''e2'', asSynced expense2)]\<rparr>)
   \<and> ExpenseDB_getUnsyncedExpenses ''u1''
        (world_push\<lparr>fsExpenses := [(''e2'', asSynced expense2)], syncInProgress := True\<rparr>)
     = (Inr [expense2],
        world_push\<lparr>fsExpenses := [(''e2'', asSynced expense2)], syncInProgress := True\<rparr>)
   \<and> fst (uploadExpenses [expense2] (0, 0)
        (world_push\<lparr>fsExpenses := [(''e2'', asSynced expense2)], syncInProgress := True\<rparr>))
     = (1, 0)
   \<and> SyncService_syncToFirebase ''u1''
        (world_push\<lparr>fsExpenses := [(''e2'', asSynced expense2)]\<rparr>)
     = (Inr (), world_pushed)
   \<and> expenses world_pushed
     \<noteq> expenses (world_push\<lparr>fsExpenses := [(''e2'', asSynced expense2)]\<rparr>)"
proof -
  let ?w1 = "world_push\<lparr>fsExpenses := [(''e2'', asSynced expense2)]\<rparr>"
  let ?w1' = "world_push\<lparr>fsExpenses := [(''e2'', asSynced expense2)], syncInProgress := True\<rparr>"
  have first: "SyncService_syncToFirebase ''u1'' (world_push\<lparr>faults := [False, False, True]\<rparr>)
     = (Inr (), ?w1)"
    by (simp add: syncToFirebase_unfold ExpenseDB_getUnsyncedExpenses_def uploadExpense_def
        andThen_def tryCatch_def setDoc_expenses_def setDoc_def markAsSynced_alt storeOp_def
        nextFails_def Let_def world_push_def world0_def expense1_def expense2_def)
  have rd: "ExpenseDB_getUnsyncedExpenses ''u1'' ?w1' = (Inr [expense2], ?w1')"
    by (simp add: ExpenseDB_getUnsyncedExpenses_def storeOp_def nextFails_def Let_def
        world_push_def world0_def expense1_def expense2_def)
  have up: "uploadExpenses [expense2] (0, 0) ?w1'
       = ((1, 0), world_pushed\<lparr>syncInProgress := True\<rparr>)"
    by (simp add: uploadExpense_def andThen_def tryCatch_def setDoc_expenses_def setDoc_def
        markAsSynced_alt storeOp_def nextFails_def Let_def world_push_def world_pushed_def
        world0_def expense1_def expense2_def)
  have idle: "\<not> syncInProgress ?w1" "?w1\<lparr>syncInProgress := True\<rparr> = ?w1'"
    by (simp_all add: world_push_def world0_def)
  have "(world_pushed\<lparr>syncInProgress := True\<rparr>)\<lparr>syncInProgress := False\<rparr> = world_pushed"
    by (simp add: world_pushed_def world0_def)
  with idle have second: "SyncService_syncToFirebase ''u1'' ?w1 = (Inr (), world_pushed)"
    by (simp add: syncToFirebase_unfold rd up del: uploadExpenses.simps)
  have changed: "expenses world_pushed \<noteq> expenses ?w1"
    by (simp add: world_pushed_def world_push_def world0_def expense2_def)
  from up have cnt: "fst (uploadExpenses [expense2] (0, 0) ?w1') = (1, 0)" by simp
  show ?thesis by (intro conjI first rd cnt second changed)
qed

text \<open>
  Claim C3, amended. A push that finds another push in flight does nothing, and so does
  the push after it. A push whose read of the unsynced rows is rejected throws, with the
  local table and the remote collection as they were. Otherwise, take a push whose
  upload loop counts no failure, that is, every \<^verbatim>\<open>setDoc\<close> and every following
  \<^verbatim>\<open>markAsSynced\<close> succeeds. It returns normally and leaves no unsynced row of the owner, so
  the read of a second push yields the empty list (unless the read itself is rejected),
  and that second push uploads nothing: it changes neither a local table nor a remote
  collection.
\<close>

theorem push_twice_uploads_nothing:
  assumes first: "SyncService_syncToFirebase u w = (r1, w1)"
    and second: "SyncService_syncToFirebase u w1 = (r2, w2)"
  shows "(syncInProgress w \<longrightarrow> r1 = Inr () \<and> w1 = w \<and> r2 = Inr () \<and> w2 = w) \<and>
     (\<not> syncInProgress w \<and> nextFails w \<longrightarrow>
        r1 = Inl StorageFailure \<and> expenses w1 = expenses w \<and> fsExpenses w1 = fsExpenses w) \<and>
     (\<not> syncInProgress w \<and>
      ExpenseDB_getUnsyncedExpenses u (w\<lparr>syncInProgress := True\<rparr>) = (Inr es, w0) \<and>
      snd (fst (uploadExpenses es (0, 0) w0)) = 0 \<longrightarrow>
        r1 = Inr () \<and>
        filter (\<lambda>e. \<not> e_synced e) (ownerRows u w1) = [] \<and>
        (fst (ExpenseDB_getUnsyncedExpenses u w1) = Inr [] \<or>
         fst (ExpenseDB_getUnsyncedExpenses u w1) = Inl StorageFailure) \<and>
        expenses w2 = expenses w1 \<and> fsExpenses w2 = fsExpenses w1 \<and>
        budgets w2 = budgets w1 \<and> alerts w2 = alerts w1 \<and> fsBudgets w2 = fsBudgets w1 \<and>
        syncInProgress w2 = syncInProgress w1)"
proof -
  have A: "syncInProgress w \<longrightarrow> r1 = Inr () \<and> w1 = w \<and> r2 = Inr () \<and> w2 = w"
  proof
  assume busy: "syncInProgress w"
  with first have 1: "r1 = Inr ()" "w1 = w" by (simp_all add: syncToFirebase_unfold)
  with busy second have "r2 = Inr ()" "w2 = w" by (simp_all add: syncToFirebase_unfold)
  with 1 show "r1 = Inr () \<and> w1 = w \<and> r2 = Inr () \<and> w2 = w" by simp
  qed
  have B: "\<not> syncInProgress w \<and> nextFails w \<longrightarrow>
        r1 = Inl StorageFailure \<and> expenses w1 = expenses w \<and> fsExpenses w1 = fsExpenses w"
  proof
  assume a: "\<not> syncInProgress w \<and> nextFails w"
  let ?w = "w\<lparr>syncInProgress := True\<rparr>"
  from a have nf: "nextFails ?w" by (simp add: nextFails_def)
  obtain r w' where rd: "ExpenseDB_getUnsyncedExpenses u ?w = (r, w')"
    by (cases "ExpenseDB_getUnsyncedExpenses u ?w")
  from getUnsyncedExpenses_fst [of u ?w] nf rd have r: "r = Inl StorageFailure" by simp
  from getUnsyncedExpenses_snd [of u ?w] rd have w': "w' = ?w\<lparr>faults := tl (faults ?w)\<rparr>"
    by simp
  from first a rd r have "r1 = Inl StorageFailure" "w1 = w'\<lparr>syncInProgress := False\<rparr>"
    by (simp_all add: syncToFirebase_unfold)
  with w' show "r1 = Inl StorageFailure \<and> expenses w1 = expenses w \<and> fsExpenses w1 = fsExpenses w"
    by simp
  qed
  have C: "\<not> syncInProgress w \<and>
      ExpenseDB_getUnsyncedExpenses u (w\<lparr>syncInProgress := True\<rparr>) = (Inr es, w0) \<and>
      snd (fst (uploadExpenses es (0, 0) w0)) = 0 \<longrightarrow>
        r1 = Inr () \<and>
        filter (\<lambda>e. \<not> e_synced e) (ownerRows u w1) = [] \<and>
        (fst (ExpenseDB_getUnsyncedExpenses u w1) = Inr [] \<or>
         fst (ExpenseDB_getUnsyncedExpenses u w1) = Inl StorageFailure) \<and>
        expenses w2 = expenses w1 \<and> fsExpenses w2 = fsExpenses w1 \<and>
        budgets w2 = budgets w1 \<and> alerts w2 = alerts w1 \<and> fsBudgets w2 = fsBudgets w1 \<and>
        syncInProgress w2 = syncInProgress w1"
  proof
  assume a: "\<not> syncInProgress w \<and>
      ExpenseDB_getUnsyncedExpenses u (w\<lparr>syncInProgress := True\<rparr>) = (Inr es, w0) \<and>
      snd (fst (uploadExpenses es (0, 0) w0)) = 0"
  then have idle: "\<not> syncInProgress w"
    and rd: "ExpenseDB_getUnsyncedExpenses u (w\<lparr>syncInProgress := True\<rparr>) = (Inr es, w0)"
    and ok: "snd (fst (uploadExpenses es (0, 0) w0)) = 0"
    by simp_all
  show "r1 = Inr () \<and>
        filter (\<lambda>e. \<not> e_synced e) (ownerRows u w1) = [] \<and>
        (fst (ExpenseDB_getUnsyncedExpenses u w1) = Inr [] \<or>
         fst (ExpenseDB_getUnsyncedExpenses u w1) = Inl StorageFailure) \<and>
        expenses w2 = expenses w1 \<and> fsExpenses w2 = fsExpenses w1 \<and>
        budgets w2 = budgets w1 \<and> alerts w2 = alerts w1 \<and> fsBudgets w2 = fsBudgets w1 \<and>
        syncInProgress w2 = syncInProgress w1"
    by (rule push_then_push [OF idle rd ok first second])
  qed
  show ?thesis by (intro conjI A B C)
qed

theorem push_twice_uploads_nothing_witness:
  "(syncInProgress (world_push\<lparr>syncInProgress := True\<rparr>)
    \<and> SyncService_syncToFirebase ''u1'' (world_push\<lparr>syncInProgress := True\<rparr>)
        = (Inr (), world_push\<lparr>syncInProgress := True\<rparr>))
   \<and> (\<not> syncInProgress (world_push\<lparr>faults := [True]\<rparr>)
    \<and> nextFails (world_push\<lparr>faults := [True]\<rparr>)
    \<and> SyncService_syncToFirebase ''u1'' (world_push\<lparr>faults := [True]\<rparr>)
        = (Inl StorageFailure, world_push))
   \<and> (\<not> syncInProgress world_push
    \<and> ExpenseDB_getUnsyncedExpenses ''u1'' (world_push\<lparr>syncInProgress := True\<rparr>)
        = (Inr [expense2], world_push\<lparr>syncInProgress := True\<rparr>)
    \<and> snd (fst (uploadExpenses [expense2] (0, 0) (world_push\<lparr>syncInProgress := True\<rparr>))) = 0
    \<and> SyncService_syncToFirebase ''u1'' world_push = (Inr (), world_pushed)
    \<and> SyncService_syncToFirebase ''u1'' world_pushed = (Inr (), world_pushed)
    \<and> filter (\<lambda>e. \<not> e_synced e) (ownerRows ''u1'' world_pushed) = [])"
proof -
  let ?wb = "world_push\<lparr>syncInProgress := True\<rparr>"
  let ?wf = "world_push\<lparr>faults := [True]\<rparr>"
  have busy: "syncInProgress ?wb" by simp
  have skip: "SyncService_syncToFirebase ''u1'' ?wb = (Inr (), ?wb)"
    by (simp add: syncToFirebase_unfold)
  have idlef: "\<not> syncInProgress ?wf \<and> nextFails ?wf"
    by (simp add: nextFails_def world_push_def world0_def)
  have thrown: "SyncService_syncToFirebase ''u1'' ?wf = (Inl StorageFailure, world_push)"
    by (simp add: syncToFirebase_unfold ExpenseDB_getUnsyncedExpenses_def storeOp_def
        nextFails_def Let_def world_push_def world0_def)
  have idle: "\<not> syncInProgress world_push"
    by (simp add: world_push_def world0_def)
  have rd: "ExpenseDB_getUnsyncedExpenses ''u1'' (world_push\<lparr>syncInProgress := True\<rparr>)
       = (Inr [expense2], world_push\<lparr>syncInProgress := True\<rparr>)"
    by (simp add: ExpenseDB_getUnsyncedExpenses_def storeOp_def nextFails_def Let_def
        world_push_def world0_def expense1_def expense2_def)
  have up: "uploadExpenses [expense2] (0, 0) (world_push\<lparr>syncInProgress := True\<rparr>)
       = ((1, 0), world_pushed\<lparr>syncInProgress := True\<rparr>)"
    by (simp add: uploadExpense_def andThen_def setDoc_expenses_def setDoc_def markAsSynced_alt
        storeOp_def nextFails_def Let_def world_push_def world_pushed_def world0_def
        expense1_def expense2_def)
  then have ok: "snd (fst (uploadExpenses [expense2] (0, 0) (world_push\<lparr>syncInProgress := True\<rparr>))) = 0"
    by simp
  have first: "SyncService_syncToFirebase ''u1'' world_push = (Inr (), world_pushed)"
  proof -
    have "(world_pushed\<lparr>syncInProgress := True\<rparr>)\<lparr>syncInProgress := False\<rparr> = world_pushed"
      by (simp add: world_pushed_def world0_def)
    with idle show ?thesis
      by (simp add: syncToFirebase_unfold rd up del: uploadExpenses.simps)
  qed
  have second: "SyncService_syncToFirebase ''u1'' world_pushed = (Inr (), world_pushed)"
    by (simp add: syncToFirebase_unfold ExpenseDB_getUnsyncedExpenses_def storeOp_def
        nextFails_def Let_def world_pushed_def world0_def expense1_def expense2_def)
  note ta = push_twice_uploads_nothing [OF skip skip, THEN conjunct1, THEN mp, OF busy]
  note tb = push_twice_uploads_nothing [OF thrown surjective_pairing, THEN conjunct2,
      THEN conjunct1, THEN mp, OF idlef]
  note tc = push_twice_uploads_nothing [OF first second, THEN conjunct2, THEN conjunct2,
      THEN mp, OF conjI [OF idle conjI [OF rd ok]]]
  from ta tb tc show ?thesis
    by (intro conjI busy skip idlef [THEN conjunct1] idlef [THEN conjunct2] thrown idle rd ok
        first second tc [THEN conjunct2, THEN conjunct1])
qed

section \<open>Full sync: order of the steps, and what a failure stops\<close>

lemma preservesD: "preserves g m \<Longrightarrow> g (snd (m w)) = g w"
  by (simp add: preserves_def)

lemma preserves_ret: "preserves g (ret x)"
  by (simp add: preserves_def ret_def)

lemma preserves_andThen:
  assumes "preserves g m" and "\<And>x. preserves g (f x)"
  shows "preserves g (andThen m f)"
  unfolding preserves_def
proof
  fix w
  obtain r w1 where m: "m w = (r, w1)" by (cases "m w")
  have g1: "g w1 = g w" using preservesD [OF assms(1), of w] m by simp
  show "g (snd (andThen m f w)) = g w"
  proof (cases r)
    case (Inl e)
    with m g1 show ?thesis by (simp add: andThen_def)
  next
    case (Inr x)
    with m g1 preservesD [OF assms(2), of x w1] show ?thesis by (simp add: andThen_def)
  qed
qed

lemma preserves_storeOp:
  assumes "\<And>w fs. g (w\<lparr>faults := fs\<rparr>) = g w" and "preserves g op"
  shows "preserves g (storeOp err op)"
  unfolding preserves_def
proof
  fix w
  show "g (snd (storeOp err op w)) = g w"
    using preservesD [OF assms(2), of "w\<lparr>faults := tl (faults w)\<rparr>"]
    by (cases "nextFails w") (simp_all add: storeOp_def Let_def assms(1))
qed

lemma preservesI: "(\<And>w. g (snd (m w)) = g w) \<Longrightarrow> preserves g m"
  by (simp add: preserves_def)

lemma addNewExpenses_step:
  "addNewExpenses ids (x # rs) n =
     (if e_id x \<notin> set ids
      then andThen (ExpenseDB_addExpense (asSynced x)) (\<lambda>_. addNewExpenses ids rs (Suc n))
      else addNewExpenses ids rs n)"
  by (rule ext) (simp add: andThen_def split: prod.splits sum.splits)

lemma addNewBudgets_step:
  "addNewBudgets ids (x # rs) n =
     (if b_id x \<notin> set ids
      then andThen (BudgetDB_addBudget (x\<lparr>b_synced := True\<rparr>)) (\<lambda>_. addNewBudgets ids rs (Suc n))
      else addNewBudgets ids rs n)"
  by (rule ext) (simp add: andThen_def split: prod.splits sum.splits)

lemma addNewExpenses_Nil: "addNewExpenses ids [] n = ret n"
  by (rule ext) (simp add: ret_def)

lemma addNewBudgets_Nil: "addNewBudgets ids [] n = ret n"
  by (rule ext) (simp add: ret_def)

lemma pull_expenses_preserves: "preserves remoteAndBudgets (SyncService_syncFromFirebase u)"
proof -
  have add: "preserves remoteAndBudgets (ExpenseDB_addExpense e)" for e
    unfolding ExpenseDB_addExpense_def
    by (rule preserves_storeOp) (simp_all add: preserves_def)
  have loop: "preserves remoteAndBudgets (addNewExpenses ids rs n)" for ids rs n
  proof (induction rs arbitrary: n)
    case Nil
    show ?case by (simp only: addNewExpenses_Nil preserves_ret)
  next
    case (Cons x rs)
    show ?case
      by (simp only: addNewExpenses_step split: if_split)
         (intro conjI impI preserves_andThen add Cons.IH)
  qed
  show ?thesis
    unfolding SyncService_syncFromFirebase_def getDocs_expenses_def ExpenseDB_getExpenses_def
    by (intro preserves_andThen preserves_storeOp preserves_ret loop) (simp_all add: preserves_def)
qed

lemma pull_budgets_preserves: "preserves remoteAndExpenses (SyncService_syncBudgetsFromFirebase u)"
proof -
  have add: "preserves remoteAndExpenses (BudgetDB_addBudget b)" for b
    unfolding BudgetDB_addBudget_def
    by (rule preserves_storeOp) (simp_all add: preserves_def)
  have loop: "preserves remoteAndExpenses (addNewBudgets ids rs n)" for ids rs n
  proof (induction rs arbitrary: n)
    case Nil
    show ?case by (simp only: addNewBudgets_Nil preserves_ret)
  next
    case (Cons x rs)
    show ?case
      by (simp only: addNewBudgets_step split: if_split)
         (intro conjI impI preserves_andThen add Cons.IH)
  qed
  show ?thesis
    unfolding SyncService_syncBudgetsFromFirebase_def getDocs_budgets_def BudgetDB_getBudgets_def
    by (intro preserves_andThen preserves_storeOp preserves_ret loop) (simp_all add: preserves_def)
qed

lemma push_expenses_preserves: "preserves budgetSide (SyncService_syncToFirebase u)"
proof (rule preservesI)
  fix w
  show "budgetSide (snd (SyncService_syncToFirebase u w)) = budgetSide w"
  proof (cases "syncInProgress w")
    case True
    then show ?thesis by (simp add: syncToFirebase_unfold)
  next
    case False
    let ?w = "w\<lparr>syncInProgress := True\<rparr>"
    obtain r w0 where rd: "ExpenseDB_getUnsyncedExpenses u ?w = (r, w0)"
      by (cases "ExpenseDB_getUnsyncedExpenses u ?w")
    have w0: "w0 = ?w\<lparr>faults := tl (faults ?w)\<rparr>"
      using getUnsyncedExpenses_snd [of u ?w] rd by simp
    show ?thesis
    proof (cases r)
      case (Inl e)
      with False rd w0 show ?thesis by (simp add: syncToFirebase_unfold)
    next
      case (Inr es)
      with False rd w0 uploadExpenses_frame [of es "(0, 0)" w0] show ?thesis
        by (cases "es = []") (simp_all add: syncToFirebase_unfold)
    qed
  qed
qed

lemma uploadBudget_preserves: "preserves expenseSide (uploadBudget b)"
  unfolding uploadBudget_def setDoc_budgets_def markBudgetAsSynced_alt
  by (intro preserves_andThen preserves_storeOp) (simp_all add: preserves_def)

lemma uploadBudgets_frame:
  "expenseSide (snd (uploadBudgets bs c w)) = expenseSide w"
proof (induction bs arbitrary: c w)
  case Nil
  show ?case by simp
next
  case (Cons b bs)
  obtain s f where c: "c = (s, f)" by (cases c)
  obtain r w' where step: "uploadBudget b w = (r, w')" by (cases "uploadBudget b w")
  have "expenseSide w' = expenseSide w"
    using preservesD [OF uploadBudget_preserves, of b w] step by simp
  then show ?case
    by (cases r) (simp_all add: c step Cons.IH)
qed

lemma push_budgets_preserves: "preserves expenseSide (SyncService_syncBudgetsToFirebase u)"
proof -
  have loop: "preserves expenseSide (\<lambda>w. (Inr (), snd (uploadBudgets bs (0, 0) w)))" for bs
    by (rule preservesI) (simp add: uploadBudgets_frame)
  have body: "preserves expenseSide
      (if length bs = 0 then ret () else (\<lambda>w. (Inr (), snd (uploadBudgets bs (0, 0) w))))" for bs
    using preserves_ret [of expenseSide "()"] loop [of bs] by (cases "length bs = 0") simp_all
  show ?thesis
    unfolding SyncService_syncBudgetsToFirebase_def BudgetDB_getUnsyncedBudgets_def
    by (intro preserves_andThen preserves_storeOp body) (simp_all add: preserves_def)
qed

lemma fullSync_unfold:
  assumes "SyncService_syncFromFirebase u w = (r1, w1)"
    and "SyncService_syncBudgetsFromFirebase u w1 = (r2, w2)"
    and "SyncService_syncToFirebase u w2 = (r3, w3)"
    and "SyncService_syncBudgetsToFirebase u w3 = (r4, w4)"
  shows "SyncService_fullSync u w =
     (if r1 \<noteq> Inr () then (r1, w1) else if r2 \<noteq> Inr () then (r2, w2)
      else if r3 \<noteq> Inr () then (r3, w3) else (r4, w4))"
proof (cases r1)
  case (Inl e)
  with assms(1) show ?thesis by (simp add: SyncService_fullSync_def andThen_def)
next
  case a: (Inr x1)
  show ?thesis
  proof (cases r2)
    case (Inl e)
    with a assms(1,2) show ?thesis by (simp add: SyncService_fullSync_def andThen_def)
  next
    case b: (Inr x2)
    show ?thesis
    proof (cases r3)
      case (Inl e)
      with a b assms(1,2,3) show ?thesis by (simp add: SyncService_fullSync_def andThen_def)
    next
      case (Inr x3)
      with a b assms show ?thesis by (simp add: SyncService_fullSync_def andThen_def)
    qed
  qed
qed

text \<open>
  Claim C2, as the claim states it, fails: the four steps share one \<^verbatim>\<open>try\<close> block. With
  the network rejecting the first request, the expense pull throws, \<^verbatim>\<open>fullSync\<close> rethrows,
  and the budget pair has not run: the unsynced local budget is still unsynced and not
  uploaded, the remote budget is still missing locally, although a budget pull started
  from the world \<^verbatim>\<open>fullSync\<close> left would have completed and fetched it.
\<close>

theorem fullSync_failure_skips_budgets:
  "SyncService_fullSync ''u1'' world_net_down
     = (Inl NetworkFailure, world_net_down\<lparr>faults := []\<rparr>)
   \<and> budgets (world_net_down\<lparr>faults := []\<rparr>) = [budget2]
   \<and> \<not> b_synced budget2
   \<and> fsBudgets (world_net_down\<lparr>faults := []\<rparr>) = [(''b1'', budget1)]
   \<and> SyncService_syncBudgetsFromFirebase ''u1'' (world_net_down\<lparr>faults := []\<rparr>)
       = (Inr (), world_net_down\<lparr>faults := [], budgets := [budget2, budget1]\<rparr>)"
  by (simp add: SyncService_fullSync_def syncFromFirebase_unfold andThen_def ret_def
      SyncService_syncBudgetsFromFirebase_def getDocs_budgets_def BudgetDB_getBudgets_def
      BudgetDB_addBudget_def storeOp_def nextFails_def Let_def
      world_net_down_def world0_def budget1_def budget2_def)

text \<open>
  Claim C2, amended. Name the outcomes of the four steps run one after the other: expense
  pull, budget pull, expense push, budget push. \<^verbatim>\<open>fullSync\<close> is that sequence cut at the
  first step that throws, whose error it rethrows; so both pulls come before both pushes,
  and a step that throws stops all later ones. Neither pull writes to a remote collection,
  the expense steps do not touch the budgets and the budget steps do not touch the
  expenses.
\<close>

theorem fullSync_pulls_then_pushes_until_first_failure:
  assumes "SyncService_syncFromFirebase u w = (r1, w1)"
    and "SyncService_syncBudgetsFromFirebase u w1 = (r2, w2)"
    and "SyncService_syncToFirebase u w2 = (r3, w3)"
    and "SyncService_syncBudgetsToFirebase u w3 = (r4, w4)"
  shows "SyncService_fullSync u w =
           (if r1 \<noteq> Inr () then (r1, w1) else if r2 \<noteq> Inr () then (r2, w2)
            else if r3 \<noteq> Inr () then (r3, w3) else (r4, w4)) \<and>
         fsExpenses w1 = fsExpenses w \<and> fsBudgets w1 = fsBudgets w \<and> budgets w1 = budgets w \<and>
         fsExpenses w2 = fsExpenses w1 \<and> fsBudgets w2 = fsBudgets w1 \<and> expenses w2 = expenses w1 \<and>
         fsBudgets w3 = fsBudgets w2 \<and> budgets w3 = budgets w2 \<and>
         fsExpenses w4 = fsExpenses w3 \<and> expenses w4 = expenses w3"
proof -
  have "remoteAndBudgets w1 = remoteAndBudgets w"
    using preservesD [OF pull_expenses_preserves, of u w] assms(1) by simp
  moreover have "remoteAndExpenses w2 = remoteAndExpenses w1"
    using preservesD [OF pull_budgets_preserves, of u w1] assms(2) by simp
  moreover have "budgetSide w3 = budgetSide w2"
    using preservesD [OF push_expenses_preserves, of u w2] assms(3) by simp
  moreover have "expenseSide w4 = expenseSide w3"
    using preservesD [OF push_budgets_preserves, of u w3] assms(4) by simp
  ultimately show ?thesis
    using fullSync_unfold [OF assms] by simp
qed

theorem fullSync_pulls_then_pushes_witness:
  "SyncService_syncFromFirebase ''u1'' world_net_up = (Inr (), world_net_up)
   \<and> SyncService_syncBudgetsFromFirebase ''u1'' world_net_up = (Inr (), world_budgets_pulled)
   \<and> SyncService_syncToFirebase ''u1'' world_budgets_pulled = (Inr (), world_budgets_pulled)
   \<and> SyncService_syncBudgetsToFirebase ''u1'' world_budgets_pulled = (Inr (), world_fully_synced)
   \<and> SyncService_fullSync ''u1'' world_net_up = (Inr (), world_fully_synced)"
proof -
  have s1: "SyncService_syncFromFirebase ''u1'' world_net_up = (Inr (), world_net_up)"
    by (simp add: syncFromFirebase_unfold nextFails_def ownerRows_def remoteRows_def
        world_net_up_def world0_def)
  have s2: "SyncService_syncBudgetsFromFirebase ''u1'' world_net_up = (Inr (), world_budgets_pulled)"
    by (simp add: SyncService_syncBudgetsFromFirebase_def andThen_def ret_def getDocs_budgets_def
        BudgetDB_getBudgets_def BudgetDB_addBudget_def storeOp_def nextFails_def Let_def
        world_net_up_def world_budgets_pulled_def world0_def budget1_def budget2_def)
  have s3: "SyncService_syncToFirebase ''u1'' world_budgets_pulled = (Inr (), world_budgets_pulled)"
    by (simp add: syncToFirebase_unfold ExpenseDB_getUnsyncedExpenses_def storeOp_def
        nextFails_def Let_def world_budgets_pulled_def world0_def)
  have s4: "SyncService_syncBudgetsToFirebase ''u1'' world_budgets_pulled = (Inr (), world_fully_synced)"
    by (simp add: SyncService_syncBudgetsToFirebase_def BudgetDB_getUnsyncedBudgets_def
        uploadBudget_def andThen_def ret_def setDoc_budgets_def setDoc_def markBudgetAsSynced_alt
        storeOp_def nextFails_def Let_def world_budgets_pulled_def world_fully_synced_def
        world0_def budget1_def budget2_def)
  note t = fullSync_pulls_then_pushes_until_first_failure [OF s1 s2 s3 s4, THEN conjunct1]
  from t have s5: "SyncService_fullSync ''u1'' world_net_up = (Inr (), world_fully_synced)"
    by simp
  show ?thesis by (intro conjI s1 s2 s3 s4 s5)
qed

section \<open>One round of the alert loop\<close>

text \<open>
  The seven ways one iteration of the loop of \<^verbatim>\<open>checkBudgetsAndCreateAlerts\<close> can go, each
  with the store operations it performed and what the loop does next.
\<close>

lemma checkLoop_cases [consumes 0, case_names lookupFails missing noAlert recentFails
    suppressed addFails added]:
  obtains
    (lookupFails) e w1 where
      "BudgetDB_getBudgetById (p_budgetId p) w = (Inl e, w1)"
      "checkLoop u (p # rest) acc w = (Inl e, w1)"
  | (missing) w1 where
      "BudgetDB_getBudgetById (p_budgetId p) w = (Inr None, w1)"
      "checkLoop u (p # rest) acc w = checkLoop u rest acc w1"
  | (noAlert) budget w1 where
      "BudgetDB_getBudgetById (p_budgetId p) w = (Inr (Some budget), w1)"
      "alertTypeOf p = None"
      "checkLoop u (p # rest) acc w = checkLoop u rest acc w1"
  | (recentFails) budget w1 ty e w2 where
      "BudgetDB_getBudgetById (p_budgetId p) w = (Inr (Some budget), w1)"
      "alertTypeOf p = Some ty"
      "BudgetDB_getRecentAlert (b_id budget) ty 24 w1 = (Inl e, w2)"
      "checkLoop u (p # rest) acc w = (Inl e, w2)"
  | (suppressed) budget w1 ty recent w2 where
      "BudgetDB_getBudgetById (p_budgetId p) w = (Inr (Some budget), w1)"
      "alertTypeOf p = Some ty"
      "BudgetDB_getRecentAlert (b_id budget) ty 24 w1 = (Inr (Some recent), w2)"
      "checkLoop u (p # rest) acc w = checkLoop u rest acc w2"
  | (addFails) budget w1 ty w2 e w4 where
      "BudgetDB_getBudgetById (p_budgetId p) w = (Inr (Some budget), w1)"
      "alertTypeOf p = Some ty"
      "BudgetDB_getRecentAlert (b_id budget) ty 24 w1 = (Inr None, w2)"
      "BudgetDB_addAlert (newAlert (shd (uuids w2)) u budget p ty (clock w2))
         (w2\<lparr>uuids := stl (uuids w2)\<rparr>) = (Inl e, w4)"
      "checkLoop u (p # rest) acc w = (Inl e, w4)"
  | (added) budget w1 ty w2 w4 where
      "BudgetDB_getBudgetById (p_budgetId p) w = (Inr (Some budget), w1)"
      "alertTypeOf p = Some ty"
      "BudgetDB_getRecentAlert (b_id budget) ty 24 w1 = (Inr None, w2)"
      "BudgetDB_addAlert (newAlert (shd (uuids w2)) u budget p ty (clock w2))
         (w2\<lparr>uuids := stl (uuids w2)\<rparr>) = (Inr (), w4)"
      "checkLoop u (p # rest) acc w =
         checkLoop u rest (acc @ [newAlert (shd (uuids w2)) u budget p ty (clock w2)]) w4"
proof -
  obtain r1 w1 where g: "BudgetDB_getBudgetById (p_budgetId p) w = (r1, w1)"
    by (cases "BudgetDB_getBudgetById (p_budgetId p) w")
  show thesis
  proof (cases r1)
    case (Inl e)
    with g show ?thesis by (intro lookupFails [of e w1]) simp_all
  next
    case (Inr found)
    show ?thesis
    proof (cases found)
      case None
      with Inr g show ?thesis by (intro missing [of w1]) simp_all
    next
      case (Some budget)
      note g' = g [unfolded Inr Some]
      show ?thesis
      proof (cases "alertTypeOf p")
        case None
        with g' show ?thesis by (intro noAlert [of budget w1]) simp_all
      next
        case ty: (Some ty)
        obtain r2 w2 where q: "BudgetDB_getRecentAlert (b_id budget) ty 24 w1 = (r2, w2)"
          by (cases "BudgetDB_getRecentAlert (b_id budget) ty 24 w1")
        show ?thesis
        proof (cases r2)
          case (Inl e)
          with g' ty q show ?thesis by (intro recentFails [of budget w1 ty e w2]) simp_all
        next
          case r2: (Inr recent)
          show ?thesis
          proof (cases recent)
            case (Some a)
            with g' ty q r2 show ?thesis by (intro suppressed [of budget w1 ty a w2]) simp_all
          next
            case None
            note q' = q [unfolded r2 None]
            let ?alert = "newAlert (shd (uuids w2)) u budget p ty (clock w2)"
            obtain r4 w4 where ad: "BudgetDB_addAlert ?alert (w2\<lparr>uuids := stl (uuids w2)\<rparr>) = (r4, w4)"
              by (cases "BudgetDB_addAlert ?alert (w2\<lparr>uuids := stl (uuids w2)\<rparr>)")
            show ?thesis
            proof (cases r4)
              case (Inl e)
              with g' ty q' ad show ?thesis
                by (intro addFails [of budget w1 ty w2 e w4]) (simp_all add: uuidv4_def Let_def)
            next
              case (Inr x)
              with g' ty q' ad show ?thesis
                by (intro added [of budget w1 ty w2 w4]) (simp_all add: uuidv4_def Let_def)
            qed
          qed
        qed
      qed
    qed
  qed
qed

section \<open>Failures of the local store\<close>

lemma accounted_refl: "accounted w b w"
  by (simp add: accounted_def)

lemma accounted_same_faults: "faults w' = faults w \<Longrightarrow> accounted w b w'"
  by (simp add: accounted_def)

lemma accounted_trans:
  assumes "accounted w False w1" and "accounted w1 b w2"
  shows "accounted w b w2"
proof -
  from assms(1) obtain p1 where p1: "faults w = p1 @ faults w1" "True \<notin> set p1"
    by (auto simp: accounted_def)
  from assms(2) obtain p2 where p2: "faults w1 = p2 @ faults w2" "True \<in> set p2 \<longrightarrow> b"
    by (auto simp: accounted_def)
  from p1 p2 have "faults w = (p1 @ p2) @ faults w2 \<and> (True \<in> set (p1 @ p2) \<longrightarrow> b)"
    by auto
  then show ?thesis unfolding accounted_def by blast
qed

lemma accounted_failed:
  assumes "accounted w b w1" and "accounted w1 True w2"
  shows "accounted w True w2"
proof -
  from assms(1) obtain p1 where p1: "faults w = p1 @ faults w1" by (auto simp: accounted_def)
  from assms(2) obtain p2 where p2: "faults w1 = p2 @ faults w2" by (auto simp: accounted_def)
  from p1 p2 have "faults w = (p1 @ p2) @ faults w2" by simp
  then show ?thesis unfolding accounted_def by blast
qed

lemma accounted_weaken: "accounted w b w' \<Longrightarrow> accounted w True w'"
  by (auto simp: accounted_def)

lemma accounted_rejected:
  assumes "accounted w b w'" and "rejectedBetween w w'"
  shows b
proof -
  from assms(1) obtain pre where pre: "faults w = pre @ faults w'" "True \<in> set pre \<longrightarrow> b"
    by (auto simp: accounted_def)
  then have "take (length (faults w) - length (faults w')) (faults w) = pre" by simp
  with assms(2) pre(2) show b by (simp add: rejectedBetween_def)
qed

lemma accountedI:
  "faults w = pre @ faults w' \<Longrightarrow> (True \<in> set pre \<Longrightarrow> b) \<Longrightarrow> accounted w b w'"
  unfolding accounted_def by blast

lemma accounted_storeOp:
  assumes "\<And>v. faults (snd (op v)) = faults v"
  shows "accounted w (isl (fst (storeOp err op w))) (snd (storeOp err op w))"
proof (cases "nextFails w")
  case True
  then have "faults w = [True] @ tl (faults w)"
    by (cases "faults w") (simp_all add: nextFails_def)
  moreover from True have "snd (storeOp err op w) = w\<lparr>faults := tl (faults w)\<rparr>"
    and "isl (fst (storeOp err op w))"
    by (simp_all add: storeOp_def Let_def)
  ultimately show ?thesis by (intro accountedI [of _ "[True]"]) simp_all
next
  case False
  let ?w = "w\<lparr>faults := tl (faults w)\<rparr>"
  have f: "faults (snd (op ?w)) = tl (faults w)" using assms [of ?w] by simp
  from False have s: "snd (storeOp err op w) = snd (op ?w)"
    by (simp add: storeOp_def Let_def)
  show ?thesis
  proof (cases "faults w")
    case Nil
    with f s show ?thesis by (intro accountedI [of _ "[]"]) simp_all
  next
    case (Cons a fs)
    with False have a: "\<not> a" by (simp add: nextFails_def)
    from Cons f s a show ?thesis by (intro accountedI [of _ "[a]"]) simp_all
  qed
qed

lemma accounted_getActiveBudgets:
  "accounted w (isl (fst (BudgetDB_getActiveBudgets u w))) (snd (BudgetDB_getActiveBudgets u w))"
  unfolding BudgetDB_getActiveBudgets_def by (rule accounted_storeOp) simp

lemma accounted_getExpenses:
  "accounted w (isl (fst (ExpenseDB_getExpenses u w))) (snd (ExpenseDB_getExpenses u w))"
  unfolding ExpenseDB_getExpenses_def by (rule accounted_storeOp) simp

lemma accounted_getBudgetById:
  "accounted w (isl (fst (BudgetDB_getBudgetById k w))) (snd (BudgetDB_getBudgetById k w))"
  unfolding BudgetDB_getBudgetById_def by (rule accounted_storeOp) simp

lemma accounted_getRecentAlert:
  "accounted w (isl (fst (BudgetDB_getRecentAlert k ty h w))) (snd (BudgetDB_getRecentAlert k ty h w))"
  unfolding BudgetDB_getRecentAlert_def Let_def by (rule accounted_storeOp) simp

lemma accounted_addAlert:
  "accounted w (isl (fst (BudgetDB_addAlert a w))) (snd (BudgetDB_addAlert a w))"
  unfolding BudgetDB_addAlert_def by (rule accounted_storeOp) simp

lemma accounted_getBudgetProgress:
  "accounted w (isl (fst (BudgetService_getBudgetProgress cal u w)))
     (snd (BudgetService_getBudgetProgress cal u w))"
proof -
  obtain r1 w1 where a: "BudgetDB_getActiveBudgets u w = (r1, w1)"
    by (cases "BudgetDB_getActiveBudgets u w")
  obtain r2 w2 where b: "ExpenseDB_getExpenses u w1 = (r2, w2)"
    by (cases "ExpenseDB_getExpenses u w1")
  have a1: "accounted w (isl r1) w1" using accounted_getActiveBudgets [of w u] a by simp
  have a2: "accounted w1 (isl r2) w2" using accounted_getExpenses [of w1 u] b by simp
  have w': "snd (BudgetService_getBudgetProgress cal u w) = w2"
    by (cases r1; cases r2)
       (simp_all add: BudgetService_getBudgetProgress_def andThen_def promiseAll2_def a b)
  have r': "isl (fst (BudgetService_getBudgetProgress cal u w)) = (isl r1 \<or> isl r2)"
    by (cases r1; cases r2)
       (simp_all add: BudgetService_getBudgetProgress_def andThen_def promiseAll2_def a b)
  show ?thesis
  proof (cases "isl r1")
    case True
    from accounted_failed [OF a1 accounted_weaken [OF a2]] have "accounted w True w2" .
    with True show ?thesis by (simp add: w' r')
  next
    case False
    with a1 have "accounted w False w1" by simp
    from accounted_trans [OF this a2] have "accounted w (isl r2) w2" .
    with False show ?thesis by (simp add: w' r')
  qed
qed

lemma accounted_getBudgetById_run:
  "BudgetDB_getBudgetById k w = (r, w') \<Longrightarrow> accounted w (isl r) w'"
  using accounted_getBudgetById [of w k] by simp

lemma accounted_getRecentAlert_run:
  "BudgetDB_getRecentAlert k ty h w = (r, w') \<Longrightarrow> accounted w (isl r) w'"
  using accounted_getRecentAlert [of w k ty h] by simp

lemma accounted_addAlert_run:
  "BudgetDB_addAlert a w = (r, w') \<Longrightarrow> accounted w (isl r) w'"
  using accounted_addAlert [of w a] by simp

lemma accounted_getBudgetProgress_run:
  "BudgetService_getBudgetProgress cal u w = (r, w') \<Longrightarrow> accounted w (isl r) w'"
  using accounted_getBudgetProgress [of w cal u] by simp

lemma accounted_checkLoop:
  "accounted w (isl (fst (checkLoop u ps acc w))) (snd (checkLoop u ps acc w))"
proof (induction ps arbitrary: acc w)
  case Nil
  show ?case by (simp add: accounted_refl)
next
  case (Cons p rest)
  show ?case
  proof (cases rule: checkLoop_cases [of p w u rest acc])
    case (lookupFails e w1)
    from accounted_getBudgetById_run [OF lookupFails(1)] lookupFails(2)
    show ?thesis by simp
  next
    case (missing w1)
    from accounted_getBudgetById_run [OF missing(1)]
    have "accounted w False w1" by simp
    from accounted_trans [OF this Cons.IH [of w1 acc]] missing(2) show ?thesis by simp
  next
    case (noAlert budget w1)
    from accounted_getBudgetById_run [OF noAlert(1)]
    have "accounted w False w1" by simp
    from accounted_trans [OF this Cons.IH [of w1 acc]] noAlert(3) show ?thesis by simp
  next
    case (recentFails budget w1 ty e w2)
    from accounted_getBudgetById_run [OF recentFails(1)]
    have a1: "accounted w False w1" by simp
    from accounted_getRecentAlert_run [OF recentFails(3)]
    have "accounted w1 True w2" by simp
    from accounted_trans [OF a1 this] recentFails(4) show ?thesis by simp
  next
    case (suppressed budget w1 ty recent w2)
    from accounted_getBudgetById_run [OF suppressed(1)]
    have a1: "accounted w False w1" by simp
    from accounted_getRecentAlert_run [OF suppressed(3)]
    have "accounted w1 False w2" by simp
    from accounted_trans [OF a1 this] have "accounted w False w2" .
    from accounted_trans [OF this Cons.IH [of w2 acc]] suppressed(4) show ?thesis by simp
  next
    case (addFails budget w1 ty w2 e w4)
    from accounted_getBudgetById_run [OF addFails(1)]
    have a1: "accounted w False w1" by simp
    from accounted_getRecentAlert_run [OF addFails(3)]
    have "accounted w1 False w2" by simp
    from accounted_trans [OF a1 this] have a2: "accounted w False w2" .
    have a3: "accounted w2 False (w2\<lparr>uuids := stl (uuids w2)\<rparr>)"
      by (rule accounted_same_faults) simp
    from accounted_addAlert_run [OF addFails(4)]
    have "accounted (w2\<lparr>uuids := stl (uuids w2)\<rparr>) True w4" by simp
    from accounted_trans [OF accounted_trans [OF a2 a3] this] addFails(5)
    show ?thesis by simp
  next
    case (added budget w1 ty w2 w4)
    let ?alert = "newAlert (shd (uuids w2)) u budget p ty (clock w2)"
    from accounted_getBudgetById_run [OF added(1)]
    have a1: "accounted w False w1" by simp
    from accounted_getRecentAlert_run [OF added(3)]
    have "accounted w1 False w2" by simp
    from accounted_trans [OF a1 this] have a2: "accounted w False w2" .
    have a3: "accounted w2 False (w2\<lparr>uuids := stl (uuids w2)\<rparr>)"
      by (rule accounted_same_faults) simp
    from accounted_addAlert_run [OF added(4)]
    have "accounted (w2\<lparr>uuids := stl (uuids w2)\<rparr>) False w4" by simp
    from accounted_trans [OF accounted_trans [OF a2 a3] this] have "accounted w False w4" .
    from accounted_trans [OF this Cons.IH [of w4 "acc @ [?alert]"]] added(5)
    show ?thesis by simp
  qed
qed

lemma accounted_checkBudgets:
  "accounted w (isl (fst (BudgetService_checkBudgetsAndCreateAlerts cal u w)))
     (snd (BudgetService_checkBudgetsAndCreateAlerts cal u w))"
proof -
  obtain r1 w1 where p: "BudgetService_getBudgetProgress cal u w = (r1, w1)"
    by (cases "BudgetService_getBudgetProgress cal u w")
  from accounted_getBudgetProgress_run [OF p] have a1: "accounted w (isl r1) w1" .
  show ?thesis
  proof (cases r1)
    case (Inl e)
    with a1 p show ?thesis
      by (simp add: BudgetService_checkBudgetsAndCreateAlerts_def andThen_def)
  next
    case (Inr ps)
    with a1 have "accounted w False w1" by simp
    from accounted_trans [OF this accounted_checkLoop [of w1 u ps "[]"]] Inr p
    show ?thesis
      by (simp add: BudgetService_checkBudgetsAndCreateAlerts_def andThen_def)
  qed
qed

text \<open>Tracking composes along the operations of a function.\<close>

lemma tracksI: "(\<And>w. accounted w (isl (fst (m w))) (snd (m w))) \<Longrightarrow> tracks m"
  by (simp add: tracks_def)

lemma tracksD: "tracks m \<Longrightarrow> accounted w (isl (fst (m w))) (snd (m w))"
  by (simp add: tracks_def)

lemma tracks_propagates: "tracks m \<Longrightarrow> propagates m"
  unfolding propagates_def
proof (intro allI impI)
  fix w
  assume t: "tracks m" and r: "rejectedBetween w (snd (m w))"
  from accounted_rejected [OF tracksD [OF t] r] show "isl (fst (m w))" .
qed

lemma tracks_storeOp:
  assumes "\<And>v. faults (snd (op v)) = faults v"
  shows "tracks (storeOp err op)"
  by (rule tracksI) (rule accounted_storeOp [OF assms])

lemma tracks_ret: "tracks (ret x)"
  by (rule tracksI) (simp add: ret_def accounted_refl)

lemma tracks_andThen:
  assumes m: "tracks m" and f: "\<And>x. tracks (f x)"
  shows "tracks (andThen m f)"
proof (rule tracksI)
  fix w
  obtain r w1 where run: "m w = (r, w1)" by (cases "m w")
  from tracksD [OF m, of w] run have a1: "accounted w (isl r) w1" by simp
  show "accounted w (isl (fst (andThen m f w))) (snd (andThen m f w))"
  proof (cases r)
    case (Inl e)
    with a1 run show ?thesis by (simp add: andThen_def)
  next
    case (Inr x)
    with a1 have "accounted w False w1" by simp
    from accounted_trans [OF this tracksD [OF f [of x], of w1]] Inr run
    show ?thesis by (simp add: andThen_def)
  qed
qed

lemma accounted_faults_cong:
  "faults v = faults w \<Longrightarrow> accounted w b w' \<Longrightarrow> accounted v b w'"
  by (simp add: accounted_def)

lemma tracks_addExpense: "tracks (ExpenseDB_addExpense e)"
  unfolding ExpenseDB_addExpense_def by (rule tracks_storeOp) simp

lemma tracks_addBudget: "tracks (BudgetDB_addBudget b)"
  unfolding BudgetDB_addBudget_def by (rule tracks_storeOp) simp

lemma tracks_getExpenses: "tracks (ExpenseDB_getExpenses u)"
  unfolding ExpenseDB_getExpenses_def by (rule tracks_storeOp) simp

lemma tracks_getBudgets: "tracks (BudgetDB_getBudgets u)"
  unfolding BudgetDB_getBudgets_def by (rule tracks_storeOp) simp

lemma tracks_deleteExpense: "tracks (ExpenseDB_deleteExpense k)"
  unfolding ExpenseDB_deleteExpense_def by (rule tracks_storeOp) simp

lemma tracks_deleteBudget: "tracks (BudgetDB_deleteBudget k)"
  unfolding BudgetDB_deleteBudget_def
  by (rule tracks_andThen; rule tracks_storeOp) simp_all

lemma tracks_updateBudget: "tracks (BudgetDB_updateBudget k updates)"
  by (rule tracksI, unfold BudgetDB_updateBudget_def, rule accounted_storeOp) simp

lemma tracks_getAlerts: "tracks (BudgetDB_getAlerts u)"
  unfolding BudgetDB_getAlerts_def by (rule tracks_storeOp) simp

lemma tracks_dismissAlert: "tracks (BudgetDB_dismissAlert k)"
  unfolding BudgetDB_dismissAlert_def by (rule tracks_storeOp) simp

lemma tracks_clearOldAlerts: "tracks (BudgetDB_clearOldAlerts cal u n)"
  by (rule tracksI, unfold BudgetDB_clearOldAlerts_def Let_def, rule accounted_storeOp) simp

lemma tracks_getExpensesByDateRange: "tracks (ExpenseDB_getExpensesByDateRange u s e)"
  unfolding ExpenseDB_getExpensesByDateRange_def by (rule tracks_storeOp) simp

lemma tracks_addNewExpenses: "tracks (addNewExpenses ids xs n)"
proof (induction xs arbitrary: n)
  case Nil
  show ?case by (rule tracksI) (simp add: accounted_refl)
next
  case (Cons x xs)
  show ?case
  proof (rule tracksI)
    fix w
    let ?e = "x\<lparr>e_synced := True\<rparr>"
    obtain r w1 where run: "ExpenseDB_addExpense ?e w = (r, w1)"
      by (cases "ExpenseDB_addExpense ?e w")
    from tracksD [OF tracks_addExpense [of ?e], of w] run have a1: "accounted w (isl r) w1" by simp
    show "accounted w (isl (fst (addNewExpenses ids (x # xs) n w)))
            (snd (addNewExpenses ids (x # xs) n w))"
    proof (cases "e_id x \<notin> set ids")
      case False
      with tracksD [OF Cons.IH [of n], of w] show ?thesis by simp
    next
      case True
      show ?thesis
      proof (cases r)
        case (Inl e)
        with True a1 run show ?thesis by simp
      next
        case (Inr k)
        with a1 have "accounted w False w1" by simp
        from accounted_trans [OF this tracksD [OF Cons.IH [of "Suc n"], of w1]] True Inr run
        show ?thesis by simp
      qed
    qed
  qed
qed

lemma tracks_addNewBudgets: "tracks (addNewBudgets ids xs n)"
proof (induction xs arbitrary: n)
  case Nil
  show ?case by (rule tracksI) (simp add: accounted_refl)
next
  case (Cons x xs)
  show ?case
  proof (rule tracksI)
    fix w
    let ?b = "x\<lparr>b_synced := True\<rparr>"
    obtain r w1 where run: "BudgetDB_addBudget ?b w = (r, w1)"
      by (cases "BudgetDB_addBudget ?b w")
    from tracksD [OF tracks_addBudget [of ?b], of w] run have a1: "accounted w (isl r) w1" by simp
    show "accounted w (isl (fst (addNewBudgets ids (x # xs) n w)))
            (snd (addNewBudgets ids (x # xs) n w))"
    proof (cases "b_id x \<notin> set ids")
      case False
      with tracksD [OF Cons.IH [of n], of w] show ?thesis by simp
    next
      case True
      show ?thesis
      proof (cases r)
        case (Inl e)
        with True a1 run show ?thesis by simp
      next
        case (Inr k)
        with a1 have "accounted w False w1" by simp
        from accounted_trans [OF this tracksD [OF Cons.IH [of "Suc n"], of w1]] True Inr run
        show ?thesis by simp
      qed
    qed
  qed
qed

lemma tracks_syncFromFirebase: "tracks (SyncService_syncFromFirebase u)"
  unfolding SyncService_syncFromFirebase_def getDocs_expenses_def
  by (intro tracks_andThen tracks_getExpenses tracks_addNewExpenses tracks_ret tracks_storeOp)
     simp

lemma tracks_syncBudgetsFromFirebase: "tracks (SyncService_syncBudgetsFromFirebase u)"
  unfolding SyncService_syncBudgetsFromFirebase_def getDocs_budgets_def
  by (intro tracks_andThen tracks_getBudgets tracks_addNewBudgets tracks_ret tracks_storeOp)
     simp

lemma tracks_SyncService_deleteExpense: "tracks (SyncService_deleteExpense k)"
  unfolding SyncService_deleteExpense_def
proof (rule tracks_andThen [OF tracks_deleteExpense])
  fix x :: unit
  have d: "tracks (deleteDoc_expenses k)"
    unfolding deleteDoc_expenses_def by (rule tracks_storeOp) simp
  show "tracks (\<lambda>w. if SyncService_isOnline w then deleteDoc_expenses k w else (Inr (), w))"
  proof (rule tracksI)
    fix w
    show "accounted w
            (isl (fst (if SyncService_isOnline w then deleteDoc_expenses k w else (Inr (), w))))
            (snd (if SyncService_isOnline w then deleteDoc_expenses k w else (Inr (), w)))"
      using tracksD [OF d, of w] by (simp add: accounted_refl)
  qed
qed

lemma tracks_createBudget: "tracks (BudgetService_createBudget u d)"
proof (rule tracksI)
  fix w :: world
  let ?w1 = "w\<lparr>uuids := stl (uuids w)\<rparr>"
  let ?b = "\<lparr>b_id = shd (uuids w), b_userId = u, b_name = bf_name d,
             b_amount = bf_amount d, b_period = bf_period d,
             b_category = bf_category d, b_enabled = bf_enabled d,
             b_warningThreshold = bf_warningThreshold d, b_createdAt = clock w,
             b_updatedAt = clock w, b_synced = False\<rparr>"
  have run: "BudgetService_createBudget u d w = andThen (BudgetDB_addBudget ?b) (\<lambda>_. ret ?b) ?w1"
    by (simp add: BudgetService_createBudget_def uuidv4_def Let_def)
  have "tracks (andThen (BudgetDB_addBudget ?b) (\<lambda>_. ret ?b))"
    by (intro tracks_andThen tracks_addBudget tracks_ret)
  from tracksD [OF this, of ?w1]
  show "accounted w (isl (fst (BudgetService_createBudget u d w)))
          (snd (BudgetService_createBudget u d w))"
    unfolding run by (rule accounted_faults_cong [rotated]) simp
qed

lemma tracks_getUnsyncedExpenses: "tracks (ExpenseDB_getUnsyncedExpenses u)"
  unfolding ExpenseDB_getUnsyncedExpenses_def by (rule tracks_storeOp) simp

lemma tracks_updateExpense: "tracks (ExpenseDB_updateExpense k ue)"
  unfolding ExpenseDB_updateExpense_def by (rule tracks_storeOp) simp

lemma tracks_markAsSynced: "tracks (ExpenseDB_markAsSynced k)"
  unfolding ExpenseDB_markAsSynced_def by (rule tracks_storeOp) simp

lemma tracks_clearUserExpenses: "tracks (ExpenseDB_clearUserExpenses u)"
  unfolding ExpenseDB_clearUserExpenses_def by (rule tracks_storeOp) simp

lemma tracks_getBudgetById: "tracks (BudgetDB_getBudgetById k)"
  by (rule tracksI) (rule accounted_getBudgetById)

lemma tracks_getActiveBudgets: "tracks (BudgetDB_getActiveBudgets u)"
  by (rule tracksI) (rule accounted_getActiveBudgets)

lemma tracks_getUnsyncedBudgets: "tracks (BudgetDB_getUnsyncedBudgets u)"
  unfolding BudgetDB_getUnsyncedBudgets_def by (rule tracks_storeOp) simp

lemma tracks_markBudgetAsSynced: "tracks (BudgetDB_markBudgetAsSynced k)"
  unfolding BudgetDB_markBudgetAsSynced_def by (rule tracks_storeOp) simp

lemma tracks_addAlert: "tracks (BudgetDB_addAlert a)"
  by (rule tracksI) (rule accounted_addAlert)

lemma tracks_getRecentAlert: "tracks (BudgetDB_getRecentAlert k ty h)"
  by (rule tracksI) (rule accounted_getRecentAlert)

lemma tracks_getBudgetProgress: "tracks (BudgetService_getBudgetProgress cal u)"
  by (rule tracksI) (rule accounted_getBudgetProgress)

lemma tracks_checkBudgets: "tracks (BudgetService_checkBudgetsAndCreateAlerts cal u)"
  by (rule tracksI) (rule accounted_checkBudgets)

lemma tracks_getExpenseStats: "tracks (ExpenseDB_getExpenseStats cal u)"
proof (rule tracksI)
  fix w
  show "accounted w (isl (fst (ExpenseDB_getExpenseStats cal u w)))
          (snd (ExpenseDB_getExpenseStats cal u w))"
    unfolding ExpenseDB_getExpenseStats_def Let_def
    by (rule tracksD [OF tracks_andThen [OF tracks_getExpenses tracks_ret]])
qed

text \<open>The operations with a \<^verbatim>\<open>catch\<close> that does not rethrow.\<close>

lemma isl_andThen_unit:
  "isl (fst (andThen m (\<lambda>_. n) w)) = (isl (fst (m w)) \<or> isl (fst (n (snd (m w)))))"
  by (cases "m w"; cases "fst (m w)") (auto simp: andThen_def)

lemma getSyncStatus_fst:
  "fst (ExpenseService_getSyncStatus u w) =
     (if nextFails w then Inr \<lparr>unsyncedCount = 0, isOnline = False\<rparr>
      else Inr \<lparr>unsyncedCount = length (filter (\<lambda>e. \<not> e_synced e) (ownerRows u w)),
                isOnline = onLine w\<rparr>)"
  by (simp add: ExpenseService_getSyncStatus_def tryCatch_def andThen_def ret_def
      ExpenseDB_getUnsyncedExpenses_def SyncService_isOnline_def storeOp_def Let_def ownerRows_def)

lemma getExpenseById_fst:
  "fst (ExpenseService_getExpenseById k w) =
     (if nextFails w then Inr None else Inr (find (\<lambda>e. e_id e = k) (ownerRows [] w)))"
  by (simp add: ExpenseService_getExpenseById_def tryCatch_def andThen_def ret_def
      ExpenseDB_getExpenses_def storeOp_def Let_def ownerRows_def)

lemma syncToFirebase_isl:
  "isl (fst (SyncService_syncToFirebase u w)) = (\<not> syncInProgress w \<and> nextFails w)"
proof (cases "syncInProgress w")
  case True
  then show ?thesis by (simp add: syncToFirebase_unfold)
next
  case False
  let ?w = "w\<lparr>syncInProgress := True\<rparr>"
  have nf: "nextFails ?w = nextFails w" by (simp add: nextFails_def)
  obtain r w' where rd: "ExpenseDB_getUnsyncedExpenses u ?w = (r, w')"
    by (cases "ExpenseDB_getUnsyncedExpenses u ?w")
  from getUnsyncedExpenses_fst [of u ?w] rd nf
  have "isl r = nextFails w" by (cases "nextFails w") simp_all
  with False rd show ?thesis by (cases r) (simp_all add: syncToFirebase_unfold)
qed

lemma syncBudgetsToFirebase_isl:
  "isl (fst (SyncService_syncBudgetsToFirebase u w)) = nextFails w"
  by (cases "nextFails w")
     (simp_all add: SyncService_syncBudgetsToFirebase_def andThen_def ret_def
        BudgetDB_getUnsyncedBudgets_def storeOp_def Let_def)

lemma tryCatch_ret_isl: "\<not> isl (fst (tryCatch m (\<lambda>err. ret x) w))"
  by (cases "m w"; cases "fst (m w)") (auto simp: tryCatch_def ret_def)

lemma updateExpense_isl:
  "isl (fst (ExpenseService_updateExpense k updates w)) = nextFails w"
proof (cases "nextFails w")
  case True
  then show ?thesis
    by (simp add: ExpenseService_updateExpense_def andThen_def ExpenseDB_updateExpense_def
        storeOp_def Let_def)
next
  case False
  obtain w1 where up: "ExpenseDB_updateExpense k (updateData updates (clock w)) w = (Inr (), w1)"
    using False by (simp add: ExpenseDB_updateExpense_def storeOp_def Let_def)
  show ?thesis
    using False tryCatch_ret_isl [of _ "()" w1]
    by (simp add: ExpenseService_updateExpense_def andThen_def up)
qed

lemma addExpense_isl:
  "isl (fst (ExpenseService_addExpense u d w)) =
     (nextFails w \<or> shd (uuids w) \<in> set (map e_id (expenses w)))"
proof -
  let ?w1 = "w\<lparr>uuids := stl (uuids w)\<rparr>"
  let ?e = "\<lparr>e_id = shd (uuids w), e_userId = u, e_amount = f_amount d,
             e_category = f_category d, e_description = f_description d, e_date = f_date d,
             e_createdAt = clock w, e_updatedAt = clock w, e_synced = False\<rparr>"
  have nf: "nextFails ?w1 = nextFails w" by (simp add: nextFails_def)
  obtain r w2 where add: "ExpenseDB_addExpense ?e ?w1 = (r, w2)"
    by (cases "ExpenseDB_addExpense ?e ?w1")
  have "isl (fst (ExpenseDB_addExpense ?e ?w1)) =
          (nextFails w \<or> shd (uuids w) \<in> set (map e_id (expenses w)))"
    using nf by (simp add: ExpenseDB_addExpense_def storeOp_def Let_def)
  with add have r: "isl r = (nextFails w \<or> shd (uuids w) \<in> set (map e_id (expenses w)))"
    by simp
  have rest: "\<not> isl (fst (andThen (tryCatch (SyncService_syncToFirebase u) (\<lambda>err. ret ()))
                           (\<lambda>_. ret ?e) w2))"
    using tryCatch_ret_isl [of "SyncService_syncToFirebase u" "()" w2]
    by (simp add: isl_andThen_unit ret_def)
  have "isl (fst (ExpenseService_addExpense u d w)) = isl r"
  proof (cases r)
    case (Inl e)
    with add show ?thesis
      by (simp add: ExpenseService_addExpense_def uuidv4_def Let_def andThen_def)
  next
    case (Inr x)
    with add rest show ?thesis
      by (simp add: ExpenseService_addExpense_def uuidv4_def Let_def andThen_def)
  qed
  with r show ?thesis by simp
qed

lemma debugUnsyncedExpenses_isl: "\<not> isl (fst (SyncService_debugUnsyncedExpenses u w))"
  unfolding SyncService_debugUnsyncedExpenses_def by (rule tryCatch_ret_isl)

lemma manualSync_isl:
  "isl (fst (ExpenseService_manualSync u w)) =
     (if onLine w then isl (fst (SyncService_fullSync u w)) else True)"
  by (simp add: ExpenseService_manualSync_def SyncService_isOnline_def)

lemma initializeSync_isl:
  "isl (fst (ExpenseService_initializeSync u w)) =
     (if onLine w then isl (fst (SyncService_fullSync u w)) else False)"
  by (simp add: ExpenseService_initializeSync_def SyncService_isOnline_def)

lemma fullSync_isl:
  "isl (fst (SyncService_fullSync u w)) =
     (isl (fst (SyncService_syncFromFirebase u w)) \<or>
      isl (fst (SyncService_syncBudgetsFromFirebase u (snd (SyncService_syncFromFirebase u w)))) \<or>
      (\<not> syncInProgress (afterPulls u w) \<and> nextFails (afterPulls u w)) \<or>
      nextFails (snd (SyncService_syncToFirebase u (afterPulls u w))))"
  by (simp add: SyncService_fullSync_def isl_andThen_unit syncToFirebase_isl
      syncBudgetsToFirebase_isl)

text \<open>
  Claim C9, as the claim states it, fails, for one for \<^verbatim>\<open>getSyncStatus\<close>: its \<^verbatim>\<open>catch\<close>
  block returns a status object. Here the device is online and holds one unsynced
  expense; the read of the local store is rejected, and the caller is told: nothing
  unsynced, offline.
\<close>

theorem getSyncStatus_swallows_read_failure:
  "ExpenseService_getSyncStatus ''u1'' (world_push\<lparr>faults := [True]\<rparr>)
     = (Inr \<lparr>unsyncedCount = 0, isOnline = False\<rparr>, world_push)
   \<and> onLine world_push
   \<and> ExpenseService_getSyncStatus ''u1'' world_push
     = (Inr \<lparr>unsyncedCount = 1, isOnline = True\<rparr>, world_push)"
  by (simp add: ExpenseService_getSyncStatus_def tryCatch_def andThen_def ret_def
      ExpenseDB_getUnsyncedExpenses_def SyncService_isOnline_def storeOp_def nextFails_def
      Let_def world_push_def world0_def expense1_def expense2_def)

text \<open>
  Claim C9, amended. The operations of the program fall into two groups. Those whose
  \<^verbatim>\<open>catch\<close> blocks rethrow propagate: whenever a store operation is rejected while one of
  them runs, it ends in an error and returns no result. These are all operations of
  \<^verbatim>\<open>ExpenseDB\<close> and \<^verbatim>\<open>BudgetDB\<close>, the operations of \<^verbatim>\<open>BudgetService\<close> (among them
  \<^verbatim>\<open>getBudgetProgress\<close> and \<^verbatim>\<open>checkBudgetsAndCreateAlerts\<close>), the listing, statistics and
  deleting operations of \<^verbatim>\<open>ExpenseService\<close>, the two pulls and
  \<^verbatim>\<open>SyncService.deleteExpense\<close>. The others catch a failure of the local store and return
  normally: \<^verbatim>\<open>getSyncStatus\<close> never fails and answers
  \<^verbatim>\<open>{unsyncedCount: 0, isOnline: false}\<close> when its read is rejected; \<^verbatim>\<open>getExpenseById\<close>
  never fails and answers \<^verbatim>\<open>null\<close>; \<^verbatim>\<open>debugUnsyncedExpenses\<close> never fails; the two pushes
  fail exactly when their first read is rejected (a rejected \<^verbatim>\<open>markAsSynced\<close> is counted
  and passed over); \<^verbatim>\<open>fullSync\<close> fails exactly when a pull fails or the first read of a
  push is rejected, \<^verbatim>\<open>initializeSync\<close> when it is online and its full sync fails,
  \<^verbatim>\<open>manualSync\<close> when it is offline or its full sync fails;
  \<^verbatim>\<open>ExpenseService.updateExpense\<close> and \<^verbatim>\<open>ExpenseService.addExpense\<close> fail exactly when
  their own write fails, whatever happens in the push that follows it.
\<close>

theorem store_failure_propagates_unless_caught:
  "(propagates (ExpenseDB_addExpense e) \<and>
    propagates (ExpenseDB_getExpenses u) \<and>
    propagates (ExpenseDB_getExpensesByDateRange u d1 d2) \<and>
    propagates (ExpenseDB_getUnsyncedExpenses u) \<and>
    propagates (ExpenseDB_updateExpense k ue) \<and>
    propagates (ExpenseDB_markAsSynced k) \<and>
    propagates (ExpenseDB_deleteExpense k) \<and>
    propagates (ExpenseDB_clearUserExpenses u) \<and>
    propagates (ExpenseDB_getExpenseStats cal u)) \<and>
   (propagates (BudgetDB_addBudget b) \<and>
    propagates (BudgetDB_getBudgets u) \<and>
    propagates (BudgetDB_getBudgetById k) \<and>
    propagates (BudgetDB_updateBudget k ub) \<and>
    propagates (BudgetDB_deleteBudget k) \<and>
    propagates (BudgetDB_getActiveBudgets u) \<and>
    propagates (BudgetDB_getUnsyncedBudgets u) \<and>
    propagates (BudgetDB_markBudgetAsSynced k) \<and>
    propagates (BudgetDB_addAlert a) \<and>
    propagates (BudgetDB_getAlerts u) \<and>
    propagates (BudgetDB_dismissAlert k) \<and>
    propagates (BudgetDB_clearOldAlerts cal u n) \<and>
    propagates (BudgetDB_getRecentAlert k ty h)) \<and>
   (propagates (BudgetService_createBudget u bd) \<and>
    propagates (BudgetService_getBudgets u) \<and>
    propagates (BudgetService_updateBudget k ubf) \<and>
    propagates (BudgetService_deleteBudget k) \<and>
    propagates (BudgetService_getBudgetProgress cal u) \<and>
    propagates (BudgetService_checkBudgetsAndCreateAlerts cal u) \<and>
    propagates (BudgetService_getAlerts u) \<and>
    propagates (BudgetService_dismissAlert k) \<and>
    propagates (BudgetService_cleanupOldAlerts cal u)) \<and>
   (propagates (ExpenseService_getExpenses u) \<and>
    propagates (ExpenseService_getExpensesByDateRange u d1 d2) \<and>
    propagates (ExpenseService_deleteExpense k) \<and>
    propagates (SyncService_deleteExpense k) \<and>
    propagates (SyncService_syncFromFirebase u) \<and>
    propagates (SyncService_syncBudgetsFromFirebase u) \<and>
    propagates (ExpenseService_getExpenseStats cal u)) \<and>
   (fst (ExpenseService_getSyncStatus u w) =
      (if nextFails w then Inr \<lparr>unsyncedCount = 0, isOnline = False\<rparr>
       else Inr \<lparr>unsyncedCount = length (filter (\<lambda>e. \<not> e_synced e) (ownerRows u w)),
                 isOnline = onLine w\<rparr>) \<and>
    fst (ExpenseService_getExpenseById k w) =
      (if nextFails w then Inr None else Inr (find (\<lambda>e. e_id e = k) (ownerRows [] w))) \<and>
    isl (fst (SyncService_syncToFirebase u w)) = (\<not> syncInProgress w \<and> nextFails w) \<and>
    isl (fst (SyncService_syncBudgetsToFirebase u w)) = nextFails w \<and>
    isl (fst (SyncService_fullSync u w)) =
      (isl (fst (SyncService_syncFromFirebase u w)) \<or>
       isl (fst (SyncService_syncBudgetsFromFirebase u (snd (SyncService_syncFromFirebase u w)))) \<or>
       (\<not> syncInProgress (afterPulls u w) \<and> nextFails (afterPulls u w)) \<or>
       nextFails (snd (SyncService_syncToFirebase u (afterPulls u w)))) \<and>
    isl (fst (ExpenseService_updateExpense k uf w)) = nextFails w \<and>
    isl (fst (ExpenseService_addExpense u fd w)) =
      (nextFails w \<or> shd (uuids w) \<in> set (map e_id (expenses w))) \<and>
    \<not> isl (fst (SyncService_debugUnsyncedExpenses u w)) \<and>
    isl (fst (ExpenseService_manualSync u w)) =
      (if onLine w then isl (fst (SyncService_fullSync u w)) else True) \<and>
    isl (fst (ExpenseService_initializeSync u w)) =
      (if onLine w then isl (fst (SyncService_fullSync u w)) else False))"
proof -
  have expenseDB:
    "propagates (ExpenseDB_addExpense e) \<and>
     propagates (ExpenseDB_getExpenses u) \<and>
     propagates (ExpenseDB_getExpensesByDateRange u d1 d2) \<and>
     propagates (ExpenseDB_getUnsyncedExpenses u) \<and>
     propagates (ExpenseDB_updateExpense k ue) \<and>
     propagates (ExpenseDB_markAsSynced k) \<and>
     propagates (ExpenseDB_deleteExpense k) \<and>
     propagates (ExpenseDB_clearUserExpenses u) \<and>
     propagates (ExpenseDB_getExpenseStats cal u)"
    by (intro conjI tracks_propagates tracks_addExpense tracks_getExpenses
        tracks_getExpensesByDateRange tracks_getUnsyncedExpenses tracks_updateExpense
        tracks_markAsSynced tracks_deleteExpense tracks_clearUserExpenses
        tracks_getExpenseStats)
  have budgetDB:
    "propagates (BudgetDB_addBudget b) \<and>
     propagates (BudgetDB_getBudgets u) \<and>
     propagates (BudgetDB_getBudgetById k) \<and>
     propagates (BudgetDB_updateBudget k ub) \<and>
     propagates (BudgetDB_deleteBudget k) \<and>
     propagates (BudgetDB_getActiveBudgets u) \<and>
     propagates (BudgetDB_getUnsyncedBudgets u) \<and>
     propagates (BudgetDB_markBudgetAsSynced k) \<and>
     propagates (BudgetDB_addAlert a) \<and>
     propagates (BudgetDB_getAlerts u) \<and>
     propagates (BudgetDB_dismissAlert k) \<and>
     propagates (BudgetDB_clearOldAlerts cal u n) \<and>
     propagates (BudgetDB_getRecentAlert k ty h)"
    by (intro conjI tracks_propagates tracks_addBudget tracks_getBudgets tracks_getBudgetById
        tracks_updateBudget tracks_deleteBudget tracks_getActiveBudgets
        tracks_getUnsyncedBudgets tracks_markBudgetAsSynced tracks_addAlert tracks_getAlerts
        tracks_dismissAlert tracks_clearOldAlerts tracks_getRecentAlert)
  have budgetService:
    "propagates (BudgetService_createBudget u bd) \<and>
     propagates (BudgetService_getBudgets u) \<and>
     propagates (BudgetService_updateBudget k ubf) \<and>
     propagates (BudgetService_deleteBudget k) \<and>
     propagates (BudgetService_getBudgetProgress cal u) \<and>
     propagates (BudgetService_checkBudgetsAndCreateAlerts cal u) \<and>
     propagates (BudgetService_getAlerts u) \<and>
     propagates (BudgetService_dismissAlert k) \<and>
     propagates (BudgetService_cleanupOldAlerts cal u)"
    unfolding BudgetService_getBudgets_def BudgetService_updateBudget_def
      BudgetService_deleteBudget_def BudgetService_getAlerts_def BudgetService_dismissAlert_def
      BudgetService_cleanupOldAlerts_def
    by (intro conjI tracks_propagates tracks_createBudget tracks_getBudgets tracks_updateBudget
        tracks_deleteBudget tracks_getBudgetProgress tracks_checkBudgets tracks_getAlerts
        tracks_dismissAlert tracks_clearOldAlerts)
  have services:
    "propagates (ExpenseService_getExpenses u) \<and>
     propagates (ExpenseService_getExpensesByDateRange u d1 d2) \<and>
     propagates (ExpenseService_deleteExpense k) \<and>
     propagates (SyncService_deleteExpense k) \<and>
     propagates (SyncService_syncFromFirebase u) \<and>
     propagates (SyncService_syncBudgetsFromFirebase u) \<and>
     propagates (ExpenseService_getExpenseStats cal u)"
    unfolding ExpenseService_getExpenses_def ExpenseService_getExpensesByDateRange_def
      ExpenseService_deleteExpense_def ExpenseService_getExpenseStats_def
    by (intro conjI tracks_propagates tracks_getExpenses tracks_getExpensesByDateRange
        tracks_SyncService_deleteExpense tracks_syncFromFirebase tracks_syncBudgetsFromFirebase
        tracks_getExpenseStats)
  have catching:
    "fst (ExpenseService_getSyncStatus u w) =
      (if nextFails w then Inr \<lparr>unsyncedCount = 0, isOnline = False\<rparr>
       else Inr \<lparr>unsyncedCount = length (filter (\<lambda>e. \<not> e_synced e) (ownerRows u w)),
                 isOnline = onLine w\<rparr>) \<and>
    fst (ExpenseService_getExpenseById k w) =
      (if nextFails w then Inr None else Inr (find (\<lambda>e. e_id e = k) (ownerRows [] w))) \<and>
    isl (fst (SyncService_syncToFirebase u w)) = (\<not> syncInProgress w \<and> nextFails w) \<and>
    isl (fst (SyncService_syncBudgetsToFirebase u w)) = nextFails w \<and>
    isl (fst (SyncService_fullSync u w)) =
      (isl (fst (SyncService_syncFromFirebase u w)) \<or>
       isl (fst (SyncService_syncBudgetsFromFirebase u (snd (SyncService_syncFromFirebase u w)))) \<or>
       (\<not> syncInProgress (afterPulls u w) \<and> nextFails (afterPulls u w)) \<or>
       nextFails (snd (SyncService_syncToFirebase u (afterPulls u w)))) \<and>
    isl (fst (ExpenseService_updateExpense k uf w)) = nextFails w \<and>
    isl (fst (ExpenseService_addExpense u fd w)) =
      (nextFails w \<or> shd (uuids w) \<in> set (map e_id (expenses w))) \<and>
    \<not> isl (fst (SyncService_debugUnsyncedExpenses u w)) \<and>
    isl (fst (ExpenseService_manualSync u w)) =
      (if onLine w then isl (fst (SyncService_fullSync u w)) else True) \<and>
    isl (fst (ExpenseService_initializeSync u w)) =
      (if onLine w then isl (fst (SyncService_fullSync u w)) else False)"
    by (intro conjI getSyncStatus_fst getExpenseById_fst syncToFirebase_isl
        syncBudgetsToFirebase_isl fullSync_isl updateExpense_isl addExpense_isl
        debugUnsyncedExpenses_isl manualSync_isl initializeSync_isl)
  show ?thesis
    by (intro conjI expenseDB budgetDB budgetService services catching)
qed

theorem store_failure_propagates_witness:
  "(rejectedBetween (world_push\<lparr>faults := [True]\<rparr>)
      (snd (BudgetService_getBudgetProgress utc ''u1'' (world_push\<lparr>faults := [True]\<rparr>))) \<and>
    isl (fst (BudgetService_getBudgetProgress utc ''u1'' (world_push\<lparr>faults := [True]\<rparr>))) \<and>
    BudgetService_getBudgetProgress utc ''u1'' (world_push\<lparr>faults := [True]\<rparr>)
      = (Inl StorageFailure, world_push)) \<and>
   (rejectedBetween (world_push\<lparr>faults := [True]\<rparr>)
      (snd (BudgetService_checkBudgetsAndCreateAlerts utc ''u1'' (world_push\<lparr>faults := [True]\<rparr>))) \<and>
    isl (fst (BudgetService_checkBudgetsAndCreateAlerts utc ''u1''
                (world_push\<lparr>faults := [True]\<rparr>))) \<and>
    BudgetService_checkBudgetsAndCreateAlerts utc ''u1'' (world_push\<lparr>faults := [True]\<rparr>)
      = (Inl StorageFailure, world_push)) \<and>
   (rejectedBetween (world_two_budgets\<lparr>faults := [False, True]\<rparr>)
      (snd (BudgetDB_deleteBudget ''b1'' (world_two_budgets\<lparr>faults := [False, True]\<rparr>))) \<and>
    isl (fst (BudgetDB_deleteBudget ''b1'' (world_two_budgets\<lparr>faults := [False, True]\<rparr>)))) \<and>
   (rejectedBetween (world_push\<lparr>faults := [False, True]\<rparr>)
      (snd (SyncService_syncFromFirebase ''u1'' (world_push\<lparr>faults := [False, True]\<rparr>))) \<and>
    isl (fst (SyncService_syncFromFirebase ''u1'' (world_push\<lparr>faults := [False, True]\<rparr>))) \<and>
    SyncService_syncFromFirebase ''u1'' (world_push\<lparr>faults := [False, True]\<rparr>)
      = (Inl StorageFailure, world_push)) \<and>
   (nextFails (world_push\<lparr>faults := [True]\<rparr>) \<and>
    fst (ExpenseService_getSyncStatus ''u1'' (world_push\<lparr>faults := [True]\<rparr>))
      = Inr \<lparr>unsyncedCount = 0, isOnline = False\<rparr> \<and>
    fst (ExpenseService_getExpenseById ''e2'' (world_push\<lparr>faults := [True]\<rparr>)) = Inr None) \<and>
   (rejectedBetween (world_push\<lparr>faults := [False, False, True]\<rparr>)
      (snd (SyncService_syncToFirebase ''u1'' (world_push\<lparr>faults := [False, False, True]\<rparr>))) \<and>
    \<not> isl (fst (SyncService_syncToFirebase ''u1''
                  (world_push\<lparr>faults := [False, False, True]\<rparr>))))"
proof -
  let ?w1 = "world_push\<lparr>faults := [True]\<rparr>"
  let ?w2 = "world_push\<lparr>faults := [False, True]\<rparr>"
  let ?w3 = "world_push\<lparr>faults := [False, False, True]\<rparr>"
  let ?wb = "world_two_budgets\<lparr>faults := [False, True]\<rparr>"
  have p: "BudgetService_getBudgetProgress utc ''u1'' ?w1 = (Inl StorageFailure, world_push)"
    by (simp add: BudgetService_getBudgetProgress_def andThen_def promiseAll2_def
        BudgetDB_getActiveBudgets_def ExpenseDB_getExpenses_def storeOp_def nextFails_def
        Let_def world_push_def world0_def)
  have c: "BudgetService_checkBudgetsAndCreateAlerts utc ''u1'' ?w1
             = (Inl StorageFailure, world_push)"
    by (simp add: BudgetService_checkBudgetsAndCreateAlerts_def andThen_def p)
  have d: "BudgetDB_deleteBudget ''b1'' ?wb
             = (Inl StorageFailure,
                world_two_budgets\<lparr>budgets := [budget1\<lparr>b_id := ''b2''\<rparr>]\<rparr>)"
    by (simp add: BudgetDB_deleteBudget_def andThen_def storeOp_def nextFails_def Let_def
        world_two_budgets_def world1_def world0_def budget1_def)
  have s: "SyncService_syncFromFirebase ''u1'' ?w2 = (Inl StorageFailure, world_push)"
    by (simp add: SyncService_syncFromFirebase_def andThen_def getDocs_expenses_def
        ExpenseDB_getExpenses_def storeOp_def nextFails_def Let_def world_push_def world0_def)
  have u: "SyncService_syncToFirebase ''u1'' ?w3
             = (Inr (), world_push\<lparr>fsExpenses := [(''e2'', asSynced expense2)]\<rparr>)"
    by (simp add: syncToFirebase_unfold ExpenseDB_getUnsyncedExpenses_def uploadExpense_def
        andThen_def tryCatch_def setDoc_expenses_def setDoc_def markAsSynced_alt storeOp_def
        nextFails_def Let_def world_push_def world0_def expense1_def expense2_def)
  have r1: "rejectedBetween ?w1 world_push"
    and r2: "rejectedBetween ?w2 world_push"
    and r3: "rejectedBetween ?w3 (world_push\<lparr>fsExpenses := [(''e2'', asSynced expense2)]\<rparr>)"
    by (simp_all add: rejectedBetween_def world_push_def world0_def)
  have rb: "rejectedBetween ?wb (world_two_budgets\<lparr>budgets := [budget1\<lparr>b_id := ''b2''\<rparr>]\<rparr>)"
    by (simp add: rejectedBetween_def world_two_budgets_def world1_def world0_def)
  have rp: "rejectedBetween ?w1 (snd (BudgetService_getBudgetProgress utc ''u1'' ?w1))"
    by (simp add: p r1)
  have rc: "rejectedBetween ?w1 (snd (BudgetService_checkBudgetsAndCreateAlerts utc ''u1'' ?w1))"
    by (simp add: c r1)
  have rd: "rejectedBetween ?wb (snd (BudgetDB_deleteBudget ''b1'' ?wb))"
    by (simp add: d rb)
  have rs: "rejectedBetween ?w2 (snd (SyncService_syncFromFirebase ''u1'' ?w2))"
    by (simp add: s r2)
  have ru: "rejectedBetween ?w3 (snd (SyncService_syncToFirebase ''u1'' ?w3))"
    by (simp add: u r3)
  have nf: "nextFails ?w1" "\<not> nextFails ?w3"
    by (simp_all add: nextFails_def)
  note t1 = store_failure_propagates_unless_caught
      [where cal = utc and u = "''u1''" and k = "''b1''" and w = ?w1]
  note t2 = store_failure_propagates_unless_caught
      [where u = "''u1''" and k = "''e2''" and w = ?w1]
  note t3 = store_failure_propagates_unless_caught [where u = "''u1''" and w = ?w3]
  note budgetDB = t1 [THEN conjunct2, THEN conjunct1]
  note budgetService = t1 [THEN conjunct2, THEN conjunct2, THEN conjunct1]
  note services = t1 [THEN conjunct2, THEN conjunct2, THEN conjunct2, THEN conjunct1]
  note catching1 = t1 [THEN conjunct2, THEN conjunct2, THEN conjunct2, THEN conjunct2]
  note catching2 = t2 [THEN conjunct2, THEN conjunct2, THEN conjunct2, THEN conjunct2]
  note catching3 = t3 [THEN conjunct2, THEN conjunct2, THEN conjunct2, THEN conjunct2]
  note ip = budgetService [THEN conjunct2, THEN conjunct2, THEN conjunct2, THEN conjunct2,
      THEN conjunct1, unfolded propagates_def, rule_format, OF rp]
  note ic = budgetService [THEN conjunct2, THEN conjunct2, THEN conjunct2, THEN conjunct2,
      THEN conjunct2, THEN conjunct1, unfolded propagates_def, rule_format, OF rc]
  note idb = budgetDB [THEN conjunct2, THEN conjunct2, THEN conjunct2, THEN conjunct2,
      THEN conjunct1, unfolded propagates_def, rule_format, OF rd]
  note isf = services [THEN conjunct2, THEN conjunct2, THEN conjunct2, THEN conjunct2,
      THEN conjunct1, unfolded propagates_def, rule_format, OF rs]
  from catching1 [THEN conjunct1] nf(1)
  have gs: "fst (ExpenseService_getSyncStatus ''u1'' ?w1)
      = Inr \<lparr>unsyncedCount = 0, isOnline = False\<rparr>" by simp
  from catching2 [THEN conjunct2, THEN conjunct1] nf(1)
  have ge: "fst (ExpenseService_getExpenseById ''e2'' ?w1) = Inr None" by simp
  from catching3 [THEN conjunct2, THEN conjunct2, THEN conjunct1] nf(2)
  have iu: "\<not> isl (fst (SyncService_syncToFirebase ''u1'' ?w3))" by simp
  show ?thesis
    by (intro conjI rp ip p rc ic c rd idb rs isf s nf(1) gs ge ru iu)
qed

section \<open>Current spending and the clock\<close>


lemma utc_midnight:
  "periodStart utc Daily 5000 = 0" "periodStart utc Daily 86405000 = 86400000"
  by code_simp+




section \<open>Classification of the spend\<close>

lemma utc_next_midnight:
  "newDate utc (getFullYear utc 5000) (getMonth utc 5000) (getDate utc 5000 + 1) = 86400000"
  by code_simp

lemma daysLeft_daily: "BudgetService_calculateDaysLeft utc Daily (world_spent amt) = 1"
  by (simp add: BudgetService_calculateDaysLeft_def world_spent_def world0_def
      utc_next_midnight Let_def)

lemma spent_today:
  "BudgetService_calculateCurrentSpending utc [spend amt] budget1 (world_spent amt) = amt"
  by (simp add: BudgetService_calculateCurrentSpending_def relevantExpense_def utc_midnight
      world_spent_def world0_def spend_def budget1_def Let_def)

lemma no_faults_left: "faults w = [] \<Longrightarrow> w\<lparr>faults := []\<rparr> = w"
  by simp

lemma progressOf_996:
  "budgetProgressOf utc [spend 996] (world_spent 996) budget1 = progress996"
proof -
  have b: "b_id budget1 = ''b1''" "b_name budget1 = ''Food''" "b_period budget1 = Daily"
    "b_category budget1 = None" "b_amount budget1 = 1000" "b_warningThreshold budget1 = 80"
    by (simp_all add: budget1_def)
  show ?thesis
    by (simp add: budgetProgressOf_def spent_today daysLeft_daily Let_def progress996_def
        b js_div_def)
qed

lemma progress_996:
  "BudgetService_getBudgetProgress utc ''u1'' (world_spent 996) = (Inr [progress996], world_spent 996)"
proof -
  note progressOf_996
  moreover have "faults (world_spent 996) = []" "budgets (world_spent 996) = [budget1]"
    "expenses (world_spent 996) = [spend 996]" "b_userId budget1 = ''u1''" "b_enabled budget1"
    "e_userId (spend 996) = ''u1''"
    by (simp_all add: world_spent_def world0_def budget1_def spend_def)
  ultimately show ?thesis
    by (simp add: BudgetService_getBudgetProgress_def andThen_def promiseAll2_def
        BudgetDB_getActiveBudgets_def ExpenseDB_getExpenses_def storeOp_def nextFails_def Let_def
        no_faults_left)
qed

lemma evaluate_996:
  "BudgetService_checkBudgetsAndCreateAlerts utc ''u1'' (world_spent 996)
     = (Inr [alert996], world_spent 996\<lparr>alerts := [alert996]\<rparr>)"
proof -
  have found: "BudgetDB_getBudgetById ''b1'' (world_spent 996) = (Inr (Some budget1), world_spent 996)"
    by (simp add: BudgetDB_getBudgetById_def storeOp_def nextFails_def Let_def world_spent_def
        world0_def budget1_def)
  have ty: "alertTypeOf progress996 = Some Exceeded"
    by (simp add: alertTypeOf_def progress996_def)
  have recent: "BudgetDB_getRecentAlert ''b1'' Exceeded 24 (world_spent 996)
      = (Inr None, world_spent 996)"
    by (simp add: BudgetDB_getRecentAlert_def storeOp_def nextFails_def Let_def world_spent_def
        world0_def)
  have new: "newAlert ''a1'' ''u1'' budget1 progress996 Exceeded 5000 = alert996"
    by (simp add: newAlert_def generateAlertMessage_def progress996_def alert996_def budget1_def)
  have uu: "uuidv4 (world_spent 996) = (''a1'', world_spent 996)"
    by (simp add: uuidv4_def world_spent_def world0_def)
  have add: "BudgetDB_addAlert alert996 (world_spent 996)
      = (Inr (), world_spent 996\<lparr>alerts := [alert996]\<rparr>)"
    by (simp add: BudgetDB_addAlert_def storeOp_def nextFails_def Let_def world_spent_def world0_def)
  have ck: "clock (world_spent 996) = 5000" "b_id budget1 = ''b1''" "p_budgetId progress996 = ''b1''"
    by (simp_all add: world_spent_def world0_def budget1_def progress996_def)
  have loop: "checkLoop ''u1'' [progress996] [] (world_spent 996)
      = (Inr [alert996], world_spent 996\<lparr>alerts := [alert996]\<rparr>)"
    by (simp add: found ty recent uu new add ck)
  show ?thesis
    by (simp add: BudgetService_checkBudgetsAndCreateAlerts_def andThen_def progress_996 loop
        del: checkLoop.simps)
qed

text \<open>
  Claim C6. The code does not classify by the exact ratio: the alert loop compares
  \<^verbatim>\<open>progress.percentage\<close>, which \<^verbatim>\<open>getBudgetProgress\<close> has rounded to an integer. With 996
  spent of 1000 the ratio is 99.6: the progress entry has status \<^verbatim>\<open>warning\<close>, and the
  evaluation persists and returns an alert of kind \<^verbatim>\<open>exceeded\<close> at 100 percent.
\<close>

theorem evaluate_classifies_rounded_percentage:
  "BudgetService_getBudgetProgress utc ''u1'' (world_spent 996)
     = (Inr [progress996], world_spent 996)
   \<and> p_status progress996 = StWarning
   \<and> p_spent progress996 < p_limit progress996
   \<and> BudgetService_checkBudgetsAndCreateAlerts utc ''u1'' (world_spent 996)
     = (Inr [alert996], world_spent 996\<lparr>alerts := [alert996]\<rparr>)
   \<and> a_type alert996 = Exceeded"
proof -
  have "p_status progress996 = StWarning" "p_spent progress996 < p_limit progress996"
    "a_type alert996 = Exceeded"
    by (simp_all add: progress996_def alert996_def)
  with progress_996 evaluate_996 show ?thesis by (intro conjI)
qed

section \<open>Alerts are not repeated within 24 hours\<close>



















text \<open>
  The budgets of the store have distinct ids: \<^verbatim>\<open>id\<close> is the primary key of the table, and
  every write to the table keeps it so.
\<close>

lemma budget_ids_stay_distinct:
  assumes "distinct (map b_id (budgets w))"
  shows "distinct (map b_id (budgets (snd (BudgetDB_addBudget b w))))"
    and "distinct (map b_id (budgets (snd (BudgetDB_updateBudget k ub w))))"
    and "distinct (map b_id (budgets (snd (BudgetDB_deleteBudget k w))))"
    and "distinct (map b_id (budgets (snd (BudgetDB_markBudgetAsSynced k w))))"
proof -
  show "distinct (map b_id (budgets (snd (BudgetDB_addBudget b w))))"
    using assms by (cases "nextFails w") (simp_all add: BudgetDB_addBudget_def storeOp_def Let_def)
  show "distinct (map b_id (budgets (snd (BudgetDB_updateBudget k ub w))))"
    using assms
    by (cases "nextFails w")
       (simp_all add: BudgetDB_updateBudget_def storeOp_def Let_def map_b_id_update
          del: map_map)
  show "distinct (map b_id (budgets (snd (BudgetDB_deleteBudget k w))))"
    using assms
    by (cases "nextFails w"; cases "nextFails (w\<lparr>faults := tl (faults w)\<rparr>)")
       (simp_all add: BudgetDB_deleteBudget_def andThen_def storeOp_def Let_def nextFails_def
          distinct_map_filter)
  show "distinct (map b_id (budgets (snd (BudgetDB_markBudgetAsSynced k w))))"
    using assms
    by (cases "nextFails w")
       (simp_all add: BudgetDB_markBudgetAsSynced_def storeOp_def Let_def map_b_id_update
          del: map_map)
qed




end
